theory Spec2Isabelle
  imports Complex_Main
begin

section \<open>Python values carried by the JSON frames\<close>

text \<open>
  Every frame the bridge handles is the result of \<^verbatim>\<open>json.loads\<close>: a Python value built
  from \<^verbatim>\<open>None\<close>, booleans, integers, floats, strings, lists and dicts.  A float is either
  finite (its exact value, a rational number) or one of the three special values that
  \<^verbatim>\<open>json.loads\<close> also accepts (\<^verbatim>\<open>Infinity\<close>, \<^verbatim>\<open>-Infinity\<close>, \<^verbatim>\<open>NaN\<close>, and any literal
  too large for a double such as \<^verbatim>\<open>1e999\<close>).  A dict is kept as the list of its items;
  \<open>JNull\<close> is Python's \<^verbatim>\<open>None\<close>.
\<close>

datatype pyfloat = Finite rat | PosInf | NegInf | NaN

datatype json =
    JNull
  | JBool bool
  | JInt int
  | JFloat pyfloat
  | JStr string
  | JArr "json list"
  | JObj "(string \<times> json) list"

type_synonym pydict = "(string \<times> json) list"

datatype py_error =
    AttributeError
  | KeyError
  | TypeError
  | ValueError
  | OverflowError
  | ValidationError
  | RecursionError
  | RuntimeError

text \<open>\<^verbatim>\<open>d.get(key)\<close> and \<^verbatim>\<open>d.get(key, default)\<close> on a dict.\<close>

definition dict_get :: "pydict \<Rightarrow> string \<Rightarrow> json" where
  "dict_get d k = (case map_of d k of None \<Rightarrow> JNull | Some v \<Rightarrow> v)"

definition dict_get_default :: "pydict \<Rightarrow> string \<Rightarrow> json \<Rightarrow> json" where
  "dict_get_default d k dflt = (case map_of d k of None \<Rightarrow> dflt | Some v \<Rightarrow> v)"

text \<open>Python truthiness, as \<^verbatim>\<open>if x:\<close> and \<^verbatim>\<open>not x\<close> read a value.\<close>

fun truthy :: "json \<Rightarrow> bool" where
  "truthy JNull = False"
| "truthy (JBool b) = b"
| "truthy (JInt n) = (n \<noteq> 0)"
| "truthy (JFloat (Finite r)) = (r \<noteq> 0)"
| "truthy (JFloat f) = True"
| "truthy (JStr s) = (s \<noteq> [])"
| "truthy (JArr xs) = (xs \<noteq> [])"
| "truthy (JObj kvs) = (kvs \<noteq> [])"

section \<open>The connection registry (app/websocket/connection\_manager.py)\<close>

text \<open>
  A WebSocket object is known by its identity (Starlette compares connections by
  identity), here a natural number.  \<open>active_connections\<close> is the dict from connection
  type to the list of its connections, \<open>connection_types\<close> the dict from connection to
  type.  \<open>closed\<close> logs, in order, every connection on which the registry called
  \<^verbatim>\<open>close()\<close>; an exception of \<^verbatim>\<open>close()\<close> is caught and logged by
  \<^verbatim>\<open>_disconnect_websocket\<close>, so it changes nothing else.
\<close>

type_synonym ws = nat

record connection_manager =
  active_connections :: "string \<rightharpoonup> ws list"
  connection_types :: "ws \<rightharpoonup> string"
  closed :: "ws list"

definition cm_init :: connection_manager where
  "cm_init = \<lparr> active_connections = [''call'' \<mapsto> [], ''logs'' \<mapsto> []],
               connection_types = Map.empty,
               closed = [] \<rparr>"

text \<open>
  One of the two eviction blocks of \<^verbatim>\<open>connect\<close>:
  \<^verbatim>\<open>if connection_type == role and self.active_connections[role]:\<close> close every
  connection of the list, then clear the list.  The subscript raises \<^verbatim>\<open>KeyError\<close> when
  the key is gone.
\<close>

definition evict_role :: "string \<Rightarrow> string \<Rightarrow> connection_manager \<Rightarrow> py_error + connection_manager" where
  "evict_role role connection_type cm =
     (if connection_type \<noteq> role then Inr cm
      else (case active_connections cm role of
              None \<Rightarrow> Inl KeyError
            | Some olds \<Rightarrow>
               (if olds = [] then Inr cm
                else Inr (cm \<lparr> closed := closed cm @ olds,
                               active_connections := (active_connections cm)(role \<mapsto> []) \<rparr>))))"

text \<open>
  \<^verbatim>\<open>ConnectionManager.connect(websocket, connection_type)\<close>.  \<open>accept_ok\<close> says whether
  \<^verbatim>\<open>await websocket.accept()\<close> returned; when it raises, the exception leaves
  \<^verbatim>\<open>connect\<close> before the registry is touched.
\<close>

definition cm_connect :: "ws \<Rightarrow> string \<Rightarrow> bool \<Rightarrow> connection_manager \<Rightarrow> py_error + connection_manager" where
  "cm_connect websocket connection_type accept_ok cm =
     (if \<not> accept_ok then Inl RuntimeError
      else (case evict_role ''call'' connection_type cm of
             Inl e \<Rightarrow> Inl e
           | Inr cm1 \<Rightarrow>
              (case evict_role ''logs'' connection_type cm1 of
                 Inl e \<Rightarrow> Inl e
               | Inr cm2 \<Rightarrow>
                  (case active_connections cm2 connection_type of
                     None \<Rightarrow> Inl KeyError
                   | Some conns \<Rightarrow>
                       Inr (cm2 \<lparr> active_connections :=
                                     (active_connections cm2)(connection_type \<mapsto> conns @ [websocket]),
                                  connection_types :=
                                     (connection_types cm2)(websocket \<mapsto> connection_type) \<rparr>)))))"

text \<open>
  \<^verbatim>\<open>ConnectionManager.disconnect(websocket)\<close>: a no-op unless the connection has a
  (non-empty) recorded type and is in that type's list; \<^verbatim>\<open>list.remove\<close> deletes the first
  occurrence.
\<close>

definition cm_disconnect :: "ws \<Rightarrow> connection_manager \<Rightarrow> py_error + connection_manager" where
  "cm_disconnect websocket cm =
     (case connection_types cm websocket of
        None \<Rightarrow> Inr cm
      | Some connection_type \<Rightarrow>
          if connection_type = [] then Inr cm
          else (case active_connections cm connection_type of
                  None \<Rightarrow> Inl KeyError
                | Some conns \<Rightarrow>
                   (if websocket \<in> set conns
                    then Inr (cm \<lparr> active_connections :=
                                       (active_connections cm)(connection_type \<mapsto> remove1 websocket conns),
                                    connection_types := (connection_types cm)(websocket := None) \<rparr>)
                    else Inr cm)))"

text \<open>\<^verbatim>\<open>get_connection_count\<close> and \<^verbatim>\<open>get_active_connection\<close>.\<close>

definition get_connection_count :: "connection_manager \<Rightarrow> string \<Rightarrow> nat" where
  "get_connection_count cm connection_type =
     (case active_connections cm connection_type of None \<Rightarrow> 0 | Some conns \<Rightarrow> length conns)"

definition get_active_connection :: "connection_manager \<Rightarrow> string \<Rightarrow> ws option" where
  "get_active_connection cm connection_type =
     (case active_connections cm connection_type of
        None \<Rightarrow> None
      | Some [] \<Rightarrow> None
      | Some (c # _) \<Rightarrow> Some c)"

text \<open>
  The calls the two dispatchers make on the registry.  A call that raises leaves the
  registry as it was (the exception is handled by the dispatcher), so a run over a list
  of calls keeps the state of the last call that returned.
\<close>

datatype cm_op = Accept ws string bool | Release ws

fun cm_step :: "connection_manager \<Rightarrow> cm_op \<Rightarrow> connection_manager" where
  "cm_step cm (Accept w r ok) = (case cm_connect w r ok cm of Inl _ \<Rightarrow> cm | Inr cm' \<Rightarrow> cm')"
| "cm_step cm (Release w) = (case cm_disconnect w cm of Inl _ \<Rightarrow> cm | Inr cm' \<Rightarrow> cm')"

definition cm_run :: "cm_op list \<Rightarrow> connection_manager" where
  "cm_run ops = foldl cm_step cm_init ops"

text \<open>Single occupancy: both roles are present and hold at most one connection.\<close>

definition single_occupancy :: "connection_manager \<Rightarrow> bool" where
  "single_occupancy cm =
     (get_connection_count cm ''call'' \<le> 1 \<and> get_connection_count cm ''logs'' \<le> 1
      \<and> active_connections cm ''call'' \<noteq> None \<and> active_connections cm ''logs'' \<noteq> None)"

section \<open>Integer coercion (\<^verbatim>\<open>SessionManager._safe_int\<close>)\<close>

text \<open>
  Python's \<^verbatim>\<open>int(s)\<close> on a string.  A string is a list of code points below 256 here.
  The interpreter first turns the code points from 127 on into ASCII: white space (of
  these, 133 and 160) becomes a blank, and any other one makes the text unreadable.  The
  text is then read in base 10: leading white space (the code points 9 to 13 and 32; the
  separators 28 to 31 are not skipped), one optional sign, a non-empty run of decimal
  digits in which single underscores may stand between digits, trailing white space.  A
  text with more than 4300 digits is refused (the interpreter's default limit); every
  refusal is a \<^verbatim>\<open>ValueError\<close>.
\<close>

definition is_space :: "char \<Rightarrow> bool" where
  "is_space c = (let n = (of_char c :: nat) in (9 \<le> n \<and> n \<le> 13) \<or> n = 32 \<or> n = 133 \<or> n = 160)"

definition is_digit :: "char \<Rightarrow> bool" where
  "is_digit c = (let n = (of_char c :: nat) in 48 \<le> n \<and> n \<le> 57)"

definition digit_val :: "char \<Rightarrow> int" where
  "digit_val c = int (of_char c) - 48"

fun parse_digits :: "int \<Rightarrow> bool \<Rightarrow> string \<Rightarrow> int option" where
  "parse_digits acc prev_digit [] = (if prev_digit then Some acc else None)"
| "parse_digits acc prev_digit (c # cs) =
     (if is_digit c then parse_digits (acc * 10 + digit_val c) True cs
      else if c = CHR ''_'' \<and> prev_digit then parse_digits acc False cs
      else None)"

definition strip :: "string \<Rightarrow> string" where
  "strip s = rev (dropWhile is_space (rev (dropWhile is_space s)))"

definition int_of_str :: "string \<Rightarrow> int option" where
  "int_of_str s =
     (if 4300 < length (filter is_digit s) then None
      else (case strip s of
              [] \<Rightarrow> None
            | c # cs \<Rightarrow>
                if c = CHR ''-'' then map_option uminus (parse_digits 0 False cs)
                else if c = CHR ''+'' then parse_digits 0 False cs
                else parse_digits 0 False (c # cs)))"

text \<open>
  \<^verbatim>\<open>int(value)\<close> on a parsed JSON value: booleans are integers, a finite float is
  truncated towards zero, \<^verbatim>\<open>nan\<close> raises \<^verbatim>\<open>ValueError\<close>, an infinite float raises
  \<^verbatim>\<open>OverflowError\<close>, a string is parsed or raises \<^verbatim>\<open>ValueError\<close>, and \<^verbatim>\<open>None\<close>, lists and
  dicts raise \<^verbatim>\<open>TypeError\<close>.
\<close>

fun py_int :: "json \<Rightarrow> py_error + int" where
  "py_int JNull = Inl TypeError"
| "py_int (JBool b) = Inr (if b then 1 else 0)"
| "py_int (JInt n) = Inr n"
| "py_int (JFloat (Finite r)) = Inr (if 0 \<le> r then \<lfloor>r\<rfloor> else \<lceil>r\<rceil>)"
| "py_int (JFloat NaN) = Inl ValueError"
| "py_int (JFloat PosInf) = Inl OverflowError"
| "py_int (JFloat NegInf) = Inl OverflowError"
| "py_int (JStr s) = (case int_of_str s of None \<Rightarrow> Inl ValueError | Some n \<Rightarrow> Inr n)"
| "py_int (JArr xs) = Inl TypeError"
| "py_int (JObj kvs) = Inl TypeError"

text \<open>
  \<^verbatim>\<open>_safe_int(value, default=0)\<close>:
  \<^verbatim>\<open>try: return int(value) if value is not None else default\<close>,
  \<^verbatim>\<open>except (ValueError, TypeError): return default\<close>.  Any other exception of
  \<^verbatim>\<open>int\<close> leaves the function.
\<close>

definition safe_int :: "json \<Rightarrow> int \<Rightarrow> py_error + int" where
  "safe_int v dflt =
     (if v = JNull then Inr dflt
      else (case py_int v of
              Inr n \<Rightarrow> Inr n
            | Inl e \<Rightarrow> if e = ValueError \<or> e = TypeError then Inr dflt else Inl e))"

text \<open>The value of a state field that holds an integer or \<^verbatim>\<open>None\<close>.\<close>

definition opt_json :: "int option \<Rightarrow> json" where
  "opt_json x = (case x of None \<Rightarrow> JNull | Some n \<Rightarrow> JInt n)"

text \<open>
  \<^verbatim>\<open>_safe_int\<close> on such a field (lemma \<open>safe_int_field_eq\<close> below: this is \<open>safe_int\<close> of
  the field's value, which cannot raise).
\<close>

definition safe_int_field :: "int option \<Rightarrow> int" where
  "safe_int_field x = (case x of None \<Rightarrow> 0 | Some n \<Rightarrow> n)"

section \<open>Session state, the speech client and the bridge\<close>

text \<open>\<^verbatim>\<open>SessionState\<close> (app/models/schemas.py); every field defaults to \<^verbatim>\<open>None\<close>.\<close>

record session_state =
  stream_sid :: json
  latest_media_timestamp :: "int option"
  response_start_timestamp :: "int option"
  last_assistant_item :: json
  saved_config :: json

definition SessionState :: session_state where
  "SessionState = \<lparr> stream_sid = JNull, latest_media_timestamp = None,
                     response_start_timestamp = None, last_assistant_item = JNull,
                     saved_config = JNull \<rparr>"

text \<open>
  The outbound session to the speech endpoint, as the client sees it: the frames the
  peer will still deliver (\<open>None\<close> for a text that \<^verbatim>\<open>json.loads\<close> rejects), how the stream
  of frames ends, and whether the connection is still open.  A send on an open
  connection succeeds; a send on a closed one raises \<^verbatim>\<open>ConnectionClosed\<close>.
\<close>

datatype stream_end = CloseOK | CloseError | ReadError

record transport =
  inbound :: "json option list"
  ending :: stream_end
  is_open :: bool

text \<open>What \<^verbatim>\<open>websockets.connect\<close> does when it is called.\<close>

datatype dial = Refused | Accepted transport

text \<open>
  The connection callbacks.  The program installs the bridge's two methods; any other
  callable matters to the client only by whether it raises.
\<close>

datatype callback = Bridge_on_connected | Bridge_on_disconnected | Raising_callback | Quiet_callback

text \<open>
  \<^verbatim>\<open>OpenAIClient\<close> (app/services/openai\_client.py).  \<open>reconnect_task\<close> is the test
  \<^verbatim>\<open>self.reconnect_task and not self.reconnect_task.done()\<close>; \<open>message_handler\<close> says
  whether a handler is set (the program sets the bridge's \<^verbatim>\<open>handle_openai_message\<close>).
  The two delays are seconds, finite floats kept as their exact values (the program sets
  them to the literals 1.0, 30.0, 2.0 and 60.0); the counter starts at 0 and is only
  incremented or reset to 0.
\<close>

record openai_client =
  websocket :: "transport option"
  is_connected :: bool
  message_handler :: bool
  session_config :: json
  auto_reconnect :: bool
  max_reconnect_attempts :: int
  reconnect_delay :: rat
  max_reconnect_delay :: rat
  current_reconnect_attempts :: nat
  reconnect_task :: bool
  on_connected :: "callback option"
  on_disconnected :: "callback option"

definition OpenAIClient :: openai_client where
  "OpenAIClient = \<lparr> websocket = None, is_connected = False, message_handler = False,
                     session_config = JNull, auto_reconnect = True,
                     max_reconnect_attempts = 5, reconnect_delay = 1,
                     max_reconnect_delay = 30, current_reconnect_attempts = 0,
                     reconnect_task = False, on_connected = None, on_disconnected = None \<rparr>"

text \<open>\<^verbatim>\<open>OpenAISessionConfig\<close> and its defaults.\<close>

record session_cfg =
  modalities :: "string list"
  turn_detection :: "(string \<times> string) list"
  voice :: string
  input_audio_transcription :: "(string \<times> string) list"
  input_audio_format :: string
  output_audio_format :: string

definition OpenAISessionConfig :: session_cfg where
  "OpenAISessionConfig = \<lparr> modalities = [''text'', ''audio''],
                            turn_detection = [(''type'', ''server_vad'')],
                            voice = ''ash'',
                            input_audio_transcription = [(''model'', ''whisper-1'')],
                            input_audio_format = ''g711_ulaw'',
                            output_audio_format = ''g711_ulaw'' \<rparr>"

text \<open>
  The result string of a tool call.  \<open>JsonDumps d\<close> is the string \<^verbatim>\<open>json.dumps(d)\<close> of a
  dict literal \<open>d\<close> of the source, kept as the list of its items; the values of these
  literals are the three message texts \<^verbatim>\<open>f"No handler found for function: {name}"\<close>,
  \<^verbatim>\<open>"Invalid JSON arguments for function call"\<close> and
  \<^verbatim>\<open>f"Error running function {name}: {str(e)}"\<close>.  \<open>HandlerResult s\<close> is the string a
  registered handler returned.
\<close>

datatype errmsg = No_handler_found json | Invalid_JSON_arguments | Error_running string string

datatype fresult = JsonDumps "(string \<times> errmsg) list" | HandlerResult string

text \<open>
  What \<^verbatim>\<open>json.loads\<close> does with a text: it returns the parsed value, raises
  \<^verbatim>\<open>JSONDecodeError\<close>, or raises another exception (\<^verbatim>\<open>RecursionError\<close> on brackets nested
  deeper than the interpreter's recursion limit, a plain \<^verbatim>\<open>ValueError\<close> on an integer
  literal of more than 4300 digits).
\<close>

datatype loads_result = Parsed json | Decode_error | Loads_raises py_error

datatype handler_outcome = Returns string | Raises string

text \<open>
  The messages the bridge builds, one constructor for each dict literal of the source,
  and the messages it passes on unchanged.
\<close>

datatype openai_msg =
    SessionUpdate session_cfg
  | InputAudioBufferAppend json
  | ConversationItemCreate json fresult
  | ResponseCreate
  | ConversationItemTruncate json int int
  | Verbatim pydict

datatype twilio_msg = TwilioMedia json json | TwilioMark json | TwilioClear json

datatype frontend_msg = Mirror json | ConnectionStatus string string

text \<open>
  What the program does to the outside, in order.  \<open>ToOpenAI m r\<close>: the message \<open>m\<close> was
  handed to \<^verbatim>\<open>openai_client.send_message\<close>, which returned \<open>r\<close> (\<open>True\<close> exactly when the
  message went out on the connection).  \<open>ToTwilio\<close> and \<open>ToFrontend\<close>: \<^verbatim>\<open>send_text\<close> was
  called on that socket with the serialised message (an exception of the call is caught
  and logged by \<^verbatim>\<open>_send_to_twilio\<close> and \<^verbatim>\<open>_send_to_frontend\<close>).
\<close>

datatype effect =
    ToOpenAI openai_msg bool
  | ToTwilio ws twilio_msg
  | ToFrontend ws frontend_msg
  | CloseSocket ws
  | CloseOpenAI
  | Dial bool
  | Sleep pyfloat
  | SpawnReconnect
  | CancelReconnect

text \<open>
  The bridge: the \<^verbatim>\<open>SessionManager\<close> object with the client it holds, the handler table
  of the global \<^verbatim>\<open>function_handler_service\<close>, and the trace of effects so far.
  \<open>json_loads\<close> is the library function \<^verbatim>\<open>json.loads\<close> on text; no operation changes it.
\<close>

record bridge =
  state :: session_state
  twilio_websocket :: "ws option"
  frontend_websocket :: "ws option"
  openai_client :: "openai_client option"
  handlers :: "string \<rightharpoonup> (json \<Rightarrow> handler_outcome)"
  json_loads :: "string \<Rightarrow> loads_result"
  trace :: "effect list"

definition emit :: "effect \<Rightarrow> bridge \<Rightarrow> bridge" where
  "emit e w = w \<lparr> trace := trace w @ [e] \<rparr>"

definition upd_client :: "(openai_client \<Rightarrow> openai_client) \<Rightarrow> bridge \<Rightarrow> bridge" where
  "upd_client f w = w \<lparr> openai_client := map_option f (openai_client w) \<rparr>"

text \<open>\<^verbatim>\<open>_send_to_twilio\<close> and \<^verbatim>\<open>_send_to_frontend\<close>.\<close>

definition send_to_twilio :: "twilio_msg \<Rightarrow> bridge \<Rightarrow> bridge" where
  "send_to_twilio m w =
     (case twilio_websocket w of None \<Rightarrow> w | Some t \<Rightarrow> emit (ToTwilio t m) w)"

definition send_to_frontend :: "frontend_msg \<Rightarrow> bridge \<Rightarrow> bridge" where
  "send_to_frontend m w =
     (case frontend_websocket w of None \<Rightarrow> w | Some f \<Rightarrow> emit (ToFrontend f m) w)"

text \<open>
  Calling a connection callback inside \<^verbatim>\<open>try ... except Exception\<close>:
  \<^verbatim>\<open>_on_openai_connected\<close> and \<^verbatim>\<open>_on_openai_disconnected\<close> notify the observer leg; an
  exception of any callback is logged and goes no further.
\<close>

fun run_callback :: "callback option \<Rightarrow> bridge \<Rightarrow> bridge" where
  "run_callback None w = w"
| "run_callback (Some Bridge_on_connected) w =
     send_to_frontend (ConnectionStatus ''openai_connected'' ''OpenAI connection established'') w"
| "run_callback (Some Bridge_on_disconnected) w =
     send_to_frontend (ConnectionStatus ''openai_disconnected'' ''OpenAI connection lost, reconnecting...'') w"
| "run_callback (Some Raising_callback) w = w"
| "run_callback (Some Quiet_callback) w = w"

text \<open>
  \<^verbatim>\<open>_start_reconnect\<close>: nothing when a reconnect task is in flight, else the reconnect
  loop is created as a task (it runs later; its body is \<open>reconnect_loop\<close> below).
\<close>

definition start_reconnect :: "bridge \<Rightarrow> bridge" where
  "start_reconnect w =
     (case openai_client w of
        None \<Rightarrow> w
      | Some c \<Rightarrow>
          if reconnect_task c then w
          else emit SpawnReconnect (upd_client (\<lambda>c. c \<lparr> reconnect_task := True \<rparr>) w))"

definition handle_connection_failure :: "bridge \<Rightarrow> bridge" where
  "handle_connection_failure w =
     (case openai_client w of
        None \<Rightarrow> w
      | Some c \<Rightarrow> if auto_reconnect c then start_reconnect w else w)"

definition handle_disconnection :: "bridge \<Rightarrow> bridge" where
  "handle_disconnection w =
     (case openai_client w of
        None \<Rightarrow> w
      | Some c \<Rightarrow>
          if is_connected c then
            (let w1 = upd_client (\<lambda>c. c \<lparr> is_connected := False \<rparr>) w;
                 w2 = run_callback (on_disconnected c) w1
             in if auto_reconnect c then start_reconnect w2 else w2)
          else w)"

text \<open>
  \<^verbatim>\<open>OpenAIClient.send_message\<close>, called on the client the bridge holds: \<^verbatim>\<open>False\<close>
  without a send when the client is not connected or has no socket; \<^verbatim>\<open>True\<close> after a
  send; a send on a closed connection raises \<^verbatim>\<open>ConnectionClosed\<close>, which runs the
  disconnection path and returns \<^verbatim>\<open>False\<close>.
\<close>

definition send_message :: "openai_msg \<Rightarrow> bridge \<Rightarrow> bridge" where
  "send_message m w =
     (case openai_client w of
        None \<Rightarrow> w
      | Some c \<Rightarrow>
          (case websocket c of
             None \<Rightarrow> emit (ToOpenAI m False) w
           | Some tr \<Rightarrow>
               if \<not> is_connected c then emit (ToOpenAI m False) w
               else if is_open tr then emit (ToOpenAI m True) w
               else handle_disconnection (emit (ToOpenAI m False) w)))"

text \<open>\<^verbatim>\<open>OpenAIClient.disconnect(disable_reconnect)\<close>.\<close>

definition client_disconnect :: "bool \<Rightarrow> bridge \<Rightarrow> bridge" where
  "client_disconnect disable_reconnect w =
     (case openai_client w of
        None \<Rightarrow> w
      | Some c \<Rightarrow>
          (let w1 = upd_client (\<lambda>c. c \<lparr> auto_reconnect := (if disable_reconnect then False else auto_reconnect c),
                                         is_connected := False \<rparr>) w;
               w2 = (if reconnect_task c
                     then emit CancelReconnect (upd_client (\<lambda>c. c \<lparr> reconnect_task := False \<rparr>) w1)
                     else w1)
           in if websocket c \<noteq> None
              then upd_client (\<lambda>c. c \<lparr> websocket := None \<rparr>) (emit CloseOpenAI w2)
              else w2))"

section \<open>Tool calls (app/services/function\_handlers.py)\<close>

text \<open>
  \<^verbatim>\<open>FunctionHandlerService.handle_function_call(name, arguments)\<close> with the values the
  bridge passes.  The test \<^verbatim>\<open>name not in self.handlers\<close> raises \<^verbatim>\<open>TypeError\<close> on a list
  or a dict (unhashable) and is true of every other value that is not a registered
  string; \<^verbatim>\<open>json.loads(arguments)\<close> raises \<^verbatim>\<open>TypeError\<close> on a value that is not text and
  \<^verbatim>\<open>JSONDecodeError\<close> on text it cannot parse, which alone is caught by
  \<^verbatim>\<open>except json.JSONDecodeError\<close>: any other exception of \<^verbatim>\<open>json.loads\<close> leaves the
  function.  An exception of the handler is turned into an error result.
\<close>

definition handle_function_call ::
  "(string \<rightharpoonup> (json \<Rightarrow> handler_outcome)) \<Rightarrow> (string \<Rightarrow> loads_result) \<Rightarrow> json \<Rightarrow> json \<Rightarrow> py_error + fresult" where
  "handle_function_call hs loads name arguments =
     (case name of
        JArr _ \<Rightarrow> Inl TypeError
      | JObj _ \<Rightarrow> Inl TypeError
      | JStr n \<Rightarrow>
          (case hs n of
             None \<Rightarrow> Inr (JsonDumps [(''error'', No_handler_found name)])
           | Some h \<Rightarrow>
               (case arguments of
                  JStr a \<Rightarrow>
                    (case loads a of
                       Decode_error \<Rightarrow> Inr (JsonDumps [(''error'', Invalid_JSON_arguments)])
                     | Loads_raises e \<Rightarrow> Inl e
                     | Parsed args \<Rightarrow>
                         (case h args of
                            Returns r \<Rightarrow> Inr (HandlerResult r)
                          | Raises e \<Rightarrow> Inr (JsonDumps [(''error'', Error_running n e)])))
                | _ \<Rightarrow> Inl TypeError))
      | _ \<Rightarrow> Inr (JsonDumps [(''error'', No_handler_found name)]))"

text \<open>
  The result is \<^verbatim>\<open>json.dumps\<close> of a dict that has the key \<^verbatim>\<open>"error"\<close> (the serialisation
  of a dict of texts is a JSON object with the same keys).
\<close>

fun is_error_json :: "fresult \<Rightarrow> bool" where
  "is_error_json (JsonDumps d) = (map_of d ''error'' \<noteq> None)"
| "is_error_json (HandlerResult s) = False"

section \<open>The session bridge (app/services/session\_manager.py)\<close>

text \<open>
  \<^verbatim>\<open>_handle_truncation\<close>.  The guard is
  \<^verbatim>\<open>not self.state.last_assistant_item or self.state.response_start_timestamp is None\<close>;
  \<open>audio_end_ms\<close> is the offset computed from the two timestamps through \<^verbatim>\<open>_safe_int\<close>.
\<close>

definition audio_end_ms :: "session_state \<Rightarrow> int" where
  "audio_end_ms s =
     (let latest_timestamp = safe_int_field (latest_media_timestamp s);
          response_timestamp = safe_int_field (response_start_timestamp s);
          elapsed_ms = latest_timestamp - response_timestamp
      in max elapsed_ms 0)"

definition handle_truncation :: "bridge \<Rightarrow> bridge" where
  "handle_truncation w =
     (if \<not> truthy (last_assistant_item (state w)) \<or> response_start_timestamp (state w) = None
      then w
      else
        (let w1 = (if openai_client w \<noteq> None
                   then send_message (ConversationItemTruncate (last_assistant_item (state w)) 0
                                        (audio_end_ms (state w))) w
                   else w);
             w2 = (if twilio_websocket w1 \<noteq> None \<and> truthy (stream_sid (state w1))
                   then send_to_twilio (TwilioClear (stream_sid (state w1))) w1
                   else w1)
         in w2 \<lparr> state := (state w2) \<lparr> last_assistant_item := JNull,
                                        response_start_timestamp := None \<rparr> \<rparr>))"

text \<open>\<^verbatim>\<open>_handle_audio_delta\<close>; \<^verbatim>\<open>latest_media_timestamp or 0\<close> is 0 for \<^verbatim>\<open>None\<close>.\<close>

definition handle_audio_delta :: "pydict \<Rightarrow> bridge \<Rightarrow> bridge" where
  "handle_audio_delta message w =
     (if twilio_websocket w = None \<or> \<not> truthy (stream_sid (state w)) then w
      else
        (let w1 = (if response_start_timestamp (state w) = None
                   then w \<lparr> state := (state w) \<lparr> response_start_timestamp :=
                              Some (case latest_media_timestamp (state w) of None \<Rightarrow> 0 | Some t \<Rightarrow> t) \<rparr> \<rparr>
                   else w);
             item_id = dict_get message ''item_id'';
             w2 = (if truthy item_id
                   then w1 \<lparr> state := (state w1) \<lparr> last_assistant_item := item_id \<rparr> \<rparr>
                   else w1);
             audio_payload = dict_get_default message ''delta'' (JStr [])
         in if truthy audio_payload
            then send_to_twilio (TwilioMark (stream_sid (state w2)))
                   (send_to_twilio (TwilioMedia (stream_sid (state w2)) audio_payload) w2)
            else w2))"

text \<open>
  \<^verbatim>\<open>_handle_function_call\<close>: the whole body is inside \<^verbatim>\<open>try ... except Exception\<close>, so an
  exception of the tool service ends the handler with nothing sent.
\<close>

definition handle_function_call_item :: "pydict \<Rightarrow> bridge \<Rightarrow> bridge" where
  "handle_function_call_item item w =
     (let function_name = dict_get_default item ''name'' (JStr []);
          function_args = dict_get_default item ''arguments'' (JStr ''{}'');
          call_id = dict_get_default item ''call_id'' (JStr [])
      in case handle_function_call (handlers w) (json_loads w) function_name function_args of
           Inl e \<Rightarrow> w
         | Inr result \<Rightarrow>
             if openai_client w \<noteq> None
             then send_message ResponseCreate (send_message (ConversationItemCreate call_id result) w)
             else w)"

text \<open>
  A handler that can raise returns \<open>Inl (e, w)\<close>: the exception and the bridge as it was
  when the exception left the handler.
\<close>

type_synonym outcome = "(py_error \<times> bridge) + bridge"

text \<open>The bridge an outcome leaves.\<close>

definition bridge_after :: "outcome \<Rightarrow> bridge" where
  "bridge_after r = (case r of Inl (e, w) \<Rightarrow> w | Inr w \<Rightarrow> w)"

text \<open>\<^verbatim>\<open>_handle_output_item_done\<close>; \<^verbatim>\<open>item.get\<close> needs a dict.\<close>

definition handle_output_item_done :: "pydict \<Rightarrow> bridge \<Rightarrow> outcome" where
  "handle_output_item_done message w =
     (case dict_get_default message ''item'' (JObj []) of
        JObj item \<Rightarrow>
          if dict_get item ''type'' = JStr ''function_call''
          then Inr (handle_function_call_item item w)
          else Inr w
      | _ \<Rightarrow> Inl (AttributeError, w))"

text \<open>
  \<^verbatim>\<open>handle_openai_message\<close>: the event is mirrored to the observer leg first, then
  handled by its type.  \<^verbatim>\<open>_handle_speech_started\<close> only calls \<^verbatim>\<open>_handle_truncation\<close>.
\<close>

definition handle_openai_message :: "json \<Rightarrow> bridge \<Rightarrow> outcome" where
  "handle_openai_message data w =
     (let w1 = send_to_frontend (Mirror data) w
      in case data of
           JObj message \<Rightarrow>
             (let message_type = dict_get message ''type''
              in if message_type = JStr ''input_audio_buffer.speech_started'' then Inr (handle_truncation w1)
                 else if message_type = JStr ''response.audio.delta'' then Inr (handle_audio_delta message w1)
                 else if message_type = JStr ''response.output_item.done'' then handle_output_item_done message w1
                 else Inr w1)
         | _ \<Rightarrow> Inl (AttributeError, w1))"

section \<open>Connecting the speech client\<close>

text \<open>
  \<^verbatim>\<open>_listen_messages\<close>, the body of \<^verbatim>\<open>async for message in self.websocket\<close>: the loop
  stops when the client is found disconnected; a frame that does not parse, and any
  exception of the handler, is logged and skipped.  When the frames are exhausted the
  connection is closed: a clean close ends the loop silently, any other end runs the
  disconnection path.
\<close>

definition client_connected :: "bridge \<Rightarrow> bool" where
  "client_connected w = (case openai_client w of None \<Rightarrow> False | Some c \<Rightarrow> is_connected c)"

definition dispatch_frame :: "json option \<Rightarrow> bridge \<Rightarrow> bridge" where
  "dispatch_frame frame w =
     (case frame of
        None \<Rightarrow> w
      | Some data \<Rightarrow>
          (case openai_client w of
             None \<Rightarrow> w
           | Some c \<Rightarrow>
               if message_handler c
               then (case handle_openai_message data w of Inl (e, w') \<Rightarrow> w' | Inr w' \<Rightarrow> w')
               else w))"

definition mark_closed :: "bridge \<Rightarrow> bridge" where
  "mark_closed w = upd_client (\<lambda>c. c \<lparr> websocket := map_option (\<lambda>t. t \<lparr> is_open := False, inbound := [] \<rparr>) (websocket c) \<rparr>) w"

fun listen_loop :: "json option list \<Rightarrow> stream_end \<Rightarrow> bridge \<Rightarrow> bridge" where
  "listen_loop [] e w =
     (if e = CloseOK then mark_closed w else handle_disconnection (mark_closed w))"
| "listen_loop (frame # frames) e w =
     (if \<not> client_connected w then w
      else listen_loop frames e (dispatch_frame frame w))"

definition listen_messages :: "bridge \<Rightarrow> bridge" where
  "listen_messages w =
     (case openai_client w of
        None \<Rightarrow> w
      | Some c \<Rightarrow>
          (case websocket c of
             None \<Rightarrow> handle_disconnection w
           | Some t \<Rightarrow> listen_loop (inbound t) (ending t) w))"

text \<open>
  \<^verbatim>\<open>OpenAISessionConfig(**session_data)\<close>: the validation of the merged dict.  A field
  keeps a value of its declared type (\<^verbatim>\<open>str\<close>, \<^verbatim>\<open>List[str]\<close>, \<^verbatim>\<open>Dict[str, str]\<close>) and
  rejects every other JSON value; a key that is not a field of the model is ignored.
\<close>

fun as_str :: "json \<Rightarrow> string option" where
  "as_str (JStr s) = Some s"
| "as_str _ = None"

fun all_some :: "'a option list \<Rightarrow> 'a list option" where
  "all_some [] = Some []"
| "all_some (x # xs) =
     (case x of None \<Rightarrow> None
      | Some y \<Rightarrow> (case all_some xs of None \<Rightarrow> None | Some ys \<Rightarrow> Some (y # ys)))"

fun as_str_list :: "json \<Rightarrow> string list option" where
  "as_str_list (JArr xs) = all_some (map as_str xs)"
| "as_str_list _ = None"

fun as_str_dict :: "json \<Rightarrow> (string \<times> string) list option" where
  "as_str_dict (JObj kvs) =
     all_some (map (\<lambda>(k, v). map_option (\<lambda>s. (k, s)) (as_str v)) kvs)"
| "as_str_dict _ = None"

definition json_of_strs :: "string list \<Rightarrow> json" where
  "json_of_strs xs = JArr (map JStr xs)"

definition json_of_str_dict :: "(string \<times> string) list \<Rightarrow> json" where
  "json_of_str_dict kvs = JObj (map (\<lambda>(k, v). (k, JStr v)) kvs)"

text \<open>
  \<^verbatim>\<open>session_data = default_config.model_dump(); session_data.update(config)\<close>: the value
  of a key after the update is the caller's when the caller's dict has the key, else the
  default.
\<close>

definition merged :: "pydict \<Rightarrow> string \<Rightarrow> json \<Rightarrow> json" where
  "merged config k dflt = dict_get_default config k dflt"

definition validate_session :: "pydict \<Rightarrow> session_cfg option" where
  "validate_session config =
     (case (as_str_list (merged config ''modalities'' (json_of_strs (modalities OpenAISessionConfig))),
            as_str_dict (merged config ''turn_detection'' (json_of_str_dict (turn_detection OpenAISessionConfig))),
            as_str (merged config ''voice'' (JStr (voice OpenAISessionConfig))),
            as_str_dict (merged config ''input_audio_transcription''
                           (json_of_str_dict (input_audio_transcription OpenAISessionConfig))),
            as_str (merged config ''input_audio_format'' (JStr (input_audio_format OpenAISessionConfig))),
            as_str (merged config ''output_audio_format'' (JStr (output_audio_format OpenAISessionConfig)))) of
        (Some m, Some td, Some v, Some iat, Some iaf, Some oaf) \<Rightarrow>
          Some \<lparr> modalities = m, turn_detection = td, voice = v,
                 input_audio_transcription = iat, input_audio_format = iaf,
                 output_audio_format = oaf \<rparr>
      | _ \<Rightarrow> None)"

text \<open>
  \<^verbatim>\<open>session_data.update(config)\<close> on a value that is not a dict: \<^verbatim>\<open>update\<close> iterates
  it and takes every element as a key-value pair.  An element that cannot be iterated
  raises \<^verbatim>\<open>TypeError\<close>, one that does not have two members raises \<^verbatim>\<open>ValueError\<close>, and
  a key that is a list or a dict (unhashable) raises \<^verbatim>\<open>TypeError\<close>.  A two-character
  string is a pair of one-character strings, and a dict with two keys is the pair of its
  keys.
\<close>

fun hashable :: "json \<Rightarrow> bool" where
  "hashable (JArr xs) = False"
| "hashable (JObj kvs) = False"
| "hashable _ = True"

definition update_item :: "json \<Rightarrow> py_error + (json \<times> json)" where
  "update_item x =
     (case x of
        JArr ys \<Rightarrow>
          (case ys of
             [k, v] \<Rightarrow> if hashable k then Inr (k, v) else Inl TypeError
           | _ \<Rightarrow> Inl ValueError)
      | JStr cs \<Rightarrow>
          (case cs of
             [a, b] \<Rightarrow> Inr (JStr [a], JStr [b])
           | _ \<Rightarrow> Inl ValueError)
      | JObj kvs \<Rightarrow>
          (case map fst kvs of
             [a, b] \<Rightarrow> Inr (JStr a, JStr b)
           | _ \<Rightarrow> Inl ValueError)
      | _ \<Rightarrow> Inl TypeError)"

fun update_items :: "json list \<Rightarrow> py_error + (json \<times> json) list" where
  "update_items [] = Inr []"
| "update_items (x # xs) =
     (case update_item x of
        Inl e \<Rightarrow> Inl e
      | Inr kv \<Rightarrow> (case update_items xs of Inl e \<Rightarrow> Inl e | Inr kvs \<Rightarrow> Inr (kv # kvs)))"

text \<open>
  The items \<^verbatim>\<open>update\<close> writes over the defaults, the one that wins first: the items of a
  dict; the pairs of a list, the last one first; the characters of a string, each taken
  as a pair.  A number or a boolean cannot be iterated.
\<close>

definition update_arg :: "json \<Rightarrow> py_error + (json \<times> json) list" where
  "update_arg config =
     (case config of
        JObj kvs \<Rightarrow> Inr (map (\<lambda>(k, v). (JStr k, v)) kvs)
      | JArr xs \<Rightarrow> (case update_items xs of Inl e \<Rightarrow> Inl e | Inr kvs \<Rightarrow> Inr (rev kvs))
      | JStr cs \<Rightarrow> (case update_items (map (\<lambda>c. JStr [c]) cs) of Inl e \<Rightarrow> Inl e | Inr kvs \<Rightarrow> Inr (rev kvs))
      | _ \<Rightarrow> Inl TypeError)"

text \<open>\<^verbatim>\<open>OpenAISessionConfig(**session_data)\<close> needs every key to be a string.\<close>

fun str_keys :: "(json \<times> json) list \<Rightarrow> pydict option" where
  "str_keys [] = Some []"
| "str_keys ((k, v) # kvs) =
     (case k of
        JStr s \<Rightarrow> (case str_keys kvs of None \<Rightarrow> None | Some r \<Rightarrow> Some ((s, v) # r))
      | _ \<Rightarrow> None)"

text \<open>
  The message \<^verbatim>\<open>_send_session_update\<close> builds from the client's configuration:
  \<^verbatim>\<open>config = self.session_config or {}\<close>, the update of the defaults, the validation.
\<close>

definition session_update_for :: "json \<Rightarrow> py_error + session_cfg" where
  "session_update_for configured =
     (let config = (if truthy configured then configured else JObj [])
      in case update_arg config of
           Inl e \<Rightarrow> Inl e
         | Inr items \<Rightarrow>
             (case str_keys items of
                None \<Rightarrow> Inl TypeError
              | Some kvs \<Rightarrow>
                  (case validate_session kvs of
                     None \<Rightarrow> Inl ValidationError
                   | Some cfg \<Rightarrow> Inr cfg)))"

text \<open>\<^verbatim>\<open>_send_session_update\<close>.\<close>

definition send_session_update :: "bridge \<Rightarrow> outcome" where
  "send_session_update w =
     (case openai_client w of
        None \<Rightarrow> Inr w
      | Some c \<Rightarrow>
          (case session_update_for (session_config c) of
             Inl e \<Rightarrow> Inl (e, w)
           | Inr cfg \<Rightarrow> Inr (send_message (SessionUpdate cfg) w)))"

text \<open>
  \<^verbatim>\<open>OpenAIClient.connect\<close>, on the client the bridge holds; \<open>d\<close> is what
  \<^verbatim>\<open>websockets.connect\<close> does.  After the flags are set, the source runs
  \<^verbatim>\<open>await asyncio.create_task(self._listen_messages())\<close>: the task is created and awaited
  at once, so \<^verbatim>\<open>connect\<close> goes on only when \<^verbatim>\<open>_listen_messages\<close> has returned.  An
  exception anywhere in the body is caught: the client is marked disconnected, the
  failure path runs, and the result is \<^verbatim>\<open>False\<close>.
\<close>

definition connect :: "dial \<Rightarrow> bridge \<Rightarrow> bool \<times> bridge" where
  "connect d w =
     (case d of
        Refused \<Rightarrow>
          (False, handle_connection_failure
                    (upd_client (\<lambda>c. c \<lparr> is_connected := False \<rparr>) (emit (Dial False) w)))
      | Accepted t \<Rightarrow>
          (let w1 = upd_client (\<lambda>c. c \<lparr> websocket := Some t, is_connected := True,
                                         current_reconnect_attempts := 0 \<rparr>) (emit (Dial True) w);
               w2 = listen_messages w1
           in case send_session_update w2 of
                Inl (e, w3) \<Rightarrow>
                  (False, handle_connection_failure (upd_client (\<lambda>c. c \<lparr> is_connected := False \<rparr>) w3))
              | Inr w3 \<Rightarrow>
                  (True, run_callback (case openai_client w3 of None \<Rightarrow> None | Some c \<Rightarrow> on_connected c) w3)))"

text \<open>
  \<^verbatim>\<open>_try_connect_openai\<close>: a new client with the bridge's handler and callbacks,
  \<^verbatim>\<open>configure_reconnect(auto_reconnect=True, max_attempts=10, initial_delay=2.0,
  max_delay=60.0)\<close>, and the saved configuration when there is one.
\<close>

definition bridge_client :: "json \<Rightarrow> openai_client" where
  "bridge_client saved =
     OpenAIClient \<lparr> message_handler := True,
                    auto_reconnect := True, max_reconnect_attempts := 10,
                    reconnect_delay := 2, max_reconnect_delay := 60,
                    on_connected := Some Bridge_on_connected,
                    on_disconnected := Some Bridge_on_disconnected,
                    session_config := (if truthy saved then saved else JNull) \<rparr>"

definition try_connect_openai :: "dial \<Rightarrow> bridge \<Rightarrow> bridge" where
  "try_connect_openai d w =
     (if \<not> truthy (stream_sid (state w)) then w
      else if client_connected w then w
      else snd (connect d (w \<lparr> openai_client := Some (bridge_client (saved_config (state w))) \<rparr>)))"

section \<open>The telephony and observer legs\<close>

definition cleanup_twilio_connection :: "bridge \<Rightarrow> bridge" where
  "cleanup_twilio_connection w =
     (case twilio_websocket w of
        None \<Rightarrow> w
      | Some t \<Rightarrow> (emit (CloseSocket t) w) \<lparr> twilio_websocket := None \<rparr>)"

definition cleanup_frontend_connection :: "bridge \<Rightarrow> bridge" where
  "cleanup_frontend_connection w =
     (case frontend_websocket w of
        None \<Rightarrow> w
      | Some f \<Rightarrow> (emit (CloseSocket f) w) \<lparr> frontend_websocket := None \<rparr>)"

definition cleanup_openai_connection :: "bridge \<Rightarrow> bridge" where
  "cleanup_openai_connection w =
     (if openai_client w \<noteq> None then (client_disconnect True w) \<lparr> openai_client := None \<rparr> else w)"

definition disconnect_all :: "bridge \<Rightarrow> bridge" where
  "disconnect_all w =
     (cleanup_openai_connection (cleanup_frontend_connection (cleanup_twilio_connection w)))
       \<lparr> state := SessionState \<rparr>"

definition handle_twilio_connection :: "ws \<Rightarrow> bridge \<Rightarrow> bridge" where
  "handle_twilio_connection t w = (cleanup_twilio_connection w) \<lparr> twilio_websocket := Some t \<rparr>"

definition handle_frontend_connection :: "ws \<Rightarrow> bridge \<Rightarrow> bridge" where
  "handle_frontend_connection f w = (cleanup_frontend_connection w) \<lparr> frontend_websocket := Some f \<rparr>"

text \<open>\<^verbatim>\<open>_handle_twilio_start\<close>; \<^verbatim>\<open>start_data.get\<close> needs a dict.\<close>

definition handle_twilio_start :: "dial \<Rightarrow> pydict \<Rightarrow> bridge \<Rightarrow> outcome" where
  "handle_twilio_start d message w =
     (case dict_get_default message ''start'' (JObj []) of
        JObj start_data \<Rightarrow>
          Inr (try_connect_openai d
                 (w \<lparr> state := (state w) \<lparr> stream_sid := dict_get start_data ''streamSid'',
                                           latest_media_timestamp := Some 0,
                                           last_assistant_item := JNull,
                                           response_start_timestamp := None \<rparr> \<rparr>))
      | _ \<Rightarrow> Inl (AttributeError, w))"

text \<open>
  \<^verbatim>\<open>_handle_twilio_media\<close>: the timestamp is \<^verbatim>\<open>media_data.get("timestamp", 0)\<close> through
  \<^verbatim>\<open>_safe_int\<close>; the payload is forwarded when the client is connected.
\<close>

definition handle_twilio_media :: "pydict \<Rightarrow> bridge \<Rightarrow> outcome" where
  "handle_twilio_media message w =
     (case dict_get_default message ''media'' (JObj []) of
        JObj media_data \<Rightarrow>
          (case safe_int (dict_get_default media_data ''timestamp'' (JInt 0)) 0 of
             Inl e \<Rightarrow> Inl (e, w)
           | Inr t \<Rightarrow>
               (let w1 = w \<lparr> state := (state w) \<lparr> latest_media_timestamp := Some t \<rparr> \<rparr>
                in if client_connected w1
                   then Inr (send_message (InputAudioBufferAppend (dict_get_default media_data ''payload'' (JStr []))) w1)
                   else Inr w1))
      | _ \<Rightarrow> Inl (AttributeError, w))"

text \<open>\<^verbatim>\<open>handle_twilio_message\<close>; \<open>d\<close> is what a dial does, should the handler dial.\<close>

definition handle_twilio_message :: "dial \<Rightarrow> pydict \<Rightarrow> bridge \<Rightarrow> outcome" where
  "handle_twilio_message d message w =
     (let event = dict_get message ''event''
      in if event = JStr ''start'' then handle_twilio_start d message w
         else if event = JStr ''media'' then handle_twilio_media message w
         else if event = JStr ''close'' then Inr (disconnect_all w)
         else Inr w)"

text \<open>\<^verbatim>\<open>handle_frontend_message\<close>.\<close>

definition handle_frontend_message :: "pydict \<Rightarrow> bridge \<Rightarrow> bridge" where
  "handle_frontend_message message w =
     (let w1 = (if openai_client w \<noteq> None then send_message (Verbatim message) w else w)
      in if dict_get message ''type'' = JStr ''session.update''
         then w1 \<lparr> state := (state w1) \<lparr> saved_config := dict_get_default message ''session'' (JObj []) \<rparr> \<rparr>
         else w1)"

section \<open>The reconnect loop\<close>

text \<open>
  The delay of an iteration, computed after the counter was incremented:
  \<^verbatim>\<open>min(self.reconnect_delay * (2 ** (self.current_reconnect_attempts - 1)),
  self.max_reconnect_delay)\<close>, as a function of the two delays and of the exponent
  \<open>k\<close>, which is at least 0 there.  \<^verbatim>\<open>2 ** k\<close> is an integer; to multiply it by a float the
  interpreter converts it to a float, which raises \<^verbatim>\<open>OverflowError\<close> from \<open>2 ^ 1024\<close> on.
  The product of a float and a power of two is exact unless it leaves the range of the
  floats, and is then infinite.  \<^verbatim>\<open>min(a, b)\<close> is \<open>b\<close> when \<^verbatim>\<open>b < a\<close>, else \<open>a\<close>.
\<close>

definition float_limit :: rat where
  "float_limit = 2 ^ 1024"

definition float_times_pow2 :: "rat \<Rightarrow> nat \<Rightarrow> py_error + pyfloat" where
  "float_times_pow2 r k =
     (if 1024 \<le> k then Inl OverflowError
      else (let p = r * 2 ^ k
            in if float_limit \<le> p then Inr PosInf
               else if p \<le> - float_limit then Inr NegInf
               else Inr (Finite p)))"

fun float_less :: "pyfloat \<Rightarrow> pyfloat \<Rightarrow> bool" where
  "float_less (Finite a) (Finite b) = (a < b)"
| "float_less (Finite a) PosInf = True"
| "float_less NegInf (Finite b) = True"
| "float_less NegInf PosInf = True"
| "float_less _ _ = False"

definition py_min :: "pyfloat \<Rightarrow> pyfloat \<Rightarrow> pyfloat" where
  "py_min a b = (if float_less b a then b else a)"

definition backoff_delay :: "rat \<Rightarrow> rat \<Rightarrow> nat \<Rightarrow> py_error + pyfloat" where
  "backoff_delay initial_delay max_delay k =
     (case float_times_pow2 initial_delay k of
        Inl e \<Rightarrow> Inl e
      | Inr x \<Rightarrow> Inr (py_min x (Finite max_delay)))"

text \<open>
  What happens in one iteration between the start of the sleep and the dial: the sleep
  is cancelled, or auto-reconnect is switched off while the loop sleeps, or the loop
  dials.
\<close>

datatype attempt = Sleep_cancelled | Disabled_during_sleep | Dials dial

definition loop_condition :: "bridge \<Rightarrow> bool" where
  "loop_condition w =
     (case openai_client w of
        None \<Rightarrow> False
      | Some c \<Rightarrow> auto_reconnect c \<and> int (current_reconnect_attempts c) < max_reconnect_attempts c
                  \<and> \<not> is_connected c)"

text \<open>The task is done when the coroutine returns or raises.\<close>

definition task_done :: "bridge \<Rightarrow> bridge" where
  "task_done w = upd_client (\<lambda>c. c \<lparr> reconnect_task := False \<rparr>) w"

text \<open>
  The head of an iteration: the counter is incremented and the delay computed, outside
  the \<^verbatim>\<open>try\<close>, so an exception of the computation leaves the loop; then the sleep
  starts.
\<close>

definition begin_attempt :: "bridge \<Rightarrow> outcome" where
  "begin_attempt w =
     (let w1 = upd_client (\<lambda>c. c \<lparr> current_reconnect_attempts := current_reconnect_attempts c + 1 \<rparr>) w
      in case openai_client w1 of
           None \<Rightarrow> Inr w1
         | Some c \<Rightarrow>
             (case backoff_delay (reconnect_delay c) (max_reconnect_delay c)
                                 (current_reconnect_attempts c - 1) of
                Inl e \<Rightarrow> Inl (e, w1)
              | Inr delay \<Rightarrow> Inr (emit (Sleep delay) w1)))"

text \<open>
  \<^verbatim>\<open>_reconnect_loop\<close>, run against a script of what happens in its iterations.  The loop
  returns, or an exception ends it, or the script ends while the loop would still go on:
  the result then is the bridge at that point, with the loop still running.
\<close>

datatype run = Still_running bridge | Returned bridge | Raised py_error bridge

fun reconnect_loop :: "attempt list \<Rightarrow> bridge \<Rightarrow> run" where
  "reconnect_loop [] w = (if loop_condition w then Still_running w else Returned (task_done w))"
| "reconnect_loop (a # as) w =
     (if \<not> loop_condition w then Returned (task_done w)
      else
        (case begin_attempt w of
           Inl (e, w1) \<Rightarrow> Raised e (task_done w1)
         | Inr w1 \<Rightarrow>
             (case a of
                Sleep_cancelled \<Rightarrow> Returned (task_done w1)
              | Disabled_during_sleep \<Rightarrow>
                  Returned (task_done (upd_client (\<lambda>c. c \<lparr> auto_reconnect := False \<rparr>) w1))
              | Dials d \<Rightarrow>
                  (case connect d w1 of
                     (True, w2) \<Rightarrow> Returned (task_done w2)
                   | (False, w2) \<Rightarrow> reconnect_loop as w2))))"

fun bridge_of :: "run \<Rightarrow> bridge" where
  "bridge_of (Still_running w) = w"
| "bridge_of (Returned w) = w"
| "bridge_of (Raised e w) = w"

section \<open>Reading the trace\<close>

text \<open>\<^verbatim>\<open>SessionManager()\<close>, with the handler table and the parser it runs against.\<close>

definition SessionManager :: "(string \<rightharpoonup> (json \<Rightarrow> handler_outcome)) \<Rightarrow> (string \<Rightarrow> loads_result) \<Rightarrow> bridge" where
  "SessionManager hs loads =
     \<lparr> state = SessionState, twilio_websocket = None, frontend_websocket = None,
       openai_client = None, handlers = hs, json_loads = loads, trace = [] \<rparr>"

text \<open>The effects of a step from \<open>w\<close> to \<open>w'\<close>.\<close>

definition new_effects :: "bridge \<Rightarrow> bridge \<Rightarrow> effect list" where
  "new_effects w w' = drop (length (trace w)) (trace w')"

fun is_truncate :: "effect \<Rightarrow> bool" where
  "is_truncate (ToOpenAI (ConversationItemTruncate i c a) r) = True"
| "is_truncate _ = False"

fun is_clear :: "effect \<Rightarrow> bool" where
  "is_clear (ToTwilio t (TwilioClear s)) = True"
| "is_clear _ = False"

fun is_to_openai :: "effect \<Rightarrow> bool" where
  "is_to_openai (ToOpenAI m r) = True"
| "is_to_openai _ = False"

fun is_dial :: "effect \<Rightarrow> bool" where
  "is_dial (Dial b) = True"
| "is_dial _ = False"

fun is_sleep :: "effect \<Rightarrow> bool" where
  "is_sleep (Sleep d) = True"
| "is_sleep _ = False"

text \<open>
  The effects of the disconnection path: a status notice to the observer leg and the
  creation of the reconnect task.
\<close>

fun housekeeping :: "effect \<Rightarrow> bool" where
  "housekeeping (ToFrontend f (ConnectionStatus a b)) = True"
| "housekeeping SpawnReconnect = True"
| "housekeeping _ = False"

text \<open>\<^verbatim>\<open>send_message\<close> would put a message on the connection.\<close>

definition can_send :: "bridge \<Rightarrow> bool" where
  "can_send w =
     (case openai_client w of
        None \<Rightarrow> False
      | Some c \<Rightarrow> is_connected c \<and> (case websocket c of None \<Rightarrow> False | Some t \<Rightarrow> is_open t))"

text \<open>Both fields the truncation guard reads are set.\<close>

definition truncation_guard :: "bridge \<Rightarrow> bool" where
  "truncation_guard w =
     (truthy (last_assistant_item (state w)) \<and> response_start_timestamp (state w) \<noteq> None)"

text \<open>A step that leaves the session state, the two legs and the tool service alone.\<close>

definition same_session :: "bridge \<Rightarrow> bridge \<Rightarrow> bool" where
  "same_session w w' =
     (state w' = state w \<and> twilio_websocket w' = twilio_websocket w
      \<and> frontend_websocket w' = frontend_websocket w
      \<and> (openai_client w' = None \<longleftrightarrow> openai_client w = None)
      \<and> handlers w' = handlers w \<and> json_loads w' = json_loads w)"

text \<open>The state update of \<^verbatim>\<open>_handle_twilio_start\<close>.\<close>

definition started :: "json \<Rightarrow> bridge \<Rightarrow> bridge" where
  "started sid w = w \<lparr> state := (state w) \<lparr> stream_sid := sid, latest_media_timestamp := Some 0,
                                             last_assistant_item := JNull,
                                             response_start_timestamp := None \<rparr> \<rparr>"



text \<open>
  The bridge right after \<^verbatim>\<open>websockets.connect\<close> returned inside \<^verbatim>\<open>connect\<close>: the dial is
  in the trace, the client holds the connection, is marked connected, and its counter is
  reset.
\<close>

definition dialled :: "transport \<Rightarrow> bridge \<Rightarrow> bridge" where
  "dialled t w = upd_client (\<lambda>c. c \<lparr> websocket := Some t, is_connected := True,
                                      current_reconnect_attempts := 0 \<rparr>) (emit (Dial True) w)"

text \<open>
  The states in which the program hands an event to the bridge.  From
  \<^verbatim>\<open>SessionManager()\<close>, the two dispatchers call \<^verbatim>\<open>handle_twilio_connection\<close>,
  \<^verbatim>\<open>handle_frontend_connection\<close>, \<^verbatim>\<open>handle_twilio_message\<close>, \<^verbatim>\<open>handle_frontend_message\<close>
  and \<^verbatim>\<open>disconnect_all\<close>, and the reconnect task runs \<^verbatim>\<open>_reconnect_loop\<close>.  While
  \<^verbatim>\<open>connect\<close> is suspended in its read loop, the other tasks go on: so the states inside
  a connection are reachable too, that is, the state in which \<^verbatim>\<open>_try_connect_openai\<close>
  calls \<^verbatim>\<open>connect\<close> on its new client, the head of a reconnect iteration, the state
  right after the dial, and the state after each frame the read loop hands over.  The
  rules may be applied in any order, which covers every interleaving of the tasks (and
  more).
\<close>

inductive reachable :: "bridge \<Rightarrow> bool" where
  init: "reachable (SessionManager hs loads)"
| twilio_connection: "reachable w \<Longrightarrow> reachable (handle_twilio_connection t w)"
| frontend_connection: "reachable w \<Longrightarrow> reachable (handle_frontend_connection f w)"
| twilio_message: "reachable w \<Longrightarrow> reachable (bridge_after (handle_twilio_message d message w))"
| frontend_message: "reachable w \<Longrightarrow> reachable (handle_frontend_message message w)"
| hang_up: "reachable w \<Longrightarrow> reachable (disconnect_all w)"
| reconnecting: "reachable w \<Longrightarrow> reachable (bridge_of (reconnect_loop script w))"
| calling: "reachable w \<Longrightarrow> truthy sid \<Longrightarrow>
            reachable ((started sid w) \<lparr> openai_client := Some (bridge_client (saved_config (state w))) \<rparr>)"
| attempting: "reachable w \<Longrightarrow> reachable (bridge_after (begin_attempt w))"
| connection: "reachable w \<Longrightarrow> reachable (dialled t w)"
| frame: "reachable w \<Longrightarrow> reachable (dispatch_frame frame w)"

text \<open>
  While a stream id is set the bridge holds a client, and an assistant item is recorded
  only while a stream id is set.
\<close>

definition client_while_streaming :: "bridge \<Rightarrow> bool" where
  "client_while_streaming w =
     ((truthy (stream_sid (state w)) \<longrightarrow> openai_client w \<noteq> None)
      \<and> (truthy (last_assistant_item (state w)) \<longrightarrow> truthy (stream_sid (state w))))"

text \<open>
  Steps that change nothing but the trace, adding only mirrors of events; and steps that
  leave the session state alone and add neither a truncate nor a clear command.
\<close>

fun is_mirror :: "effect \<Rightarrow> bool" where
  "is_mirror (ToFrontend f (Mirror d)) = True"
| "is_mirror _ = False"

definition only_mirrors :: "bridge \<Rightarrow> bridge \<Rightarrow> bool" where
  "only_mirrors w v =
     (state v = state w \<and> twilio_websocket v = twilio_websocket w
      \<and> frontend_websocket v = frontend_websocket w \<and> openai_client v = openai_client w
      \<and> handlers v = handlers w \<and> json_loads v = json_loads w
      \<and> (\<exists>es. trace v = trace w @ es \<and> list_all is_mirror es))"

definition offstage :: "effect \<Rightarrow> bool" where
  "offstage e = (\<not> is_truncate e \<and> \<not> is_clear e)"

definition offstage_step :: "bridge \<Rightarrow> bridge \<Rightarrow> bool" where
  "offstage_step w v = (state v = state w \<and> (\<exists>es. trace v = trace w @ es \<and> list_all offstage es))"


text \<open>What a step adds to the trace for the observer mirror and for the playback clear.\<close>

definition mirror_effects :: "json \<Rightarrow> bridge \<Rightarrow> effect list" where
  "mirror_effects data w = (case frontend_websocket w of None \<Rightarrow> [] | Some f \<Rightarrow> [ToFrontend f (Mirror data)])"

definition clear_effects :: "bridge \<Rightarrow> effect list" where
  "clear_effects w = (case twilio_websocket w of
                  None \<Rightarrow> []
                | Some t \<Rightarrow> if truthy (stream_sid (state w))
                            then [ToTwilio t (TwilioClear (stream_sid (state w)))] else [])"

text \<open>A step that only adds to the trace, and adds no sleep.\<close>

definition sleepless :: "bridge \<Rightarrow> bridge \<Rightarrow> bool" where
  "sleepless w w' = (\<exists>es. trace w' = trace w @ es \<and> filter is_sleep es = [])"

text \<open>
  The delay the specification gives for attempt \<open>n\<close>,
  \<open>min (initial_delay * 2 ^ (n - 1)) max_delay\<close>, and the delays of the attempts 1 to
  \<open>max_attempts\<close>.
\<close>

definition spec_delay :: "rat \<Rightarrow> rat \<Rightarrow> nat \<Rightarrow> rat" where
  "spec_delay initial_delay max_delay n = min (initial_delay * 2 ^ (n - 1)) max_delay"

definition schedule :: "int \<Rightarrow> rat \<Rightarrow> rat \<Rightarrow> pyfloat list" where
  "schedule max_attempts initial_delay max_delay =
     map (\<lambda>n. Finite (spec_delay initial_delay max_delay n)) [1 ..< Suc (nat max_attempts)]"

text \<open>What an attempt whose dial is refused adds to the trace.\<close>

definition attempt_effects :: "rat \<Rightarrow> rat \<Rightarrow> nat \<Rightarrow> effect list" where
  "attempt_effects r m n = [Sleep (Finite (spec_delay r m n)), Dial False]"

section \<open>Sample states\<close>

definition speech_started_event :: pydict where
  "speech_started_event = [(''type'', JStr ''input_audio_buffer.speech_started'')]"

definition live_client :: openai_client where
  "live_client = (bridge_client JNull)
     \<lparr> websocket := Some \<lparr> inbound = [], ending = CloseOK, is_open = True \<rparr>, is_connected := True \<rparr>"

definition idle_bridge :: bridge where
  "idle_bridge = (SessionManager Map.empty (\<lambda>s. Decode_error))
      \<lparr> twilio_websocket := Some 1, frontend_websocket := Some 2,
        state := SessionState \<lparr> stream_sid := JStr ''MZ1'', latest_media_timestamp := Some 700 \<rparr> \<rparr>"

definition speaking_bridge :: bridge where
  "speaking_bridge = (SessionManager Map.empty (\<lambda>s. Decode_error))
      \<lparr> twilio_websocket := Some 1,
        openai_client := Some live_client,
        state := SessionState \<lparr> stream_sid := JStr ''MZ1'', latest_media_timestamp := Some 1500,
                                response_start_timestamp := Some 1000,
                                last_assistant_item := JStr ''a1'' \<rparr> \<rparr>"

definition orphan_bridge :: bridge where
  "orphan_bridge = speaking_bridge \<lparr> openai_client := None \<rparr>"

text \<open>
  The timestamp field of a chunk (\<open>None\<close> when the chunk's \<^verbatim>\<open>media\<close> value is not a
  dict), and a chunk with a given timestamp and payload.
\<close>

definition chunk_timestamp :: "pydict \<Rightarrow> json option" where
  "chunk_timestamp message =
     (case dict_get_default message ''media'' (JObj []) of
        JObj media_data \<Rightarrow> Some (dict_get_default media_data ''timestamp'' (JInt 0))
      | _ \<Rightarrow> None)"

definition media_event :: "json \<Rightarrow> json \<Rightarrow> pydict" where
  "media_event ts payload = [(''event'', JStr ''media''), (''media'', JObj [(''timestamp'', ts), (''payload'', payload)])]"




definition is_tool_call_event :: "pydict \<Rightarrow> pydict \<Rightarrow> bool" where
  "is_tool_call_event message item =
     (dict_get message ''type'' = JStr ''response.output_item.done''
      \<and> dict_get_default message ''item'' (JObj []) = JObj item
      \<and> dict_get item ''type'' = JStr ''function_call'')"

text \<open>Frames as the telephony leg and the speech endpoint send them.\<close>

definition twilio_start_frame :: pydict where
  "twilio_start_frame =
     [(''event'', JStr ''start''), (''sequenceNumber'', JStr ''1''),
      (''start'', JObj [(''accountSid'', JStr ''AC1''), (''streamSid'', JStr ''MZ1''),
                        (''callSid'', JStr ''CA1''), (''tracks'', JArr [JStr ''inbound''])]),
      (''streamSid'', JStr ''MZ1'')]"

definition twilio_media_frame :: pydict where
  "twilio_media_frame =
     [(''event'', JStr ''media''), (''sequenceNumber'', JStr ''2''),
      (''media'', JObj [(''track'', JStr ''inbound''), (''chunk'', JStr ''1''),
                        (''timestamp'', JStr ''1000''), (''payload'', JStr ''AAAA'')]),
      (''streamSid'', JStr ''MZ1'')]"

definition audio_delta_frame :: pydict where
  "audio_delta_frame =
     [(''type'', JStr ''response.audio.delta''), (''event_id'', JStr ''event_1''),
      (''response_id'', JStr ''resp_1''), (''item_id'', JStr ''a1''),
      (''output_index'', JInt 0), (''content_index'', JInt 0), (''delta'', JStr ''BBBB'')]"

definition ringing_bridge :: bridge where
  "ringing_bridge = (SessionManager Map.empty (\<lambda>s. Decode_error)) \<lparr> twilio_websocket := Some 1 \<rparr>"

text \<open>
  A run of media chunks through \<^verbatim>\<open>_handle_twilio_media\<close>, as the telephony dispatcher
  hands them over one at a time; an exception ends the run.
\<close>

fun handle_media_chunks :: "pydict list \<Rightarrow> bridge \<Rightarrow> outcome" where
  "handle_media_chunks [] w = Inr w"
| "handle_media_chunks (m # ms) w =
     (case handle_twilio_media m w of Inl x \<Rightarrow> Inl x | Inr w' \<Rightarrow> handle_media_chunks ms w')"

text \<open>
  The chunks whose timestamp \<^verbatim>\<open>int\<close> can read or \<^verbatim>\<open>_safe_int\<close> can default, and the
  integer a timestamp is coerced to: what \<^verbatim>\<open>int\<close> returns, and 0 where it raises.
\<close>

definition readable_chunk :: "pydict \<Rightarrow> bool" where
  "readable_chunk message =
     (case chunk_timestamp message of
        None \<Rightarrow> False
      | Some ts \<Rightarrow> ts \<noteq> JFloat PosInf \<and> ts \<noteq> JFloat NegInf)"

definition coerced_timestamp :: "pydict \<Rightarrow> int" where
  "coerced_timestamp message =
     (case chunk_timestamp message of
        None \<Rightarrow> 0
      | Some ts \<Rightarrow> (case py_int ts of Inl e \<Rightarrow> 0 | Inr n \<Rightarrow> n))"

text \<open>
  A tool-call event, two tool calls (an argument text that is not JSON, an argument text
  of 100000 opening brackets), and a tool service with the one registered tool.  \<open>sample_loads\<close> is \<^verbatim>\<open>json.loads\<close> on the three argument texts: it
  parses \<^verbatim>\<open>{}\<close>, raises \<^verbatim>\<open>RecursionError\<close> on the brackets (they nest deeper than the
  interpreter's recursion limit) and \<^verbatim>\<open>JSONDecodeError\<close> on the text that is not JSON; no
  other text is given to it below.
\<close>

definition tool_call_event :: "pydict \<Rightarrow> pydict" where
  "tool_call_event item = [(''type'', JStr ''response.output_item.done''), (''item'', JObj item)]"

definition bad_arguments_call :: pydict where
  "bad_arguments_call = [(''type'', JStr ''function_call''), (''name'', JStr ''get_weather_from_coords''),
                         (''arguments'', JStr ''{not json''), (''call_id'', JStr ''call_2'')]"

definition sample_handlers :: "string \<rightharpoonup> (json \<Rightarrow> handler_outcome)" where
  "sample_handlers = [''get_weather_from_coords'' \<mapsto> (\<lambda>args. Returns ''21.5'')]"

definition deep_brackets :: string where
  "deep_brackets = replicate 100000 CHR ''[''"

definition deep_arguments_call :: pydict where
  "deep_arguments_call = [(''type'', JStr ''function_call''), (''name'', JStr ''get_weather_from_coords''),
                          (''arguments'', JStr deep_brackets), (''call_id'', JStr ''call_3'')]"

definition sample_loads :: "string \<Rightarrow> loads_result" where
  "sample_loads s = (if s = ''{}'' then Parsed (JObj [])
                      else if s = deep_brackets then Loads_raises RecursionError
                      else Decode_error)"

text \<open>
  The reconnect counter with the three settings of \<^verbatim>\<open>configure_reconnect\<close> it is read
  against.
\<close>

definition budget :: "bridge \<Rightarrow> (nat \<times> int \<times> rat \<times> rat) option" where
  "budget w = map_option (\<lambda>c. (current_reconnect_attempts c, max_reconnect_attempts c,
                                   reconnect_delay c, max_reconnect_delay c)) (openai_client w)"

text \<open>
  The bridge after a first dial was refused: its client is disconnected and the reconnect
  task is running.
\<close>

definition redialling_client :: openai_client where
  "redialling_client = (bridge_client JNull) \<lparr> reconnect_task := True \<rparr>"

definition redialling_bridge :: bridge where
  "redialling_bridge = ringing_bridge \<lparr> openai_client := Some redialling_client \<rparr>"

text \<open>
  A peer that accepts the session, sends nothing and closes it, and the bridge at the
  moment \<^verbatim>\<open>_try_connect_openai\<close> calls \<^verbatim>\<open>connect\<close> on its new client.
\<close>

definition quiet_peer :: transport where
  "quiet_peer = \<lparr> inbound = [], ending = CloseOK, is_open = True \<rparr>"

definition dialling_bridge :: bridge where
  "dialling_bridge = ringing_bridge \<lparr> frontend_websocket := Some 2,
                                      openai_client := Some (bridge_client JNull) \<rparr>"



text \<open>
  A peer that answers and is then interrupted, and a call: the telephony leg connects, the
  stream starts (the first dial is refused), the reconnect loop dials and reaches the
  peer, a chunk with timestamp 1000 arrives, the first delta of item \<^verbatim>\<open>"a1"\<close> arrives, and a
  chunk with timestamp 1500 arrives.
\<close>

definition speaking_peer :: transport where
  "speaking_peer = \<lparr> inbound = [Some (JObj audio_delta_frame), Some (JObj speech_started_event)],
                      ending = CloseOK, is_open = True \<rparr>"

definition call_started :: bridge where
  "call_started = bridge_after (handle_twilio_message Refused twilio_start_frame
                     (handle_twilio_connection 1 (SessionManager Map.empty (\<lambda>s. Decode_error))))"

definition call_connected :: bridge where
  "call_connected = dialled speaking_peer (bridge_after (begin_attempt call_started))"

definition call_answered :: bridge where
  "call_answered = dispatch_frame (Some (JObj audio_delta_frame))
                     (bridge_after (handle_twilio_message Refused twilio_media_frame call_connected))"

definition live_call :: bridge where
  "live_call = bridge_after (handle_twilio_message Refused (media_event (JInt 1500) (JStr ''AAAA'')) call_answered)"

text \<open>
  A peer that delivers one tool-call event and closes the session, and the dialling bridge
  with the tool service.
\<close>

definition calling_peer :: "pydict \<Rightarrow> transport" where
  "calling_peer item = \<lparr> inbound = [Some (JObj (tool_call_event item))], ending = CloseOK, is_open = True \<rparr>"

definition tooled_dialling_bridge :: bridge where
  "tooled_dialling_bridge = dialling_bridge \<lparr> handlers := sample_handlers, json_loads := sample_loads \<rparr>"

text \<open>
  An observer's \<^verbatim>\<open>session.update\<close> whose turn detection carries a number (as the speech
  endpoint's own configuration does), the bridge after that message and a media \<^verbatim>\<open>start\<close>
  event whose dial met a peer that accepts the session and closes it, and the client of
  that bridge.
\<close>

definition strict_vad_update :: pydict where
  "strict_vad_update =
     [(''type'', JStr ''session.update''),
      (''session'', JObj [(''turn_detection'',
                           JObj [(''type'', JStr ''server_vad''), (''threshold'', JFloat (Finite (1 / 2)))])])]"

definition stubborn_bridge :: bridge where
  "stubborn_bridge =
     bridge_after (handle_twilio_message (Accepted quiet_peer) twilio_start_frame
        (handle_frontend_message strict_vad_update (ringing_bridge \<lparr> frontend_websocket := Some 2 \<rparr>)))"

definition stubborn_client :: openai_client where
  "stubborn_client = (bridge_client (dict_get strict_vad_update ''session''))
       \<lparr> websocket := Some \<lparr> inbound = [], ending = CloseOK, is_open = False \<rparr>,
         reconnect_task := True \<rparr>"

section \<open>Properties of the connection registry\<close>

lemma single_occupancy_init: "single_occupancy cm_init"
  by (simp add: single_occupancy_def cm_init_def get_connection_count_def)

lemma cm_connect_accepts:
  assumes "role = ''call'' \<or> role = ''logs''" and "single_occupancy cm"
  shows "\<exists>olds cm'. active_connections cm role = Some olds
           \<and> cm_connect w role True cm = Inr cm'
           \<and> active_connections cm' role = Some [w]
           \<and> closed cm' = closed cm @ olds
           \<and> (\<forall>r. r \<noteq> role \<longrightarrow> active_connections cm' r = active_connections cm r)
           \<and> connection_types cm' = (connection_types cm)(w \<mapsto> role)"
  using assms
  by (auto simp: single_occupancy_def cm_connect_def evict_role_def get_connection_count_def
           split: option.splits)

lemma single_occupancy_connect:
  assumes "single_occupancy cm" and "cm_connect w r ok cm = Inr cm'"
  shows "single_occupancy cm'"
  using assms
  by (auto simp: single_occupancy_def cm_connect_def evict_role_def get_connection_count_def
           split: option.splits if_splits sum.splits)

lemma single_occupancy_disconnect:
  assumes "single_occupancy cm" and "cm_disconnect w cm = Inr cm'"
  shows "single_occupancy cm'"
  using assms
  by (auto simp: single_occupancy_def cm_disconnect_def get_connection_count_def length_remove1
           split: option.splits if_splits)

lemma single_occupancy_step: "single_occupancy cm \<Longrightarrow> single_occupancy (cm_step cm x)"
  by (cases x) (auto split: sum.splits intro: single_occupancy_connect single_occupancy_disconnect)

lemma single_occupancy_foldl: "single_occupancy cm \<Longrightarrow> single_occupancy (foldl cm_step cm ops)"
  by (induction ops arbitrary: cm) (simp_all add: single_occupancy_step)

lemma single_occupancy_run: "single_occupancy (cm_run ops)"
  unfolding cm_run_def by (rule single_occupancy_foldl [OF single_occupancy_init])

text \<open>
  Claim C5.  For each of the two roles (\<^verbatim>\<open>"call"\<close>, the media leg, and \<^verbatim>\<open>"logs"\<close>, the
  observer leg) and every sequence of registry calls from the initial registry (accepts,
  whose \<^verbatim>\<open>accept()\<close> may fail, and releases), the role never holds more than one
  connection; and an accept of a connection \<open>w\<close> for that role closes every connection
  the role held (they are appended to the log of closed connections), evicts them, and
  leaves \<open>w\<close> as the one active connection of the role.
\<close>

theorem registry_single_occupancy:
  assumes "role = ''call'' \<or> role = ''logs''"
  shows "get_connection_count (cm_run ops) role \<le> 1
       \<and> (\<exists>olds cm'. active_connections (cm_run ops) role = Some olds
             \<and> cm_connect w role True (cm_run ops) = Inr cm'
             \<and> closed cm' = closed (cm_run ops) @ olds
             \<and> active_connections cm' role = Some [w]
             \<and> get_connection_count cm' role = 1
             \<and> get_active_connection cm' role = Some w)"
proof -
  have inv: "single_occupancy (cm_run ops)" by (rule single_occupancy_run)
  from cm_connect_accepts [OF assms inv, of w]
  obtain olds cm' where
    a: "active_connections (cm_run ops) role = Some olds"
    and b: "cm_connect w role True (cm_run ops) = Inr cm'"
    and c: "active_connections cm' role = Some [w]"
    and d: "closed cm' = closed (cm_run ops) @ olds"
    by blast
  have "get_connection_count (cm_run ops) role \<le> 1"
    using inv assms by (auto simp: single_occupancy_def)
  moreover have "get_connection_count cm' role = 1" "get_active_connection cm' role = Some w"
    using c by (simp_all add: get_connection_count_def get_active_connection_def)
  ultimately show ?thesis using a b c d by blast
qed

theorem registry_single_occupancy_witness:
  "(''call'' = ''call'' \<or> ''call'' = ''logs'')
   \<and> get_connection_count (cm_run [Accept 1 ''call'' True, Accept 2 ''logs'' True, Accept 3 ''call'' True]) ''call'' \<le> 1
   \<and> (\<exists>olds cm'.
         active_connections (cm_run [Accept 1 ''call'' True, Accept 2 ''logs'' True, Accept 3 ''call'' True]) ''call'' = Some olds
       \<and> cm_connect 4 ''call'' True (cm_run [Accept 1 ''call'' True, Accept 2 ''logs'' True, Accept 3 ''call'' True]) = Inr cm'
       \<and> closed cm' = closed (cm_run [Accept 1 ''call'' True, Accept 2 ''logs'' True, Accept 3 ''call'' True]) @ olds
       \<and> active_connections cm' ''call'' = Some [4]
       \<and> get_connection_count cm' ''call'' = 1
       \<and> get_active_connection cm' ''call'' = Some 4)"
proof -
  have h: "''call'' = ''call'' \<or> ''call'' = ''logs''" by simp
  show ?thesis
    using registry_single_occupancy [OF h, of "[Accept 1 ''call'' True, Accept 2 ''logs'' True, Accept 3 ''call'' True]" 4]
    by simp
qed

section \<open>Properties of the bridge's helpers\<close>

lemma safe_int_field_eq: "safe_int (opt_json x) 0 = Inr (safe_int_field x)"
  by (cases x) (simp_all add: safe_int_def opt_json_def safe_int_field_def)

lemma session_update_for_default: "session_update_for JNull = Inr OpenAISessionConfig"
  by (simp add: session_update_for_def update_arg_def validate_session_def merged_def dict_get_default_def
        OpenAISessionConfig_def json_of_strs_def json_of_str_dict_def)

lemma same_session_refl: "same_session w w"
  by (simp add: same_session_def)

lemma same_session_trans: "same_session a b \<Longrightarrow> same_session b c \<Longrightarrow> same_session a c"
  by (simp add: same_session_def)

lemma same_emit: "same_session w (emit e w)"
  by (simp add: same_session_def emit_def)

lemma same_upd_client: "same_session w (upd_client f w)"
  by (simp add: same_session_def upd_client_def)

lemma same_send_to_frontend: "same_session w (send_to_frontend m w)"
  by (simp add: send_to_frontend_def same_emit same_session_refl split: option.splits)

lemma same_send_to_twilio: "same_session w (send_to_twilio m w)"
  by (simp add: send_to_twilio_def same_emit same_session_refl split: option.splits)

lemma same_run_callback: "same_session w (run_callback cb w)"
  by (cases "(cb, w)" rule: run_callback.cases) (simp_all add: same_send_to_frontend same_session_refl)

lemma same_start_reconnect: "same_session w (start_reconnect w)"
  by (auto simp: start_reconnect_def same_session_def emit_def upd_client_def split: option.splits)

lemma same_handle_connection_failure: "same_session w (handle_connection_failure w)"
  by (simp add: handle_connection_failure_def same_start_reconnect same_session_refl split: option.splits)

lemma same_handle_disconnection: "same_session w (handle_disconnection w)"
  unfolding handle_disconnection_def Let_def
  by (auto split: option.splits intro: same_session_refl same_session_trans [OF same_upd_client]
         same_session_trans [OF same_upd_client same_run_callback]
         same_session_trans [OF same_session_trans [OF same_upd_client same_run_callback] same_start_reconnect])

lemma same_send_message: "same_session w (send_message m w)"
  unfolding send_message_def
  by (auto split: option.splits
           intro: same_session_refl same_emit same_session_trans [OF same_emit same_handle_disconnection])

lemma trace_emit [simp]: "trace (emit e w) = trace w @ [e]"
  by (simp add: emit_def)

lemma trace_upd_client [simp]: "trace (upd_client f w) = trace w"
  by (simp add: upd_client_def)

lemma trace_send_to_twilio:
  "trace (send_to_twilio m w) =
     trace w @ (case twilio_websocket w of None \<Rightarrow> [] | Some t \<Rightarrow> [ToTwilio t m])"
  by (simp add: send_to_twilio_def split: option.splits)

lemma trace_send_to_frontend:
  "trace (send_to_frontend m w) =
     trace w @ (case frontend_websocket w of None \<Rightarrow> [] | Some t \<Rightarrow> [ToFrontend t m])"
  by (simp add: send_to_frontend_def split: option.splits)

lemma trace_run_callback:
  "\<exists>es. trace (run_callback cb w) = trace w @ es \<and> list_all housekeeping es"
  by (cases "(cb, w)" rule: run_callback.cases) (auto simp: trace_send_to_frontend split: option.splits)

lemma trace_start_reconnect:
  "\<exists>es. trace (start_reconnect w) = trace w @ es \<and> list_all housekeeping es"
  by (auto simp: start_reconnect_def split: option.splits)

lemma trace_handle_disconnection:
  "\<exists>es. trace (handle_disconnection w) = trace w @ es \<and> list_all housekeeping es"
proof (cases "openai_client w")
  case None
  then show ?thesis by (simp add: handle_disconnection_def)
next
  case (Some c)
  show ?thesis
  proof (cases "is_connected c")
    case False
    with Some show ?thesis by (simp add: handle_disconnection_def)
  next
    case True
    define w1 where "w1 = upd_client (\<lambda>c. c \<lparr> is_connected := False \<rparr>) w"
    obtain es1 where e1: "trace (run_callback (on_disconnected c) w1) = trace w1 @ es1"
      "list_all housekeeping es1"
      using trace_run_callback by blast
    obtain es2 where e2:
      "trace (start_reconnect (run_callback (on_disconnected c) w1))
         = trace (run_callback (on_disconnected c) w1) @ es2"
      "list_all housekeeping es2"
      using trace_start_reconnect by blast
    show ?thesis
      using Some True e1 e2 by (auto simp: handle_disconnection_def Let_def w1_def)
  qed
qed

lemma trace_send_message:
  assumes "openai_client w \<noteq> None"
  shows "\<exists>es. trace (send_message m w) = trace w @ ToOpenAI m (can_send w) # es
              \<and> list_all housekeeping es"
proof -
  obtain es where
    "trace (handle_disconnection (emit (ToOpenAI m False) w)) = trace (emit (ToOpenAI m False) w) @ es"
    "list_all housekeeping es"
    using trace_handle_disconnection by blast
  then show ?thesis using assms
    by (auto simp: send_message_def can_send_def split: option.splits)
qed

lemma filter_truncate_housekeeping: "list_all housekeeping es \<Longrightarrow> filter is_truncate es = []"
  by (induction es) (auto elim: housekeeping.elims)

lemma filter_clear_housekeeping: "list_all housekeeping es \<Longrightarrow> filter is_clear es = []"
  by (induction es) (auto elim: housekeeping.elims)

lemma filter_to_openai_housekeeping: "list_all housekeeping es \<Longrightarrow> filter is_to_openai es = []"
  by (induction es) (auto elim: housekeeping.elims)

lemma new_effects_append: "trace w' = trace w @ es \<Longrightarrow> new_effects w w' = es"
  by (simp add: new_effects_def)

section \<open>Properties of truncation\<close>

lemma handle_truncation_noop: "\<not> truncation_guard w \<Longrightarrow> handle_truncation w = w"
  by (auto simp: handle_truncation_def truncation_guard_def)

lemma handle_truncation_fires:
  assumes "truncation_guard w"
  shows "\<exists>es. trace (handle_truncation w) = trace w
            @ (if openai_client w \<noteq> None
               then ToOpenAI (ConversationItemTruncate (last_assistant_item (state w)) 0
                                (audio_end_ms (state w))) (can_send w) # es
               else [])
            @ (case twilio_websocket w of
                 None \<Rightarrow> []
               | Some t \<Rightarrow> if truthy (stream_sid (state w))
                           then [ToTwilio t (TwilioClear (stream_sid (state w)))] else [])
          \<and> list_all housekeeping es
          \<and> state (handle_truncation w)
              = (state w) \<lparr> last_assistant_item := JNull, response_start_timestamp := None \<rparr>
          \<and> twilio_websocket (handle_truncation w) = twilio_websocket w
          \<and> frontend_websocket (handle_truncation w) = frontend_websocket w
          \<and> (openai_client (handle_truncation w) = None \<longleftrightarrow> openai_client w = None)"
proof (cases "openai_client w = None")
  case True
  then show ?thesis using assms
    by (auto simp: handle_truncation_def truncation_guard_def Let_def trace_send_to_twilio
                   send_to_twilio_def emit_def split: option.splits intro!: exI [of _ "[]"])
next
  case False
  define m where "m = ConversationItemTruncate (last_assistant_item (state w)) 0 (audio_end_ms (state w))"
  define w1 where "w1 = send_message m w"
  obtain es where es: "trace w1 = trace w @ ToOpenAI m (can_send w) # es" "list_all housekeeping es"
    using trace_send_message [OF False] unfolding w1_def by blast
  have same: "same_session w w1" unfolding w1_def by (rule same_send_message)
  have ht: "handle_truncation w =
     (let w2 = (if twilio_websocket w1 \<noteq> None \<and> truthy (stream_sid (state w1))
                then send_to_twilio (TwilioClear (stream_sid (state w1))) w1 else w1)
      in w2 \<lparr> state := (state w2) \<lparr> last_assistant_item := JNull, response_start_timestamp := None \<rparr> \<rparr>)"
  proof -
    from assms obtain r where r: "response_start_timestamp (state w) = Some r"
      and t: "truthy (last_assistant_item (state w))"
      by (auto simp: truncation_guard_def)
    show ?thesis
      unfolding handle_truncation_def w1_def m_def Let_def
      using r t False by simp
  qed
  show ?thesis
    using same es False unfolding ht m_def [symmetric]
    by (auto simp: Let_def same_session_def trace_send_to_twilio send_to_twilio_def emit_def
             split: option.splits intro!: exI [of _ es])
qed

lemma speech_started_step:
  assumes "dict_get message ''type'' = JStr ''input_audio_buffer.speech_started''"
  shows "handle_openai_message (JObj message) w
           = Inr (handle_truncation (send_to_frontend (Mirror (JObj message)) w))"
  using assms by (simp add: handle_openai_message_def Let_def)

lemma guard_send_to_frontend [simp]:
  "truncation_guard (send_to_frontend m w) = truncation_guard w"
  using same_send_to_frontend [of w m] by (simp add: truncation_guard_def same_session_def)

lemma can_send_send_to_frontend [simp]: "can_send (send_to_frontend m w) = can_send w"
  by (simp add: can_send_def send_to_frontend_def emit_def split: option.splits)

lemma handle_truncation_trace:
  assumes "truncation_guard w"
  shows "\<exists>es. trace (handle_truncation w) = trace w
            @ (if openai_client w \<noteq> None
               then ToOpenAI (ConversationItemTruncate (last_assistant_item (state w)) 0
                                (audio_end_ms (state w))) (can_send w) # es
               else [])
            @ (case twilio_websocket w of
                 None \<Rightarrow> []
               | Some t \<Rightarrow> if truthy (stream_sid (state w))
                           then [ToTwilio t (TwilioClear (stream_sid (state w)))] else [])
          \<and> list_all housekeeping es"
  using handle_truncation_fires [OF assms] by auto

lemma handle_truncation_fields:
  assumes "truncation_guard w"
  shows "state (handle_truncation w)
              = (state w) \<lparr> last_assistant_item := JNull, response_start_timestamp := None \<rparr>"
    and "twilio_websocket (handle_truncation w) = twilio_websocket w"
    and "frontend_websocket (handle_truncation w) = frontend_websocket w"
    and "(openai_client (handle_truncation w) = None \<longleftrightarrow> openai_client w = None)"
  using handle_truncation_fires [OF assms] by auto

lemma speech_started_trace:
  assumes "dict_get message ''type'' = JStr ''input_audio_buffer.speech_started''"
      and "truncation_guard w"
  shows "\<exists>w' es. handle_openai_message (JObj message) w = Inr w'
          \<and> trace w' = trace w @ mirror_effects (JObj message) w
             @ (if openai_client w \<noteq> None
                then ToOpenAI (ConversationItemTruncate (last_assistant_item (state w)) 0
                                 (audio_end_ms (state w))) (can_send w) # es
                else [])
             @ clear_effects w
          \<and> list_all housekeeping es"
proof -
  define w1 where "w1 = send_to_frontend (Mirror (JObj message)) w"
  have g1: "truncation_guard w1" using assms(2) by (simp add: w1_def)
  have same: "same_session w w1" unfolding w1_def by (rule same_send_to_frontend)
  have cs: "can_send w1 = can_send w" by (simp add: w1_def)
  have tr1: "trace w1 = trace w @ mirror_effects (JObj message) w"
    unfolding w1_def mirror_effects_def by (rule trace_send_to_frontend)
  from handle_truncation_trace [OF g1] obtain es where
    tr2: "trace (handle_truncation w1) = trace w1
            @ (if openai_client w1 \<noteq> None
               then ToOpenAI (ConversationItemTruncate (last_assistant_item (state w1)) 0
                                (audio_end_ms (state w1))) (can_send w1) # es
               else [])
            @ (case twilio_websocket w1 of
                 None \<Rightarrow> []
               | Some t \<Rightarrow> if truthy (stream_sid (state w1))
                           then [ToTwilio t (TwilioClear (stream_sid (state w1)))] else [])"
    and hk: "list_all housekeeping es"
    by blast
  have step: "handle_openai_message (JObj message) w = Inr (handle_truncation w1)"
    using speech_started_step [OF assms(1)] by (simp add: w1_def)
  have "trace (handle_truncation w1) = trace w @ mirror_effects (JObj message) w
             @ (if openai_client w \<noteq> None
                then ToOpenAI (ConversationItemTruncate (last_assistant_item (state w)) 0
                                 (audio_end_ms (state w))) (can_send w) # es
                else [])
             @ clear_effects w"
  proof -
    have s1: "state w1 = state w" "twilio_websocket w1 = twilio_websocket w"
      "(openai_client w1 \<noteq> None) = (openai_client w \<noteq> None)"
      using same by (simp_all add: same_session_def)
    show ?thesis unfolding tr2 tr1 s1 cs clear_effects_def by simp
  qed
  with step hk show ?thesis by blast
qed

lemma speech_started_fields:
  assumes "dict_get message ''type'' = JStr ''input_audio_buffer.speech_started''"
      and "truncation_guard w"
      and "handle_openai_message (JObj message) w = Inr w'"
  shows "state w' = (state w) \<lparr> last_assistant_item := JNull, response_start_timestamp := None \<rparr>"
    and "twilio_websocket w' = twilio_websocket w"
    and "frontend_websocket w' = frontend_websocket w"
    and "(openai_client w' = None \<longleftrightarrow> openai_client w = None)"
proof -
  define w1 where "w1 = send_to_frontend (Mirror (JObj message)) w"
  have g1: "truncation_guard w1" using assms(2) by (simp add: w1_def)
  have same: "same_session w w1" unfolding w1_def by (rule same_send_to_frontend)
  have w': "w' = handle_truncation w1"
    using speech_started_step [OF assms(1), of w] assms(3) by (simp add: w1_def)
  show "state w' = (state w) \<lparr> last_assistant_item := JNull, response_start_timestamp := None \<rparr>"
    and "twilio_websocket w' = twilio_websocket w"
    and "frontend_websocket w' = frontend_websocket w"
    and "(openai_client w' = None \<longleftrightarrow> openai_client w = None)"
    using handle_truncation_fields [OF g1] same unfolding w' by (simp_all add: same_session_def)
qed

lemma speech_started_idle:
  assumes "\<not> truncation_guard w"
      and "dict_get message ''type'' = JStr ''input_audio_buffer.speech_started''"
  shows "handle_openai_message (JObj message) w = Inr (send_to_frontend (Mirror (JObj message)) w)"
proof -
  have "\<not> truncation_guard (send_to_frontend (Mirror (JObj message)) w)" using assms(1) by simp
  from handle_truncation_noop [OF this] speech_started_step [OF assms(2), of w]
  show ?thesis by simp
qed

lemma filter_mirror_effects [simp]:
  "filter is_truncate (mirror_effects d w) = []" "filter is_clear (mirror_effects d w) = []"
  by (simp_all add: mirror_effects_def split: option.splits)

lemma filter_clear_effects:
  "filter is_truncate (clear_effects w) = []" "length (filter is_clear (clear_effects w)) \<le> 1"
  by (simp_all add: clear_effects_def split: option.splits)

lemma audio_end_ms_eq:
  "response_start_timestamp s = Some r \<Longrightarrow>
     audio_end_ms s = max (safe_int_field (latest_media_timestamp s) - r) 0"
  by (simp add: audio_end_ms_def safe_int_field_def Let_def)

text \<open>
  Claim C9.  In every state of the bridge in which \<open>last_assistant_item\<close> is \<^verbatim>\<open>None\<close> or
  \<open>response_start_timestamp\<close> is \<^verbatim>\<open>None\<close>, \<^verbatim>\<open>_handle_truncation\<close> changes nothing, and
  handling a \<^verbatim>\<open>speech_started\<close> event emits no truncate command and no clear command and
  leaves the session state, both legs and the client as they were: the only effect is the
  mirror of the event to the observer leg, when there is one.
\<close>

theorem speech_started_without_item_is_noop:
  assumes "last_assistant_item (state w) = JNull \<or> response_start_timestamp (state w) = None"
      and "dict_get message ''type'' = JStr ''input_audio_buffer.speech_started''"
  shows "handle_truncation w = w
       \<and> (\<exists>w'. handle_openai_message (JObj message) w = Inr w'
              \<and> state w' = state w
              \<and> filter is_truncate (new_effects w w') = []
              \<and> filter is_clear (new_effects w w') = []
              \<and> new_effects w w' = (case frontend_websocket w of
                                       None \<Rightarrow> []
                                     | Some f \<Rightarrow> [ToFrontend f (Mirror (JObj message))])
              \<and> twilio_websocket w' = twilio_websocket w
              \<and> frontend_websocket w' = frontend_websocket w
              \<and> openai_client w' = openai_client w)"
proof -
  have g: "\<not> truncation_guard w" using assms(1) by (auto simp: truncation_guard_def)
  define w1 where "w1 = send_to_frontend (Mirror (JObj message)) w"
  have g1: "\<not> truncation_guard w1" using g by (simp add: w1_def)
  have step: "handle_openai_message (JObj message) w = Inr w1"
    using speech_started_step [OF assms(2), of w] handle_truncation_noop [OF g1] by (simp add: w1_def)
  have tr: "trace w1 = trace w @ (case frontend_websocket w of
                                       None \<Rightarrow> []
                                     | Some f \<Rightarrow> [ToFrontend f (Mirror (JObj message))])"
    unfolding w1_def by (rule trace_send_to_frontend)
  have ne: "new_effects w w1 = (case frontend_websocket w of
                                       None \<Rightarrow> []
                                     | Some f \<Rightarrow> [ToFrontend f (Mirror (JObj message))])"
    by (rule new_effects_append [OF tr])
  have rest: "state w1 = state w" "twilio_websocket w1 = twilio_websocket w"
      "frontend_websocket w1 = frontend_websocket w" "openai_client w1 = openai_client w"
    by (simp_all add: w1_def send_to_frontend_def emit_def split: option.splits)
  have f1: "filter is_truncate (new_effects w w1) = []" "filter is_clear (new_effects w w1) = []"
    unfolding ne by (simp_all split: option.splits)
  show ?thesis using handle_truncation_noop [OF g] step ne rest f1 by simp
qed

theorem speech_started_without_item_is_noop_witness:
  "(last_assistant_item (state idle_bridge) = JNull \<or> response_start_timestamp (state idle_bridge) = None)
   \<and> dict_get [(''type'', JStr ''input_audio_buffer.speech_started'')] ''type'' = JStr ''input_audio_buffer.speech_started''
   \<and> handle_truncation idle_bridge = idle_bridge
   \<and> handle_openai_message (JObj [(''type'', JStr ''input_audio_buffer.speech_started'')]) idle_bridge
       = Inr (idle_bridge \<lparr> trace := [ToFrontend 2 (Mirror (JObj [(''type'', JStr ''input_audio_buffer.speech_started'')]))] \<rparr>)"
proof -
  have h1: "last_assistant_item (state idle_bridge) = JNull \<or> response_start_timestamp (state idle_bridge) = None"
    by (simp add: idle_bridge_def SessionManager_def SessionState_def)
  have h2: "dict_get [(''type'', JStr ''input_audio_buffer.speech_started'')] ''type'' = JStr ''input_audio_buffer.speech_started''"
    by (simp add: dict_get_def)
  from speech_started_without_item_is_noop [OF h1 h2]
  obtain w' where a: "handle_openai_message (JObj [(''type'', JStr ''input_audio_buffer.speech_started'')]) idle_bridge = Inr w'"
    and b: "handle_truncation idle_bridge = idle_bridge" by blast
  have c: "handle_openai_message (JObj [(''type'', JStr ''input_audio_buffer.speech_started'')]) idle_bridge
       = Inr (idle_bridge \<lparr> trace := [ToFrontend 2 (Mirror (JObj [(''type'', JStr ''input_audio_buffer.speech_started'')]))] \<rparr>)"
    by (simp add: handle_openai_message_def dict_get_def handle_truncation_def send_to_frontend_def emit_def
          idle_bridge_def SessionManager_def SessionState_def)
  show ?thesis using h1 h2 b c by simp
qed

text \<open>
  Where both fields the guard reads are set and the bridge holds a client, a
  \<^verbatim>\<open>speech_started\<close> event passes exactly one truncate command to the client, for the
  item in flight, with the offset computed from the two timestamps.
\<close>

lemma speech_started_passes_truncate:
  assumes "truthy (last_assistant_item (state w))"
      and "response_start_timestamp (state w) = Some r"
      and "openai_client w \<noteq> None"
      and "dict_get message ''type'' = JStr ''input_audio_buffer.speech_started''"
  shows "\<exists>w'. handle_openai_message (JObj message) w = Inr w'
          \<and> filter is_truncate (new_effects w w')
              = [ToOpenAI (ConversationItemTruncate (last_assistant_item (state w)) 0
                             (audio_end_ms (state w))) (can_send w)]
          \<and> audio_end_ms (state w) = max (safe_int_field (latest_media_timestamp (state w)) - r) 0
          \<and> 0 \<le> audio_end_ms (state w)
          \<and> (safe_int_field (latest_media_timestamp (state w)) \<le> r \<longrightarrow> audio_end_ms (state w) = 0)"
proof -
  have g: "truncation_guard w" using assms(1,2) by (simp add: truncation_guard_def)
  from speech_started_trace [OF assms(4) g] obtain w' es where
    a: "handle_openai_message (JObj message) w = Inr w'"
    and b: "trace w' = trace w @ mirror_effects (JObj message) w
             @ (if openai_client w \<noteq> None
                then ToOpenAI (ConversationItemTruncate (last_assistant_item (state w)) 0
                                 (audio_end_ms (state w))) (can_send w) # es
                else [])
             @ clear_effects w"
    and hk: "list_all housekeeping es"
    by blast
  have ne: "new_effects w w' = mirror_effects (JObj message) w
             @ (ToOpenAI (ConversationItemTruncate (last_assistant_item (state w)) 0
                                 (audio_end_ms (state w))) (can_send w) # es)
             @ clear_effects w"
    using b assms(3) by (simp add: new_effects_def)
  have f: "filter is_truncate (new_effects w w')
              = [ToOpenAI (ConversationItemTruncate (last_assistant_item (state w)) 0
                             (audio_end_ms (state w))) (can_send w)]"
    unfolding ne using filter_truncate_housekeeping [OF hk] by (simp add: filter_clear_effects)
  have e: "audio_end_ms (state w) = max (safe_int_field (latest_media_timestamp (state w)) - r) 0"
    by (rule audio_end_ms_eq [OF assms(2)])
  show ?thesis using a f e by auto
qed

text \<open>
  Claim C10.  Of two consecutive \<^verbatim>\<open>speech_started\<close> events, handled from any state of the
  bridge, the first resets both \<open>last_assistant_item\<close> and \<open>response_start_timestamp\<close>
  to \<^verbatim>\<open>None\<close> whenever the guard passes (whether or not there is a client for the truncate
  command or a telephony socket and stream id for the clear command), and the second is a
  no-op: it emits no truncate and no clear command and leaves the session state
  unchanged.  So the two events together emit at most one truncate and at most one clear
  command.
\<close>

theorem second_speech_started_is_noop:
  assumes "dict_get m1 ''type'' = JStr ''input_audio_buffer.speech_started''"
      and "dict_get m2 ''type'' = JStr ''input_audio_buffer.speech_started''"
  shows "\<exists>w1 w2. handle_openai_message (JObj m1) w = Inr w1
          \<and> handle_openai_message (JObj m2) w1 = Inr w2
          \<and> (truncation_guard w \<longrightarrow>
                last_assistant_item (state w1) = JNull \<and> response_start_timestamp (state w1) = None)
          \<and> state w2 = state w1
          \<and> filter is_truncate (new_effects w1 w2) = []
          \<and> filter is_clear (new_effects w1 w2) = []
          \<and> length (filter is_truncate (new_effects w w2)) \<le> 1
          \<and> length (filter is_clear (new_effects w w2)) \<le> 1"
proof -
  have first: "\<exists>w1 es. handle_openai_message (JObj m1) w = Inr w1 \<and> trace w1 = trace w @ es
      \<and> length (filter is_truncate es) \<le> 1 \<and> length (filter is_clear es) \<le> 1
      \<and> \<not> truncation_guard w1
      \<and> (truncation_guard w \<longrightarrow>
                last_assistant_item (state w1) = JNull \<and> response_start_timestamp (state w1) = None)"
  proof (cases "truncation_guard w")
    case True
    from speech_started_trace [OF assms(1) True] obtain w1 es where
      a: "handle_openai_message (JObj m1) w = Inr w1"
      and b: "trace w1 = trace w @ mirror_effects (JObj m1) w
             @ (if openai_client w \<noteq> None
                then ToOpenAI (ConversationItemTruncate (last_assistant_item (state w)) 0
                                 (audio_end_ms (state w))) (can_send w) # es
                else [])
             @ clear_effects w"
      and hk: "list_all housekeeping es"
      by blast
    have st: "state w1 = (state w) \<lparr> last_assistant_item := JNull, response_start_timestamp := None \<rparr>"
      by (rule speech_started_fields(1) [OF assms(1) True a])
    have "length (filter is_truncate (mirror_effects (JObj m1) w
             @ (if openai_client w \<noteq> None
                then ToOpenAI (ConversationItemTruncate (last_assistant_item (state w)) 0
                                 (audio_end_ms (state w))) (can_send w) # es
                else [])
             @ clear_effects w)) \<le> 1"
      using filter_truncate_housekeeping [OF hk] by (simp add: filter_clear_effects)
    moreover have "length (filter is_clear (mirror_effects (JObj m1) w
             @ (if openai_client w \<noteq> None
                then ToOpenAI (ConversationItemTruncate (last_assistant_item (state w)) 0
                                 (audio_end_ms (state w))) (can_send w) # es
                else [])
             @ clear_effects w)) \<le> 1"
      using filter_clear_housekeeping [OF hk] filter_clear_effects(2) [of w] by simp
    moreover have "\<not> truncation_guard w1" using st by (simp add: truncation_guard_def)
    ultimately show ?thesis using a b st by auto
  next
    case False
    have a: "handle_openai_message (JObj m1) w = Inr (send_to_frontend (Mirror (JObj m1)) w)"
      by (rule speech_started_idle [OF False assms(1)])
    have b: "trace (send_to_frontend (Mirror (JObj m1)) w) = trace w @ mirror_effects (JObj m1) w"
      unfolding mirror_effects_def by (rule trace_send_to_frontend)
    show ?thesis using a b False by auto
  qed
  then obtain w1 es where
    a1: "handle_openai_message (JObj m1) w = Inr w1" and t1: "trace w1 = trace w @ es"
    and c1: "length (filter is_truncate es) \<le> 1" "length (filter is_clear es) \<le> 1"
    and g1: "\<not> truncation_guard w1"
    and r1: "truncation_guard w \<longrightarrow>
                last_assistant_item (state w1) = JNull \<and> response_start_timestamp (state w1) = None"
    by blast
  define w2 where "w2 = send_to_frontend (Mirror (JObj m2)) w1"
  have a2: "handle_openai_message (JObj m2) w1 = Inr w2"
    unfolding w2_def by (rule speech_started_idle [OF g1 assms(2)])
  have t2: "trace w2 = trace w1 @ mirror_effects (JObj m2) w1"
    unfolding w2_def mirror_effects_def by (rule trace_send_to_frontend)
  have s2: "state w2 = state w1"
    using same_send_to_frontend [of w1 "Mirror (JObj m2)"] by (simp add: w2_def same_session_def)
  have n12: "new_effects w1 w2 = mirror_effects (JObj m2) w1"
    by (rule new_effects_append [OF t2])
  have n02: "new_effects w w2 = es @ mirror_effects (JObj m2) w1"
    by (rule new_effects_append) (simp add: t2 t1)
  have f12: "filter is_truncate (new_effects w1 w2) = []" "filter is_clear (new_effects w1 w2) = []"
    unfolding n12 by simp_all
  have f02: "length (filter is_truncate (new_effects w w2)) \<le> 1"
    "length (filter is_clear (new_effects w w2)) \<le> 1"
    unfolding n02 using c1 by simp_all
  show ?thesis
    using a1 a2 r1 s2 f12 f02 by blast
qed

theorem second_speech_started_is_noop_witness:
  "dict_get speech_started_event ''type'' = JStr ''input_audio_buffer.speech_started''
   \<and> truncation_guard orphan_bridge
   \<and> (\<exists>w1 w2. handle_openai_message (JObj speech_started_event) orphan_bridge = Inr w1
          \<and> handle_openai_message (JObj speech_started_event) w1 = Inr w2
          \<and> last_assistant_item (state w1) = JNull \<and> response_start_timestamp (state w1) = None
          \<and> state w2 = state w1
          \<and> filter is_truncate (new_effects w1 w2) = []
          \<and> filter is_clear (new_effects w1 w2) = []
          \<and> length (filter is_truncate (new_effects orphan_bridge w2)) \<le> 1
          \<and> length (filter is_clear (new_effects orphan_bridge w2)) \<le> 1)"
proof -
  have h: "dict_get speech_started_event ''type'' = JStr ''input_audio_buffer.speech_started''"
    by (simp add: speech_started_event_def dict_get_def)
  have g: "truncation_guard orphan_bridge"
    by (simp add: truncation_guard_def orphan_bridge_def speaking_bridge_def SessionManager_def SessionState_def)
  show ?thesis
    using second_speech_started_is_noop [OF h h, of orphan_bridge] h g by auto
qed

section \<open>Properties of the media timestamp\<close>

lemma py_int_error: "py_int v = Inl e \<Longrightarrow> e = TypeError \<or> e = ValueError \<or> (e = OverflowError \<and> (v = JFloat PosInf \<or> v = JFloat NegInf))"
  by (cases v rule: py_int.cases) (auto split: option.splits)

lemma safe_int_readable:
  assumes "ts \<noteq> JFloat PosInf" "ts \<noteq> JFloat NegInf"
  shows "safe_int ts 0 = Inr (case py_int ts of Inl e \<Rightarrow> 0 | Inr n \<Rightarrow> n)"
proof (cases "py_int ts")
  case (Inl e)
  with py_int_error [OF Inl] assms show ?thesis by (auto simp: safe_int_def)
next
  case (Inr n)
  then show ?thesis by (cases ts) (auto simp: safe_int_def)
qed

lemma media_chunk_readable:
  assumes "readable_chunk m"
  shows "\<exists>w'. handle_twilio_media m w = Inr w'
           \<and> state w' = (state w) \<lparr> latest_media_timestamp := Some (coerced_timestamp m) \<rparr>"
proof -
  from assms obtain md where md: "dict_get_default m ''media'' (JObj []) = JObj md"
    by (auto simp: readable_chunk_def chunk_timestamp_def split: json.splits)
  define ts where "ts = dict_get_default md ''timestamp'' (JInt 0)"
  have r: "ts \<noteq> JFloat PosInf" "ts \<noteq> JFloat NegInf"
    using assms md by (auto simp: readable_chunk_def chunk_timestamp_def ts_def)
  have c: "coerced_timestamp m = (case py_int ts of Inl e \<Rightarrow> 0 | Inr n \<Rightarrow> n)"
    using md by (simp add: coerced_timestamp_def chunk_timestamp_def ts_def)
  define w1 where "w1 = w \<lparr> state := (state w) \<lparr> latest_media_timestamp := Some (coerced_timestamp m) \<rparr> \<rparr>"
  have "handle_twilio_media m w =
      (if client_connected w1 then Inr (send_message (InputAudioBufferAppend (dict_get_default md ''payload'' (JStr []))) w1) else Inr w1)"
    using md safe_int_readable [OF r] c
    by (simp add: handle_twilio_media_def ts_def [symmetric] w1_def Let_def)
  moreover have "same_session w1 (send_message (InputAudioBufferAppend (dict_get_default md ''payload'' (JStr []))) w1)"
    by (rule same_send_message)
  ultimately show ?thesis by (auto simp: same_session_def w1_def)
qed

lemma media_chunks_latest_timestamp:
  assumes "list_all readable_chunk ms" and "ms \<noteq> []"
  shows "\<exists>w'. handle_media_chunks ms w = Inr w'
           \<and> latest_media_timestamp (state w') = Some (coerced_timestamp (last ms))"
  using assms
proof (induction ms arbitrary: w)
  case Nil
  then show ?case by simp
next
  case (Cons m ms)
  from Cons.prems(1) have rm: "readable_chunk m" and rms: "list_all readable_chunk ms" by simp_all
  from media_chunk_readable [OF rm, of w] obtain w1 where
    a: "handle_twilio_media m w = Inr w1"
    and b: "state w1 = (state w) \<lparr> latest_media_timestamp := Some (coerced_timestamp m) \<rparr>"
    by blast
  show ?case
  proof (cases "ms = []")
    case True
    then show ?thesis using a b by simp
  next
    case False
    from Cons.IH [OF rms False, of w1] a False show ?thesis by simp
  qed
qed

lemma coerced_missing_or_non_numeric:
  "coerced_timestamp [(''event'', JStr ''media'')] = 0"
  "coerced_timestamp [(''event'', JStr ''media''), (''media'', JObj [(''payload'', p)])] = 0"
  "coerced_timestamp (media_event JNull p) = 0"
  "coerced_timestamp (media_event (JStr ''abc'') p) = 0"
  "coerced_timestamp (media_event (JArr xs) p) = 0"
  "coerced_timestamp (media_event (JObj kvs) p) = 0"
  "coerced_timestamp (media_event (JFloat NaN) p) = 0"
  "coerced_timestamp (media_event (JInt n) p) = n"
  "coerced_timestamp (media_event (JStr ''1000'') p) = 1000"
  "coerced_timestamp (media_event (JStr '' +1_000 '') p) = 1000"
  "coerced_timestamp (media_event (JFloat (Finite (5 / 2))) p) = 2"
  "coerced_timestamp (media_event (JBool True) p) = 1"
  by (simp_all add: coerced_timestamp_def chunk_timestamp_def media_event_def dict_get_default_def
        int_of_str_def strip_def is_space_def is_digit_def digit_val_def floor_unique)

text \<open>
  Claim C4.  A run of media chunks leaves \<open>latest_media_timestamp\<close> at the last chunk's
  timestamp coerced to an integer, with 0 for a missing or non-numeric timestamp, as long
  as no timestamp is an infinite float (lemmas \<open>media_chunks_latest_timestamp\<close> and
  \<open>coerced_missing_or_non_numeric\<close>).  It does not hold of every run: \<^verbatim>\<open>int\<close> of an
  infinite float raises \<^verbatim>\<open>OverflowError\<close>, which \<^verbatim>\<open>_safe_int\<close> does not catch.  The
  exception leaves the handler, and \<open>latest_media_timestamp\<close> keeps the value of the
  chunk before.
\<close>

theorem media_infinite_timestamp_raises:
  "handle_twilio_message d (media_event (JFloat PosInf) payload) w = Inl (OverflowError, w)
   \<and> handle_media_chunks [media_event (JInt 1000) payload, media_event (JFloat PosInf) payload] idle_bridge
       = Inl (OverflowError, idle_bridge \<lparr> state := (state idle_bridge) \<lparr> latest_media_timestamp := Some 1000 \<rparr> \<rparr>)"
  by (simp add: handle_twilio_message_def handle_twilio_media_def media_event_def dict_get_def
        dict_get_default_def safe_int_def idle_bridge_def SessionManager_def client_connected_def)

section \<open>Properties of tool calls\<close>

lemma client_run_callback [simp]: "openai_client (run_callback cb w) = openai_client w"
  by (cases "(cb, w)" rule: run_callback.cases)
     (simp_all add: send_to_frontend_def emit_def split: option.splits)

lemma can_send_start_reconnect [simp]: "can_send (start_reconnect w) = can_send w"
  by (auto simp: can_send_def start_reconnect_def upd_client_def emit_def split: option.splits)

lemma can_send_run_callback [simp]: "can_send (run_callback cb w) = can_send w"
  by (simp add: can_send_def)

lemma cannot_send_after_disconnection: "\<not> can_send v \<Longrightarrow> \<not> can_send (handle_disconnection v)"
  by (cases "openai_client v")
     (auto simp: handle_disconnection_def Let_def, auto simp: can_send_def upd_client_def)

lemma can_send_send_message: "can_send (send_message m w) = can_send w"
proof (cases "can_send w")
  case True
  then show ?thesis
    by (auto simp: can_send_def send_message_def emit_def split: option.splits)
next
  case False
  have "\<not> can_send (emit (ToOpenAI m False) w)" using False by (simp add: can_send_def emit_def)
  from cannot_send_after_disconnection [OF this] False show ?thesis
    by (auto simp: can_send_def send_message_def emit_def split: option.splits)
qed

lemma function_call_error_result:
  assumes "hs n = None \<or> (\<exists>a. arguments = JStr a \<and> loads a = Decode_error)"
  shows "\<exists>result. handle_function_call hs loads (JStr n) arguments = Inr result \<and> is_error_json result"
  using assms by (auto simp: handle_function_call_def split: option.splits)

lemma tool_call_step:
  assumes "is_tool_call_event message item"
  shows "handle_openai_message (JObj message) w
           = Inr (handle_function_call_item item (send_to_frontend (Mirror (JObj message)) w))"
  using assms
  by (simp add: handle_openai_message_def is_tool_call_event_def handle_output_item_done_def Let_def)

lemma function_call_item_trace:
  assumes "handle_function_call (handlers w) (json_loads w)
              (dict_get_default item ''name'' (JStr [])) (dict_get_default item ''arguments'' (JStr ''{}'')) = Inr result"
      and "openai_client w \<noteq> None"
  shows "\<exists>es1 es2. trace (handle_function_call_item item w) = trace w
             @ ToOpenAI (ConversationItemCreate (dict_get_default item ''call_id'' (JStr [])) result) (can_send w) # es1
             @ ToOpenAI ResponseCreate (can_send w) # es2
           \<and> list_all housekeeping es1 \<and> list_all housekeeping es2"
proof -
  define m1 where "m1 = ConversationItemCreate (dict_get_default item ''call_id'' (JStr [])) result"
  define w1 where "w1 = send_message m1 w"
  have c1: "openai_client w1 \<noteq> None"
    using same_send_message [of w m1] assms(2) by (simp add: same_session_def w1_def)
  obtain es1 where e1: "trace w1 = trace w @ ToOpenAI m1 (can_send w) # es1" "list_all housekeeping es1"
    using trace_send_message [OF assms(2), of m1] unfolding w1_def by blast
  obtain es2 where e2: "trace (send_message ResponseCreate w1) = trace w1 @ ToOpenAI ResponseCreate (can_send w1) # es2"
    "list_all housekeeping es2"
    using trace_send_message [OF c1, of ResponseCreate] by blast
  have cs: "can_send w1 = can_send w" unfolding w1_def by (rule can_send_send_message)
  have "handle_function_call_item item w = send_message ResponseCreate w1"
    using assms by (simp add: handle_function_call_item_def Let_def w1_def m1_def)
  then show ?thesis using e1 e2 cs unfolding m1_def by auto
qed

text \<open>
  For a finished function-call item whose name is a string: when the name is not
  registered, or \<^verbatim>\<open>json.loads\<close> raises \<^verbatim>\<open>JSONDecodeError\<close> on the argument string,
  \<^verbatim>\<open>handle_function_call\<close> returns the serialisation of a dict with an \<^verbatim>\<open>"error"\<close> key,
  and the bridge passes its client a \<^verbatim>\<open>conversation.item.create\<close> command carrying that
  result for the call id, followed by a \<^verbatim>\<open>response.create\<close> command, and no other command;
  both go out when the connection is open.
\<close>

lemma decode_error_is_delivered:
  assumes "is_tool_call_event message item"
      and "dict_get_default item ''name'' (JStr []) = JStr n"
      and "handlers w n = None
           \<or> (\<exists>a. dict_get_default item ''arguments'' (JStr ''{}'') = JStr a \<and> json_loads w a = Decode_error)"
      and "openai_client w \<noteq> None"
  shows "\<exists>result w'.
           handle_function_call (handlers w) (json_loads w) (JStr n)
              (dict_get_default item ''arguments'' (JStr ''{}'')) = Inr result
         \<and> is_error_json result
         \<and> handle_openai_message (JObj message) w = Inr w'
         \<and> filter is_to_openai (new_effects w w')
             = [ToOpenAI (ConversationItemCreate (dict_get_default item ''call_id'' (JStr [])) result) (can_send w),
                ToOpenAI ResponseCreate (can_send w)]"
proof -
  from function_call_error_result [of "handlers w" n _ "json_loads w", OF assms(3)] obtain result where
    r: "handle_function_call (handlers w) (json_loads w) (JStr n)
              (dict_get_default item ''arguments'' (JStr ''{}'')) = Inr result"
    and e: "is_error_json result" by blast
  define w0 where "w0 = send_to_frontend (Mirror (JObj message)) w"
  have same: "same_session w w0" unfolding w0_def by (rule same_send_to_frontend)
  have r0: "handle_function_call (handlers w0) (json_loads w0)
              (dict_get_default item ''name'' (JStr [])) (dict_get_default item ''arguments'' (JStr ''{}'')) = Inr result"
    using r same assms(2) by (simp add: same_session_def)
  have c0: "openai_client w0 \<noteq> None" using same assms(4) by (simp add: same_session_def)
  from function_call_item_trace [OF r0 c0] obtain es1 es2 where
    t: "trace (handle_function_call_item item w0) = trace w0
             @ ToOpenAI (ConversationItemCreate (dict_get_default item ''call_id'' (JStr [])) result) (can_send w0) # es1
             @ ToOpenAI ResponseCreate (can_send w0) # es2"
    and hk: "list_all housekeeping es1" "list_all housekeeping es2" by blast
  have t0: "trace w0 = trace w @ mirror_effects (JObj message) w"
    unfolding w0_def mirror_effects_def by (rule trace_send_to_frontend)
  have cs: "can_send w0 = can_send w" by (simp add: w0_def)
  have ne: "new_effects w (handle_function_call_item item w0) = mirror_effects (JObj message) w
             @ ToOpenAI (ConversationItemCreate (dict_get_default item ''call_id'' (JStr [])) result) (can_send w) # es1
             @ ToOpenAI ResponseCreate (can_send w) # es2"
    by (rule new_effects_append) (simp add: t t0 cs)
  have fm: "filter is_to_openai (mirror_effects (JObj message) w) = []"
    by (simp add: mirror_effects_def split: option.splits)
  have f: "filter is_to_openai (new_effects w (handle_function_call_item item w0))
             = [ToOpenAI (ConversationItemCreate (dict_get_default item ''call_id'' (JStr [])) result) (can_send w),
                ToOpenAI ResponseCreate (can_send w)]"
    unfolding ne using filter_to_openai_housekeeping [OF hk(1)] filter_to_openai_housekeeping [OF hk(2)] fm
    by simp
  have s: "handle_openai_message (JObj message) w = Inr (handle_function_call_item item w0)"
    unfolding w0_def by (rule tool_call_step [OF assms(1)])
  show ?thesis using r e s f by blast
qed

lemma deep_brackets_length: "length deep_brackets = 100000"
  by (simp add: deep_brackets_def)

lemma sample_loads_values:
  "sample_loads deep_brackets = Loads_raises RecursionError"
  "sample_loads ''{not json'' = Decode_error"
  "sample_loads ''{}'' = Parsed (JObj [])"
proof -
  have a: "deep_brackets \<noteq> ''{}''"
  proof
    assume "deep_brackets = ''{}''"
    then have "length deep_brackets = length ''{}''" by (rule arg_cong)
    then show False by (simp add: deep_brackets_length)
  qed
  have b: "''{not json'' \<noteq> deep_brackets"
  proof
    assume "''{not json'' = deep_brackets"
    then have "length ''{not json'' = length deep_brackets" by (rule arg_cong)
    then show False by (simp add: deep_brackets_length)
  qed
  show "sample_loads deep_brackets = Loads_raises RecursionError" using a by (simp add: sample_loads_def)
  show "sample_loads ''{not json'' = Decode_error" using b by (simp add: sample_loads_def)
  show "sample_loads ''{}'' = Parsed (JObj [])" by (simp add: sample_loads_def)
qed

lemma deep_call:
  "handle_function_call sample_handlers sample_loads (JStr ''get_weather_from_coords'') (JStr deep_brackets)
     = Inl RecursionError"
  by (simp add: handle_function_call_def sample_handlers_def sample_loads_values)

lemma deep_run:
  "trace (snd (connect (Accepted (calling_peer deep_arguments_call)) tooled_dialling_bridge)) =
      [Dial True,
       ToFrontend 2 (Mirror (JObj (tool_call_event deep_arguments_call))),
       ToOpenAI (SessionUpdate OpenAISessionConfig) False,
       ToFrontend 2 (ConnectionStatus ''openai_disconnected'' ''OpenAI connection lost, reconnecting...''),
       SpawnReconnect,
       ToFrontend 2 (ConnectionStatus ''openai_connected'' ''OpenAI connection established'')]"
proof -
  have ev: "dict_get (tool_call_event deep_arguments_call) ''type'' = JStr ''response.output_item.done''"
    "dict_get_default (tool_call_event deep_arguments_call) ''item'' (JObj []) = JObj deep_arguments_call"
    "dict_get deep_arguments_call ''type'' = JStr ''function_call''"
    "dict_get_default deep_arguments_call ''name'' (JStr []) = JStr ''get_weather_from_coords''"
    "dict_get_default deep_arguments_call ''arguments'' (JStr ''{}'') = JStr deep_brackets"
    "dict_get_default deep_arguments_call ''call_id'' (JStr []) = JStr ''call_3''"
    by (simp_all add: tool_call_event_def deep_arguments_call_def dict_get_def dict_get_default_def)
  show ?thesis
    by (simp add: connect_def calling_peer_def tooled_dialling_bridge_def dialling_bridge_def ringing_bridge_def
        SessionManager_def bridge_client_def OpenAIClient_def upd_client_def emit_def listen_messages_def
        client_connected_def dispatch_frame_def handle_openai_message_def handle_output_item_done_def
        handle_function_call_item_def ev deep_call mark_closed_def
        send_session_update_def session_update_for_default send_message_def handle_disconnection_def
        start_reconnect_def send_to_frontend_def Let_def)
qed

lemma bad_call:
  "handle_function_call sample_handlers sample_loads (JStr ''get_weather_from_coords'') (JStr ''{not json'')
     = Inr (JsonDumps [(''error'', Invalid_JSON_arguments)])"
  by (simp add: handle_function_call_def sample_handlers_def sample_loads_values)

lemma bad_run:
  "trace (snd (connect (Accepted (calling_peer bad_arguments_call)) tooled_dialling_bridge)) =
      [Dial True,
       ToFrontend 2 (Mirror (JObj (tool_call_event bad_arguments_call))),
       ToOpenAI (ConversationItemCreate (JStr ''call_2'') (JsonDumps [(''error'', Invalid_JSON_arguments)])) True,
       ToOpenAI ResponseCreate True,
       ToOpenAI (SessionUpdate OpenAISessionConfig) False,
       ToFrontend 2 (ConnectionStatus ''openai_disconnected'' ''OpenAI connection lost, reconnecting...''),
       SpawnReconnect,
       ToFrontend 2 (ConnectionStatus ''openai_connected'' ''OpenAI connection established'')]"
proof -
  have ev: "dict_get (tool_call_event bad_arguments_call) ''type'' = JStr ''response.output_item.done''"
    "dict_get_default (tool_call_event bad_arguments_call) ''item'' (JObj []) = JObj bad_arguments_call"
    "dict_get bad_arguments_call ''type'' = JStr ''function_call''"
    "dict_get_default bad_arguments_call ''name'' (JStr []) = JStr ''get_weather_from_coords''"
    "dict_get_default bad_arguments_call ''arguments'' (JStr ''{}'') = JStr ''{not json''"
    "dict_get_default bad_arguments_call ''call_id'' (JStr []) = JStr ''call_2''"
    by (simp_all add: tool_call_event_def bad_arguments_call_def dict_get_def dict_get_default_def)
  show ?thesis
    by (simp add: connect_def calling_peer_def tooled_dialling_bridge_def dialling_bridge_def ringing_bridge_def
        SessionManager_def bridge_client_def OpenAIClient_def upd_client_def emit_def listen_messages_def
        client_connected_def dispatch_frame_def handle_openai_message_def handle_output_item_done_def
        handle_function_call_item_def ev bad_call mark_closed_def
        send_session_update_def session_update_for_default send_message_def handle_disconnection_def
        start_reconnect_def send_to_frontend_def Let_def)
qed

text \<open>
  Claim C6.  An argument string that \<^verbatim>\<open>json.loads\<close> rejects with \<^verbatim>\<open>JSONDecodeError\<close> gets
  the error result, and the bridge sends it to the speech endpoint followed by a
  \<^verbatim>\<open>response.create\<close> (lemma \<open>decode_error_is_delivered\<close>; second half of the theorem).
  But \<^verbatim>\<open>handle_function_call\<close> catches only \<^verbatim>\<open>JSONDecodeError\<close>: on an argument string of
  100000 opening brackets, which is not JSON, \<^verbatim>\<open>json.loads\<close> raises \<^verbatim>\<open>RecursionError\<close>,
  \<^verbatim>\<open>handle_function_call\<close> raises it too, and \<^verbatim>\<open>_handle_function_call\<close> logs it and
  sends nothing.  On a live connection that delivers such a tool call, the only command
  of the whole connection is the session update of \<^verbatim>\<open>connect\<close>; on one that delivers a
  tool call with arguments that are merely malformed, the error result and the
  \<^verbatim>\<open>response.create\<close> go out first.
\<close>

theorem tool_call_deep_arguments_unanswered:
  "handle_function_call sample_handlers sample_loads (JStr ''get_weather_from_coords'') (JStr deep_brackets)
     = Inl RecursionError
   \<and> filter is_to_openai (trace (snd (connect (Accepted (calling_peer deep_arguments_call)) tooled_dialling_bridge)))
       = [ToOpenAI (SessionUpdate OpenAISessionConfig) False]
   \<and> handle_function_call sample_handlers sample_loads (JStr ''get_weather_from_coords'') (JStr ''{not json'')
       = Inr (JsonDumps [(''error'', Invalid_JSON_arguments)])
   \<and> filter is_to_openai (trace (snd (connect (Accepted (calling_peer bad_arguments_call)) tooled_dialling_bridge)))
       = [ToOpenAI (ConversationItemCreate (JStr ''call_2'') (JsonDumps [(''error'', Invalid_JSON_arguments)])) True,
          ToOpenAI ResponseCreate True,
          ToOpenAI (SessionUpdate OpenAISessionConfig) False]"
  by (simp add: deep_call deep_run bad_call bad_run)

section \<open>Properties of the reconnect loop\<close>

lemma budget_emit [simp]: "budget (emit e w) = budget w"
  by (simp add: budget_def emit_def)

lemma budget_send_to_twilio [simp]: "budget (send_to_twilio m w) = budget w"
  by (simp add: send_to_twilio_def split: option.splits)

lemma budget_send_to_frontend [simp]: "budget (send_to_frontend m w) = budget w"
  by (simp add: send_to_frontend_def split: option.splits)

lemma budget_run_callback [simp]: "budget (run_callback cb w) = budget w"
  by (cases "(cb, w)" rule: run_callback.cases) simp_all

lemma budget_start_reconnect [simp]: "budget (start_reconnect w) = budget w"
  by (auto simp: start_reconnect_def budget_def upd_client_def emit_def split: option.splits)

lemma budget_handle_connection_failure [simp]: "budget (handle_connection_failure w) = budget w"
  by (simp add: handle_connection_failure_def split: option.splits)

lemma budget_mark_disconnected [simp]:
  "budget (upd_client (\<lambda>c. c \<lparr> is_connected := b \<rparr>) w) = budget w"
  by (cases "openai_client w") (simp_all add: budget_def upd_client_def)

lemma budget_handle_disconnection [simp]: "budget (handle_disconnection w) = budget w"
  by (simp add: handle_disconnection_def Let_def split: option.splits)

lemma budget_send_message [simp]: "budget (send_message m w) = budget w"
  by (simp add: send_message_def split: option.splits)

lemma budget_state_update [simp]: "budget (w \<lparr> state := s \<rparr>) = budget w"
  by (simp add: budget_def)

lemma budget_handle_truncation [simp]: "budget (handle_truncation w) = budget w"
  by (simp add: handle_truncation_def Let_def)

lemma budget_handle_audio_delta [simp]: "budget (handle_audio_delta m w) = budget w"
  by (simp add: handle_audio_delta_def Let_def)

lemma budget_handle_function_call_item [simp]: "budget (handle_function_call_item item w) = budget w"
  by (simp add: handle_function_call_item_def Let_def split: sum.splits)

lemma budget_handle_output_item_done [simp]: "budget (bridge_after (handle_output_item_done m w)) = budget w"
  by (simp add: handle_output_item_done_def bridge_after_def split: json.splits)

lemma budget_handle_openai_message [simp]: "budget (bridge_after (handle_openai_message data w)) = budget w"
proof (cases data)
  case (JObj message)
  have "budget (bridge_after (handle_output_item_done message (send_to_frontend (Mirror data) w))) = budget w"
    by simp
  then show ?thesis using JObj
    by (simp add: handle_openai_message_def Let_def) (simp add: bridge_after_def)
qed (simp_all add: handle_openai_message_def bridge_after_def)

lemma dispatch_frame_eq:
  "dispatch_frame frame w =
     (case frame of None \<Rightarrow> w
      | Some data \<Rightarrow> (case openai_client w of None \<Rightarrow> w
           | Some c \<Rightarrow> if message_handler c then bridge_after (handle_openai_message data w) else w))"
  by (simp add: dispatch_frame_def bridge_after_def split: option.splits sum.splits prod.splits)

lemma budget_dispatch_frame [simp]: "budget (dispatch_frame frame w) = budget w"
  unfolding dispatch_frame_eq by (simp split: option.splits)

lemma budget_mark_closed [simp]: "budget (mark_closed w) = budget w"
  by (cases "openai_client w") (simp_all add: budget_def mark_closed_def upd_client_def)

lemma budget_listen_loop [simp]: "budget (listen_loop frames e w) = budget w"
  by (induction frames arbitrary: w) simp_all

lemma budget_listen_messages [simp]: "budget (listen_messages w) = budget w"
  by (simp add: listen_messages_def split: option.splits)

lemma budget_send_session_update [simp]: "budget (bridge_after (send_session_update w)) = budget w"
  by (simp add: send_session_update_def bridge_after_def split: option.splits sum.splits)

lemma budget_None_iff: "budget w = None \<longleftrightarrow> openai_client w = None"
  by (simp add: budget_def)

lemma sleepless_refl [simp]: "sleepless w w"
  by (simp add: sleepless_def)

lemma sleepless_trans: "sleepless a b \<Longrightarrow> sleepless b c \<Longrightarrow> sleepless a c"
  by (auto simp: sleepless_def)

lemma sleepless_state [simp]: "sleepless w (w' \<lparr> state := s \<rparr>) = sleepless w w'"
  by (simp add: sleepless_def)

lemma sleepless_upd_client [simp]: "sleepless w (upd_client f w') = sleepless w w'"
  by (simp add: sleepless_def)

lemma sleepless_emit: "\<not> is_sleep e \<Longrightarrow> sleepless w (emit e w)"
  by (simp add: sleepless_def)

lemma sleepless_housekeeping:
  assumes "\<exists>es. trace w' = trace w @ es \<and> list_all housekeeping es"
  shows "sleepless w w'"
proof -
  from assms obtain es where es: "trace w' = trace w @ es" "list_all housekeeping es" by blast
  have "filter is_sleep es = []" using es(2) by (induction es) (auto elim: housekeeping.elims)
  with es(1) show ?thesis by (auto simp: sleepless_def)
qed

lemma sleepless_send_to_twilio: "sleepless w (send_to_twilio m w)"
  by (simp add: send_to_twilio_def sleepless_emit split: option.splits)

lemma sleepless_send_to_frontend: "sleepless w (send_to_frontend m w)"
  by (simp add: send_to_frontend_def sleepless_emit split: option.splits)

lemma sleepless_run_callback: "sleepless w (run_callback cb w)"
  by (rule sleepless_housekeeping [OF trace_run_callback])

lemma sleepless_start_reconnect: "sleepless w (start_reconnect w)"
  by (rule sleepless_housekeeping [OF trace_start_reconnect])

lemma sleepless_handle_disconnection: "sleepless w (handle_disconnection w)"
  by (rule sleepless_housekeeping [OF trace_handle_disconnection])

lemma sleepless_handle_connection_failure: "sleepless w (handle_connection_failure w)"
  by (simp add: handle_connection_failure_def sleepless_start_reconnect split: option.splits)

lemma sleepless_send_message: "sleepless w (send_message m w)"
  unfolding send_message_def
  by (auto split: option.splits
           intro: sleepless_emit sleepless_trans [OF sleepless_emit sleepless_handle_disconnection])

lemma sleepless_handle_truncation: "sleepless w (handle_truncation w)"
  unfolding handle_truncation_def Let_def
  by (auto intro: sleepless_send_message sleepless_send_to_twilio
        sleepless_trans [OF sleepless_send_message sleepless_send_to_twilio])

lemma sleepless_handle_audio_delta: "sleepless w (handle_audio_delta m w)"
  unfolding handle_audio_delta_def Let_def
  by (auto intro!: sleepless_trans [OF _ sleepless_send_to_twilio] simp: sleepless_def trace_send_to_twilio split: option.splits)

lemma sleepless_handle_function_call_item: "sleepless w (handle_function_call_item item w)"
  unfolding handle_function_call_item_def Let_def
  by (auto split: sum.splits intro: sleepless_trans [OF sleepless_send_message sleepless_send_message])

lemma sleepless_handle_output_item_done: "sleepless w (bridge_after (handle_output_item_done m w))"
  by (simp add: handle_output_item_done_def bridge_after_def sleepless_handle_function_call_item
        split: json.splits)

lemma sleepless_handle_openai_message: "sleepless w (bridge_after (handle_openai_message data w))"
proof (cases data)
  case (JObj message)
  define w1 where "w1 = send_to_frontend (Mirror (JObj message)) w"
  have a: "sleepless w w1" unfolding w1_def by (rule sleepless_send_to_frontend)
  have e: "bridge_after (handle_openai_message data w) =
      (if dict_get message ''type'' = JStr ''input_audio_buffer.speech_started'' then handle_truncation w1
       else if dict_get message ''type'' = JStr ''response.audio.delta'' then handle_audio_delta message w1
       else if dict_get message ''type'' = JStr ''response.output_item.done''
            then bridge_after (handle_output_item_done message w1)
       else w1)"
    using JObj by (simp add: handle_openai_message_def Let_def w1_def bridge_after_def)
  have "sleepless w1 (bridge_after (handle_openai_message data w))"
    unfolding e
    by (simp add: sleepless_handle_truncation sleepless_handle_audio_delta sleepless_handle_output_item_done)
  with a show ?thesis by (rule sleepless_trans)
qed (simp_all add: handle_openai_message_def bridge_after_def sleepless_send_to_frontend)

lemma sleepless_dispatch_frame: "sleepless w (dispatch_frame frame w)"
  unfolding dispatch_frame_eq by (simp add: sleepless_handle_openai_message split: option.splits)

lemma sleepless_mark_closed: "sleepless w (mark_closed w)"
  by (simp add: mark_closed_def)

lemma sleepless_listen_loop: "sleepless w (listen_loop frames e w)"
proof (induction frames arbitrary: w)
  case Nil
  show ?case
    using sleepless_trans [OF sleepless_mark_closed sleepless_handle_disconnection]
    by (simp add: sleepless_mark_closed)
next
  case (Cons frame frames)
  show ?case
    using sleepless_trans [OF sleepless_dispatch_frame Cons.IH] by simp
qed

lemma sleepless_listen_messages: "sleepless w (listen_messages w)"
  by (simp add: listen_messages_def sleepless_handle_disconnection sleepless_listen_loop split: option.splits)

lemma sleepless_send_session_update: "sleepless w (bridge_after (send_session_update w))"
  by (simp add: send_session_update_def bridge_after_def sleepless_send_message split: option.splits sum.splits)

lemma sleepless_connect: "sleepless w (snd (connect d w))"
proof (cases d)
  case Refused
  have "sleepless w (emit (Dial False) w)" by (rule sleepless_emit) simp
  then have "sleepless w (upd_client (\<lambda>c. c \<lparr> is_connected := False \<rparr>) (emit (Dial False) w))" by simp
  from sleepless_trans [OF this sleepless_handle_connection_failure] Refused
  show ?thesis by (simp add: connect_def)
next
  case (Accepted t)
  define w1 where "w1 = upd_client (\<lambda>c. c \<lparr> websocket := Some t, is_connected := True,
                                         current_reconnect_attempts := 0 \<rparr>) (emit (Dial True) w)"
  define w2 where "w2 = listen_messages w1"
  define w3 where "w3 = bridge_after (send_session_update w2)"
  have "sleepless w (emit (Dial True) w)" by (rule sleepless_emit) simp
  then have s1: "sleepless w w1" by (simp add: w1_def)
  have s2: "sleepless w w2" unfolding w2_def by (rule sleepless_trans [OF s1 sleepless_listen_messages])
  have s3: "sleepless w w3" unfolding w3_def by (rule sleepless_trans [OF s2 sleepless_send_session_update])
  have f: "sleepless w3 (handle_connection_failure (upd_client (\<lambda>c. c \<lparr> is_connected := False \<rparr>) w3))"
    using sleepless_trans [OF _ sleepless_handle_connection_failure, of w3 "upd_client (\<lambda>c. c \<lparr> is_connected := False \<rparr>) w3"]
    by simp
  have "snd (connect d w) = (case send_session_update w2 of
                Inl (e, w') \<Rightarrow> handle_connection_failure (upd_client (\<lambda>c. c \<lparr> is_connected := False \<rparr>) w')
              | Inr w' \<Rightarrow> run_callback (case openai_client w' of None \<Rightarrow> None | Some c \<Rightarrow> on_connected c) w')"
    by (simp add: connect_def Accepted w1_def w2_def Let_def split: sum.splits prod.splits)
  then show ?thesis
    using sleepless_trans [OF s3 f] sleepless_trans [OF s3 sleepless_run_callback]
    by (auto simp: w3_def bridge_after_def split: sum.splits prod.splits)
qed

lemma float_limit_pos: "0 < float_limit"
  by (simp add: float_limit_def)

lemma small_below_float_limit: "x \<le> 2 ^ 64 \<Longrightarrow> x < float_limit"
proof -
  assume "x \<le> 2 ^ 64"
  moreover have "(2::rat) ^ 64 < 2 ^ 1024" by (rule power_strict_increasing) simp_all
  ultimately show ?thesis unfolding float_limit_def by linarith
qed

lemma float_times_pow2_nonneg:
  assumes "0 \<le> r" and "k < 1024"
  shows "float_times_pow2 r k = Inr (if float_limit \<le> r * 2 ^ k then PosInf else Finite (r * 2 ^ k))"
proof -
  have "0 \<le> r * 2 ^ k" using assms(1) by simp
  then have "\<not> r * 2 ^ k \<le> - float_limit" using float_limit_pos by linarith
  then show ?thesis using assms(2) by (simp add: float_times_pow2_def Let_def)
qed

lemma backoff_delay_formula:
  assumes "0 \<le> r" and "m < float_limit" and "k < 1024"
  shows "backoff_delay r m k = Inr (Finite (spec_delay r m (k + 1)))"
  unfolding backoff_delay_def float_times_pow2_nonneg [OF assms(1,3)] spec_delay_def
  using assms(2) by (auto simp: py_min_def min_def)

lemma backoff_delay_overflow:
  assumes "1024 \<le> k"
  shows "backoff_delay r m k = Inl OverflowError"
  using assms by (simp add: backoff_delay_def float_times_pow2_def)

lemma begin_attempt_sleeps:
  assumes "budget w = Some (k, mx, r, m)" and "0 \<le> r" and "m < float_limit" and "k < 1024"
  shows "begin_attempt w =
           Inr (emit (Sleep (Finite (spec_delay r m (k + 1))))
                  (upd_client (\<lambda>c. c \<lparr> current_reconnect_attempts := current_reconnect_attempts c + 1 \<rparr>) w))"
proof -
  from assms(1) obtain c where c: "openai_client w = Some c"
    and f: "current_reconnect_attempts c = k" "reconnect_delay c = r" "max_reconnect_delay c = m"
    by (auto simp: budget_def)
  show ?thesis using c f backoff_delay_formula [OF assms(2,3,4)]
    by (simp add: begin_attempt_def Let_def upd_client_def)
qed

lemma budget_begin_attempt:
  assumes "budget w = Some (k, mx, r, m)"
  shows "budget (upd_client (\<lambda>c. c \<lparr> current_reconnect_attempts := current_reconnect_attempts c + 1 \<rparr>) w)
           = Some (k + 1, mx, r, m)"
  using assms by (auto simp: budget_def upd_client_def)

lemma trace_task_done [simp]: "trace (task_done w) = trace w"
  by (simp add: task_done_def)

lemma budget_task_done [simp]: "budget (task_done w) = budget w"
  by (cases "openai_client w") (simp_all add: budget_def task_done_def upd_client_def)

lemma budget_connect:
  "budget (snd (connect d w)) = budget w
   \<or> budget (snd (connect d w)) = map_option (\<lambda>(a, rest). (0, rest)) (budget w)"
proof (cases d)
  case Refused
  then show ?thesis by (simp add: connect_def)
next
  case (Accepted t)
  define w1 where "w1 = upd_client (\<lambda>c. c \<lparr> websocket := Some t, is_connected := True,
                                         current_reconnect_attempts := 0 \<rparr>) (emit (Dial True) w)"
  have b1: "budget w1 = map_option (\<lambda>(a, rest). (0, rest)) (budget w)"
    by (cases "openai_client w") (simp_all add: w1_def budget_def upd_client_def emit_def)
  define w2 where "w2 = listen_messages w1"
  have b2: "budget w2 = budget w1" by (simp add: w2_def)
  have b3: "budget (bridge_after (send_session_update w2)) = budget w2" by simp
  have "snd (connect d w) = (case send_session_update w2 of
                Inl (e, w3) \<Rightarrow> handle_connection_failure (upd_client (\<lambda>c. c \<lparr> is_connected := False \<rparr>) w3)
              | Inr w3 \<Rightarrow> run_callback (case openai_client w3 of None \<Rightarrow> None | Some c \<Rightarrow> on_connected c) w3)"
    by (simp add: connect_def Accepted w1_def w2_def Let_def split: sum.splits prod.splits)
  then have "budget (snd (connect d w)) = budget (bridge_after (send_session_update w2))"
    by (simp add: bridge_after_def split: sum.splits prod.splits)
  then show ?thesis using b1 b2 b3 by simp
qed

lemma loop_condition_budget:
  assumes "loop_condition w" and "budget w = Some (k, mx, r, m)"
  shows "int k < mx"
  using assms by (auto simp: loop_condition_def budget_def split: option.splits)

lemma schedule_member: "1 \<le> n \<Longrightarrow> int n \<le> mx \<Longrightarrow> Finite (spec_delay r m n) \<in> set (schedule mx r m)"
  by (auto simp: schedule_def)

lemma reconnect_loop_sleeps:
  assumes "budget w = Some (k, mx, r, m)" and "int k \<le> mx" and "mx \<le> 1024"
      and "0 \<le> r" and "m < float_limit"
  shows "\<exists>es. trace (bridge_of (reconnect_loop script w)) = trace w @ es
            \<and> (\<forall>d. Sleep d \<in> set es \<longrightarrow> d \<in> set (schedule mx r m))"
  using assms(1,2)
proof (induction script arbitrary: w k)
  case Nil
  show ?case by simp
next
  case (Cons a script)
  show ?case
  proof (cases "loop_condition w")
    case False
    then show ?thesis by simp
  next
    case True
    have lt: "int k < mx" by (rule loop_condition_budget [OF True Cons.prems(1)])
    then have k: "k < 1024" using assms(3) by simp
    define w0 where "w0 = upd_client (\<lambda>c. c \<lparr> current_reconnect_attempts := current_reconnect_attempts c + 1 \<rparr>) w"
    define w1 where "w1 = emit (Sleep (Finite (spec_delay r m (k + 1)))) w0"
    have ba: "begin_attempt w = Inr w1"
      unfolding w1_def w0_def by (rule begin_attempt_sleeps [OF Cons.prems(1) assms(4,5) k])
    have b1: "budget w1 = Some (k + 1, mx, r, m)"
      using budget_begin_attempt [OF Cons.prems(1)] by (simp add: w1_def w0_def)
    have t1: "trace w1 = trace w @ [Sleep (Finite (spec_delay r m (k + 1)))]"
      by (simp add: w1_def w0_def)
    have m1: "Finite (spec_delay r m (k + 1)) \<in> set (schedule mx r m)"
      by (rule schedule_member) (use lt in simp_all)
    show ?thesis
    proof (cases a)
      case Sleep_cancelled
      then show ?thesis using True ba t1 m1 by simp
    next
      case Disabled_during_sleep
      then show ?thesis using True ba t1 m1 by simp
    next
      case (Dials d)
      obtain ok w2 where cn: "connect d w1 = (ok, w2)" by (cases "connect d w1")
      have "sleepless w1 w2" using sleepless_connect [of w1 d] cn by simp
      then obtain es2 where t2: "trace w2 = trace w1 @ es2" and s2: "filter is_sleep es2 = []"
        by (auto simp: sleepless_def)
      have ns: "\<forall>d. Sleep d \<notin> set es2"
      proof (intro allI notI)
        fix d assume "Sleep d \<in> set es2"
        then have "Sleep d \<in> set (filter is_sleep es2)" by simp
        with s2 show False by simp
      qed
      have b2: "budget w2 = Some (k + 1, mx, r, m) \<or> budget w2 = Some (0, mx, r, m)"
        using budget_connect [of d w1] cn b1 by auto
      show ?thesis
      proof (cases ok)
        case True
        have "bridge_of (reconnect_loop (a # script) w) = task_done w2"
          using \<open>loop_condition w\<close> ba Dials cn True by simp
        then show ?thesis using t1 t2 m1 ns by simp
      next
        case False
        have r: "reconnect_loop (a # script) w = reconnect_loop script w2"
          using \<open>loop_condition w\<close> ba Dials cn False by simp
        from b2 obtain k2 where "budget w2 = Some (k2, mx, r, m)" and "int k2 \<le> mx"
          using lt by auto
        from Cons.IH [OF this] obtain es3 where
          t3: "trace (bridge_of (reconnect_loop script w2)) = trace w2 @ es3"
          and s3: "\<forall>d. Sleep d \<in> set es3 \<longrightarrow> d \<in> set (schedule mx r m)" by blast
        show ?thesis unfolding r using t1 t2 t3 s3 m1 ns by auto
      qed
    qed
  qed
qed

lemma refused_attempt:
  assumes "openai_client w = Some c" and "auto_reconnect c" and "\<not> is_connected c"
      and "reconnect_task c" and "int (current_reconnect_attempts c) < max_reconnect_attempts c"
      and "0 \<le> reconnect_delay c" and "max_reconnect_delay c < float_limit"
      and "max_reconnect_attempts c \<le> 1024"
  shows "reconnect_loop (Dials Refused # script) w =
           reconnect_loop script
             (w \<lparr> openai_client := Some (c \<lparr> current_reconnect_attempts := current_reconnect_attempts c + 1 \<rparr>),
                  trace := trace w @ attempt_effects (reconnect_delay c) (max_reconnect_delay c)
                                       (current_reconnect_attempts c + 1) \<rparr>)"
proof -
  have lc: "loop_condition w" using assms by (simp add: loop_condition_def)
  define c1 where "c1 = c \<lparr> current_reconnect_attempts := current_reconnect_attempts c + 1 \<rparr>"
  have bu: "budget w = Some (current_reconnect_attempts c, max_reconnect_attempts c, reconnect_delay c, max_reconnect_delay c)"
    using assms(1) by (simp add: budget_def)
  have k: "current_reconnect_attempts c < 1024" using assms(5,8) by simp
  have b: "begin_attempt w = Inr (w \<lparr> openai_client := Some c1,
        trace := trace w @ [Sleep (Finite (spec_delay (reconnect_delay c) (max_reconnect_delay c) (current_reconnect_attempts c + 1)))] \<rparr>)"
    unfolding begin_attempt_sleeps [OF bu assms(6,7) k]
    using assms(1) by (simp add: upd_client_def emit_def c1_def)
  have e: "c1 \<lparr> is_connected := False \<rparr> = c1" using assms(3) by (simp add: c1_def)
  have "reconnect_loop (Dials Refused # script) w =
      reconnect_loop script (w \<lparr> openai_client := Some c1,
        trace := trace w @ attempt_effects (reconnect_delay c) (max_reconnect_delay c) (current_reconnect_attempts c + 1) \<rparr>)"
  proof -
    have sw: "w \<lparr> trace := t, openai_client := x \<rparr> = w \<lparr> openai_client := x, trace := t \<rparr>" for t x
      by simp
    have cf: "auto_reconnect c1" "reconnect_task c1" using assms(2,4) by (simp_all add: c1_def)
    show ?thesis
      using lc cf
      by (simp add: b connect_def upd_client_def emit_def handle_connection_failure_def
          start_reconnect_def attempt_effects_def e sw)
  qed
  then show ?thesis by (simp add: c1_def)
qed

lemma loop_exit:
  assumes "\<not> loop_condition w"
  shows "reconnect_loop script w = Returned (task_done w)"
  using assms by (cases script) simp_all

lemma refused_run:
  assumes "openai_client w = Some c" and "auto_reconnect c" and "\<not> is_connected c"
      and "reconnect_task c" and "int (current_reconnect_attempts c) \<le> max_reconnect_attempts c"
      and "0 \<le> reconnect_delay c" and "max_reconnect_delay c < float_limit"
      and "max_reconnect_attempts c \<le> 1024"
      and "k = nat (max_reconnect_attempts c) - current_reconnect_attempts c"
  shows "reconnect_loop (replicate k (Dials Refused) @ script) w =
           Returned (w \<lparr> openai_client := Some (c \<lparr> current_reconnect_attempts := nat (max_reconnect_attempts c),
                                                  reconnect_task := False \<rparr>),
                         trace := trace w @ concat (map (attempt_effects (reconnect_delay c) (max_reconnect_delay c))
                                    [current_reconnect_attempts c + 1 ..< Suc (nat (max_reconnect_attempts c))]) \<rparr>)"
  using assms
proof (induction k arbitrary: w c)
  case 0
  have "0 \<le> int (current_reconnect_attempts c)" by simp
  with 0(5) have nn: "0 \<le> max_reconnect_attempts c" by linarith
  from 0(5,9) nn have eq: "current_reconnect_attempts c = nat (max_reconnect_attempts c)" by linarith
  have "\<not> loop_condition w" using 0(1) eq nn by (simp add: loop_condition_def)
  from loop_exit [OF this] show ?case
    using 0(1) eq by (simp add: task_done_def upd_client_def)
next
  case (Suc k)
  then have lt: "int (current_reconnect_attempts c) < max_reconnect_attempts c" by simp
  define c1 where "c1 = c \<lparr> current_reconnect_attempts := current_reconnect_attempts c + 1 \<rparr>"
  define w1 where "w1 = w \<lparr> openai_client := Some c1,
                  trace := trace w @ attempt_effects (reconnect_delay c) (max_reconnect_delay c)
                                       (current_reconnect_attempts c + 1) \<rparr>"
  have step: "reconnect_loop (replicate (Suc k) (Dials Refused) @ script) w
               = reconnect_loop (replicate k (Dials Refused) @ script) w1"
    using refused_attempt [OF Suc.prems(1,2,3,4) lt Suc.prems(6,7,8)] by (simp add: w1_def c1_def)
  have p: "openai_client w1 = Some c1" "auto_reconnect c1" "\<not> is_connected c1" "reconnect_task c1"
    "int (current_reconnect_attempts c1) \<le> max_reconnect_attempts c1"
    "0 \<le> reconnect_delay c1" "max_reconnect_delay c1 < float_limit" "max_reconnect_attempts c1 \<le> 1024"
    "k = nat (max_reconnect_attempts c1) - current_reconnect_attempts c1"
    using Suc.prems lt by (simp_all add: w1_def c1_def)
  have up: "[current_reconnect_attempts c + 1 ..< Suc (nat (max_reconnect_attempts c))]
      = (current_reconnect_attempts c + 1) # [current_reconnect_attempts c + 1 + 1 ..< Suc (nat (max_reconnect_attempts c))]"
    using lt by (simp add: upt_rec)
  have ih: "reconnect_loop (replicate k (Dials Refused) @ script) w1 =
           Returned (w1 \<lparr> openai_client := Some (c1 \<lparr> current_reconnect_attempts := nat (max_reconnect_attempts c1),
                                                  reconnect_task := False \<rparr>),
                         trace := trace w1 @ concat (map (attempt_effects (reconnect_delay c1) (max_reconnect_delay c1))
                                    [current_reconnect_attempts c1 + 1 ..< Suc (nat (max_reconnect_attempts c1))]) \<rparr>)"
    by (rule Suc.IH [OF p])
  show ?case
    unfolding step ih up
    by (simp add: w1_def c1_def del: upt_Suc)
qed

lemma session_update_for_strict_vad:
  "session_update_for (dict_get strict_vad_update ''session'') = Inl ValidationError"
  by (simp add: session_update_for_def strict_vad_update_def dict_get_def update_arg_def
        validate_session_def merged_def dict_get_default_def OpenAISessionConfig_def
        json_of_strs_def json_of_str_dict_def)

lemma stubborn_bridge_eq:
  "stubborn_bridge =
     (SessionManager Map.empty (\<lambda>s. Decode_error))
       \<lparr> state := SessionState \<lparr> stream_sid := JStr ''MZ1'', latest_media_timestamp := Some 0,
                                 saved_config := dict_get strict_vad_update ''session'' \<rparr>,
         twilio_websocket := Some 1, frontend_websocket := Some 2,
         openai_client := Some stubborn_client,
         trace := [Dial True, SpawnReconnect] \<rparr>"
proof -
  have sv: "dict_get_default strict_vad_update ''session'' (JObj []) = dict_get strict_vad_update ''session''"
    "truthy (dict_get strict_vad_update ''session'')"
    "dict_get strict_vad_update ''type'' = JStr ''session.update''"
    by (simp_all add: strict_vad_update_def dict_get_def dict_get_default_def)
  show ?thesis
    unfolding stubborn_bridge_def
    by (simp add: handle_frontend_message_def sv ringing_bridge_def SessionManager_def SessionState_def
          handle_twilio_message_def handle_twilio_start_def twilio_start_frame_def dict_get_def [of "_ # _"]
          dict_get_default_def [of "_ # _"] try_connect_openai_def client_connected_def connect_def
          quiet_peer_def bridge_client_def OpenAIClient_def upd_client_def emit_def listen_messages_def
          mark_closed_def send_session_update_def session_update_for_strict_vad
          handle_connection_failure_def start_reconnect_def bridge_after_def stubborn_client_def Let_def)
qed

lemma stubborn_attempt:
  assumes "openai_client w = Some stubborn_client"
  shows "reconnect_loop (Dials (Accepted quiet_peer) # script) w
           = reconnect_loop script (w \<lparr> trace := trace w @ [Sleep (Finite 2), Dial True] \<rparr>)"
proof -
  have lc: "loop_condition w"
    using assms by (simp add: loop_condition_def stubborn_client_def bridge_client_def OpenAIClient_def)
  have bu: "budget w = Some (0, 10, 2, 60)"
    using assms by (simp add: budget_def stubborn_client_def bridge_client_def OpenAIClient_def)
  have fl: "(60::rat) < float_limit" by (rule small_below_float_limit) simp
  have ba: "begin_attempt w = Inr (emit (Sleep (Finite 2))
      (upd_client (\<lambda>c. c \<lparr> current_reconnect_attempts := current_reconnect_attempts c + 1 \<rparr>) w))"
    using begin_attempt_sleeps [OF bu _ fl] by (simp add: spec_delay_def)
  have sc: "session_config stubborn_client = dict_get strict_vad_update ''session''"
    by (simp add: stubborn_client_def bridge_client_def OpenAIClient_def strict_vad_update_def dict_get_def)
  have same_client: "w \<lparr> trace := t, openai_client := Some stubborn_client \<rparr> = w \<lparr> trace := t \<rparr>" for t
    using assms by simp
  have ce: "stubborn_client \<lparr> current_reconnect_attempts := 0,
                             websocket := Some \<lparr> inbound = [], ending = CloseOK, is_open = False \<rparr>,
                             is_connected := False \<rparr> = stubborn_client"
    by (simp add: stubborn_client_def bridge_client_def OpenAIClient_def)
  have fl2: "auto_reconnect stubborn_client" "reconnect_task stubborn_client"
    by (simp_all add: stubborn_client_def bridge_client_def OpenAIClient_def)
  have cn: "connect (Accepted quiet_peer) (emit (Sleep (Finite 2))
      (upd_client (\<lambda>c. c \<lparr> current_reconnect_attempts := current_reconnect_attempts c + 1 \<rparr>) w))
      = (False, w \<lparr> trace := trace w @ [Sleep (Finite 2), Dial True] \<rparr>)"
    using assms
    by (simp add: connect_def quiet_peer_def upd_client_def emit_def listen_messages_def mark_closed_def
          send_session_update_def sc session_update_for_strict_vad handle_connection_failure_def
          start_reconnect_def Let_def ce fl2 same_client)
  show ?thesis using lc cn by (simp add: ba)
qed

lemma stubborn_run:
  assumes "openai_client w = Some stubborn_client"
  shows "reconnect_loop (replicate k (Dials (Accepted quiet_peer))) w
           = Still_running (w \<lparr> trace := trace w @ concat (replicate k [Sleep (Finite 2), Dial True]) \<rparr>)"
  using assms
proof (induction k arbitrary: w)
  case 0
  then have "loop_condition w"
    by (simp add: loop_condition_def stubborn_client_def bridge_client_def OpenAIClient_def)
  then show ?case by simp
next
  case (Suc k)
  define w1 where "w1 = w \<lparr> trace := trace w @ [Sleep (Finite 2), Dial True] \<rparr>"
  have c1: "openai_client w1 = Some stubborn_client" using Suc.prems by (simp add: w1_def)
  show ?case
    using stubborn_attempt [OF Suc.prems, of "replicate k (Dials (Accepted quiet_peer))"] Suc.IH [OF c1]
    by (simp add: w1_def)
qed

lemma count_accepted_dials: "length (filter is_dial (concat (replicate k [Sleep d, Dial b]))) = k"
  by (induction k) simp_all

lemma count_dials: "length (filter is_dial (concat (map (attempt_effects r m) ns))) = length ns"
  by (induction ns) (simp_all add: attempt_effects_def)

lemma refused_dials_exhaust_budget:
  assumes "openai_client w = Some c" and "auto_reconnect c" and "\<not> is_connected c"
      and "reconnect_task c" and "current_reconnect_attempts c = 0"
      and "0 \<le> max_reconnect_attempts c" and "max_reconnect_attempts c \<le> 1024"
      and "0 \<le> reconnect_delay c" and "max_reconnect_delay c < float_limit"
  shows "\<exists>w' c'. reconnect_loop (replicate (nat (max_reconnect_attempts c)) (Dials Refused) @ script) w = Returned w'
          \<and> openai_client w' = Some c'
          \<and> \<not> is_connected c'
          \<and> int (current_reconnect_attempts c') = max_reconnect_attempts c
          \<and> max_reconnect_attempts c' = max_reconnect_attempts c
          \<and> \<not> reconnect_task c'
          \<and> length (filter is_dial (new_effects w w')) = nat (max_reconnect_attempts c)
          \<and> (\<forall>later. reconnect_loop later w' = Returned w')
          \<and> handle_disconnection w' = w'"
proof -
  define c' where "c' = c \<lparr> current_reconnect_attempts := nat (max_reconnect_attempts c), reconnect_task := False \<rparr>"
  define w' where "w' = w \<lparr> openai_client := Some c',
                     trace := trace w @ concat (map (attempt_effects (reconnect_delay c) (max_reconnect_delay c))
                                                  [1 ..< Suc (nat (max_reconnect_attempts c))]) \<rparr>"
  have le: "int (current_reconnect_attempts c) \<le> max_reconnect_attempts c" using assms(5,6) by simp
  have k: "nat (max_reconnect_attempts c) = nat (max_reconnect_attempts c) - current_reconnect_attempts c"
    using assms(5) by simp
  have run: "reconnect_loop (replicate (nat (max_reconnect_attempts c)) (Dials Refused) @ script) w = Returned w'"
    using refused_run [OF assms(1,2,3,4) le assms(8,9,7) k, of script] assms(5) by (simp add: w'_def c'_def)
  have cl: "openai_client w' = Some c'" by (simp add: w'_def)
  have f: "\<not> is_connected c'" "int (current_reconnect_attempts c') = max_reconnect_attempts c"
    "max_reconnect_attempts c' = max_reconnect_attempts c" "\<not> reconnect_task c'"
    using assms(3,6) by (simp_all add: c'_def)
  have ne: "new_effects w w' = concat (map (attempt_effects (reconnect_delay c) (max_reconnect_delay c))
                                                  [1 ..< Suc (nat (max_reconnect_attempts c))])"
    by (simp add: new_effects_def w'_def)
  have d: "length (filter is_dial (new_effects w w')) = nat (max_reconnect_attempts c)"
    unfolding ne count_dials by simp
  have nl: "\<not> loop_condition w'" using cl f by (simp add: loop_condition_def)
  have td: "task_done w' = w'" using f(4) by (simp add: task_done_def upd_client_def w'_def c'_def)
  have later: "\<forall>later. reconnect_loop later w' = Returned w'"
    using loop_exit [OF nl] td by simp
  have hd: "handle_disconnection w' = w'" using cl f(1) by (simp add: handle_disconnection_def)
  show ?thesis
    by (intro exI [of _ w'] exI [of _ c'] conjI run cl f d later hd)
qed

text \<open>
  Claim C8.  When every dial is refused, the loop ends after \<open>max_reconnect_attempts\<close>
  attempts, the client stays disconnected and nothing dials again (lemma
  \<open>refused_dials_exhaust_budget\<close>).  But \<^verbatim>\<open>connect\<close> resets the counter as soon as the dial
  is accepted, before the session configuration is validated and sent.  When the observer
  has saved a configuration the validation rejects (a turn detection with a numeric
  threshold) every attempt whose dial is accepted fails, in \<^verbatim>\<open>_send_session_update\<close>, with
  the counter back at 0: after any number \<open>k\<close> of failed attempts, none having succeeded,
  the loop is still running, it has dialled \<open>k\<close> times, the counter is 0 of 10 and the
  client is disconnected.
\<close>

theorem reconnect_budget_never_runs_out:
  "reconnect_loop (replicate k (Dials (Accepted quiet_peer))) stubborn_bridge
     = Still_running (stubborn_bridge \<lparr> trace := [Dial True, SpawnReconnect]
                                               @ concat (replicate k [Sleep (Finite 2), Dial True]) \<rparr>)
   \<and> budget stubborn_bridge = Some (0, 10, 2, 60)
   \<and> \<not> client_connected stubborn_bridge
   \<and> length (filter is_dial (new_effects stubborn_bridge
         (bridge_of (reconnect_loop (replicate k (Dials (Accepted quiet_peer))) stubborn_bridge)))) = k"
proof -
  have c: "openai_client stubborn_bridge = Some stubborn_client" "trace stubborn_bridge = [Dial True, SpawnReconnect]"
    by (simp_all add: stubborn_bridge_eq)
  have b: "budget stubborn_bridge = Some (0, 10, 2, 60)" "\<not> client_connected stubborn_bridge"
    by (simp_all add: budget_def client_connected_def c stubborn_client_def bridge_client_def OpenAIClient_def)
  show ?thesis using stubborn_run [OF c(1), of k] b by (simp add: c(2) new_effects_def count_accepted_dials)
qed

lemma sleeps_of_attempts:
  "filter is_sleep (concat (map (attempt_effects r m) ns)) = map (\<lambda>n. Sleep (Finite (spec_delay r m n))) ns"
  by (induction ns) (simp_all add: attempt_effects_def)

lemma schedule_capped: "d \<in> set (schedule mx r m) \<Longrightarrow> \<not> float_less (Finite m) d"
  by (auto simp: schedule_def spec_delay_def)

lemma bridge_client_settings [simp]:
  "reconnect_delay (bridge_client saved) = 2" "max_reconnect_delay (bridge_client saved) = 60"
  "max_reconnect_attempts (bridge_client saved) = 10"
  by (simp_all add: bridge_client_def OpenAIClient_def)

lemma upt_1_11: "[1 ..< Suc (nat 10)] = [1, 2, 3, 4, 5, 6, 7, 8, 9, 10]"
  by (simp add: upt_rec)

lemma bridge_schedule:
  "schedule 10 2 60 = [Finite 2, Finite 4, Finite 8, Finite 16, Finite 32,
                       Finite 60, Finite 60, Finite 60, Finite 60, Finite 60]"
  unfolding schedule_def upt_1_11 by (simp add: spec_delay_def)

lemma bridge_delay_cap:
  assumes "6 \<le> n"
  shows "spec_delay 2 60 n = 60"
proof -
  have "5 \<le> n - 1" using assms by simp
  then have "(2::rat) ^ 5 \<le> 2 ^ (n - 1)" by (intro power_increasing) simp_all
  then have "(60::rat) \<le> 2 * 2 ^ (n - 1)" by simp
  then show ?thesis by (simp add: spec_delay_def min_def)
qed

text \<open>
  Claim C7.  For a client whose two delays are floats (\<open>0 \<le> reconnect_delay\<close>, and
  \<open>max_reconnect_delay\<close> finite) and whose budget is at most 1024 attempts, as the clients
  of the program are (the bridge configures 2.0, 60.0 and 10; the defaults are 1.0, 30.0
  and 5): every iteration of the reconnect loop, entered with the counter at \<open>n - 1\<close>,
  sets the counter to \<open>n\<close> and sleeps \<open>min (reconnect_delay * 2 ^ (n - 1))
  max_reconnect_delay\<close> before attempt \<open>n\<close>; in every run of the loop, whatever the dials
  do, every sleep is the delay of some attempt number from 1 to \<open>max_reconnect_attempts\<close>
  and none exceeds \<open>max_reconnect_delay\<close>; in the run in which every dial is refused the
  sleeps are the delays of the attempts 1, 2, ... in turn; and with the values the
  bridge configures they are 2, 4, 8, 16, 32, 60, 60, 60, 60, 60.
\<close>

theorem reconnect_backoff_delays:
  assumes "openai_client w = Some c"
      and "0 \<le> reconnect_delay c" and "max_reconnect_delay c < float_limit"
      and "max_reconnect_attempts c \<le> 1024"
      and "int (current_reconnect_attempts c) \<le> max_reconnect_attempts c"
  shows "(loop_condition w \<longrightarrow>
            begin_attempt w =
              Inr (emit (Sleep (Finite (spec_delay (reconnect_delay c) (max_reconnect_delay c)
                                          (current_reconnect_attempts c + 1))))
                     (upd_client (\<lambda>c. c \<lparr> current_reconnect_attempts := current_reconnect_attempts c + 1 \<rparr>) w)))
       \<and> (\<forall>script d. Sleep d \<in> set (new_effects w (bridge_of (reconnect_loop script w))) \<longrightarrow>
              d \<in> set (schedule (max_reconnect_attempts c) (reconnect_delay c) (max_reconnect_delay c))
            \<and> \<not> float_less (Finite (max_reconnect_delay c)) d)
       \<and> (auto_reconnect c \<and> \<not> is_connected c \<and> reconnect_task c \<and> current_reconnect_attempts c = 0 \<longrightarrow>
            (\<exists>w'. reconnect_loop (replicate (nat (max_reconnect_attempts c)) (Dials Refused)) w = Returned w'
               \<and> filter is_sleep (new_effects w w')
                   = map Sleep (schedule (max_reconnect_attempts c) (reconnect_delay c) (max_reconnect_delay c))))
       \<and> (reconnect_delay c = 2 \<and> max_reconnect_delay c = 60 \<and> max_reconnect_attempts c = 10 \<longrightarrow>
            schedule (max_reconnect_attempts c) (reconnect_delay c) (max_reconnect_delay c)
              = [Finite 2, Finite 4, Finite 8, Finite 16, Finite 32,
                 Finite 60, Finite 60, Finite 60, Finite 60, Finite 60])"
proof -
  define mx where "mx = max_reconnect_attempts c"
  define r where "r = reconnect_delay c"
  define m where "m = max_reconnect_delay c"
  have bu: "budget w = Some (current_reconnect_attempts c, mx, r, m)"
    using assms(1) by (simp add: budget_def mx_def r_def m_def)
  have a: "loop_condition w \<longrightarrow>
            begin_attempt w =
              Inr (emit (Sleep (Finite (spec_delay r m (current_reconnect_attempts c + 1))))
                     (upd_client (\<lambda>c. c \<lparr> current_reconnect_attempts := current_reconnect_attempts c + 1 \<rparr>) w))"
  proof
    assume lc: "loop_condition w"
    have "int (current_reconnect_attempts c) < mx" by (rule loop_condition_budget [OF lc bu])
    then have "current_reconnect_attempts c < 1024" using assms(4) by (simp add: mx_def)
    from begin_attempt_sleeps [OF bu _ _ this] assms(2,3) show "begin_attempt w =
              Inr (emit (Sleep (Finite (spec_delay r m (current_reconnect_attempts c + 1))))
                     (upd_client (\<lambda>c. c \<lparr> current_reconnect_attempts := current_reconnect_attempts c + 1 \<rparr>) w))"
      by (simp add: r_def m_def)
  qed
  have b: "\<forall>script d. Sleep d \<in> set (new_effects w (bridge_of (reconnect_loop script w))) \<longrightarrow>
              d \<in> set (schedule mx r m) \<and> \<not> float_less (Finite m) d"
  proof (intro allI impI)
    fix script d
    assume s: "Sleep d \<in> set (new_effects w (bridge_of (reconnect_loop script w)))"
    from reconnect_loop_sleeps [OF bu, of script] assms(2,3,4,5)
    obtain es where t: "trace (bridge_of (reconnect_loop script w)) = trace w @ es"
      and p: "\<forall>d. Sleep d \<in> set es \<longrightarrow> d \<in> set (schedule mx r m)"
      unfolding mx_def r_def m_def by blast
    have "new_effects w (bridge_of (reconnect_loop script w)) = es" by (rule new_effects_append [OF t])
    with s p have "d \<in> set (schedule mx r m)" by simp
    then show "d \<in> set (schedule mx r m) \<and> \<not> float_less (Finite m) d"
      using schedule_capped by blast
  qed
  have c: "auto_reconnect c \<and> \<not> is_connected c \<and> reconnect_task c \<and> current_reconnect_attempts c = 0 \<longrightarrow>
            (\<exists>w'. reconnect_loop (replicate (nat mx) (Dials Refused)) w = Returned w'
               \<and> filter is_sleep (new_effects w w') = map Sleep (schedule mx r m))"
  proof
    assume h: "auto_reconnect c \<and> \<not> is_connected c \<and> reconnect_task c \<and> current_reconnect_attempts c = 0"
    define w' where "w' = w \<lparr> openai_client := Some (c \<lparr> current_reconnect_attempts := nat mx, reconnect_task := False \<rparr>),
                         trace := trace w @ concat (map (attempt_effects r m) [1 ..< Suc (nat mx)]) \<rparr>"
    have k: "nat mx = nat (max_reconnect_attempts c) - current_reconnect_attempts c" using h by (simp add: mx_def)
    have run: "reconnect_loop (replicate (nat mx) (Dials Refused)) w = Returned w'"
      using refused_run [OF assms(1) _ _ _ assms(5,2,3,4) k, of "[]"] h
      by (simp add: w'_def mx_def r_def m_def)
    have ne: "new_effects w w' = concat (map (attempt_effects r m) [1 ..< Suc (nat mx)])"
      by (simp add: new_effects_def w'_def)
    have sl: "filter is_sleep (new_effects w w') = map Sleep (schedule mx r m)"
      unfolding ne sleeps_of_attempts schedule_def by (simp add: comp_def)
    show "\<exists>w'. reconnect_loop (replicate (nat mx) (Dials Refused)) w = Returned w'
               \<and> filter is_sleep (new_effects w w') = map Sleep (schedule mx r m)"
      using run sl by blast
  qed
  have d: "r = 2 \<and> m = 60 \<and> mx = 10 \<longrightarrow> schedule mx r m
              = [Finite 2, Finite 4, Finite 8, Finite 16, Finite 32,
                 Finite 60, Finite 60, Finite 60, Finite 60, Finite 60]"
    using bridge_schedule by simp
  show ?thesis
    using a b c d unfolding mx_def r_def m_def by (intro conjI)
qed

theorem reconnect_backoff_delays_witness:
  "openai_client redialling_bridge = Some redialling_client
   \<and> 0 \<le> reconnect_delay redialling_client \<and> max_reconnect_delay redialling_client < float_limit
   \<and> max_reconnect_attempts redialling_client \<le> 1024
   \<and> int (current_reconnect_attempts redialling_client) \<le> max_reconnect_attempts redialling_client
   \<and> loop_condition redialling_bridge
   \<and> auto_reconnect redialling_client \<and> \<not> is_connected redialling_client
   \<and> reconnect_task redialling_client \<and> current_reconnect_attempts redialling_client = 0
   \<and> reconnect_delay redialling_client = 2 \<and> max_reconnect_delay redialling_client = 60
   \<and> max_reconnect_attempts redialling_client = 10
   \<and> begin_attempt redialling_bridge =
        Inr (redialling_bridge \<lparr> openai_client := Some (redialling_client \<lparr> current_reconnect_attempts := 1 \<rparr>),
                                  trace := [Sleep (Finite 2)] \<rparr>)
   \<and> (\<exists>w'. reconnect_loop (replicate 10 (Dials Refused)) redialling_bridge = Returned w'
          \<and> filter is_sleep (new_effects redialling_bridge w')
              = [Sleep (Finite 2), Sleep (Finite 4), Sleep (Finite 8), Sleep (Finite 16), Sleep (Finite 32),
                 Sleep (Finite 60), Sleep (Finite 60), Sleep (Finite 60), Sleep (Finite 60), Sleep (Finite 60)])"
proof -
  have h1: "openai_client redialling_bridge = Some redialling_client"
    by (simp add: redialling_bridge_def)
  have v: "reconnect_delay redialling_client = 2" "max_reconnect_delay redialling_client = 60"
    "max_reconnect_attempts redialling_client = 10" "current_reconnect_attempts redialling_client = 0"
    "auto_reconnect redialling_client" "\<not> is_connected redialling_client" "reconnect_task redialling_client"
    by (simp_all add: redialling_client_def bridge_client_def OpenAIClient_def)
  have h2: "0 \<le> reconnect_delay redialling_client" and h4: "max_reconnect_attempts redialling_client \<le> 1024"
    and h5: "int (current_reconnect_attempts redialling_client) \<le> max_reconnect_attempts redialling_client"
    by (simp_all add: v)
  have h3: "max_reconnect_delay redialling_client < float_limit"
    unfolding v by (rule small_below_float_limit) simp
  have lc: "loop_condition redialling_bridge" by (simp add: loop_condition_def h1 v)
  have tr: "trace redialling_bridge = []"
    by (simp add: redialling_bridge_def ringing_bridge_def SessionManager_def)
  note t = reconnect_backoff_delays [OF h1 h2 h3 h4 h5]
  from t lc have a: "begin_attempt redialling_bridge =
              Inr (emit (Sleep (Finite (spec_delay (reconnect_delay redialling_client) (max_reconnect_delay redialling_client)
                                          (current_reconnect_attempts redialling_client + 1))))
                     (upd_client (\<lambda>c. c \<lparr> current_reconnect_attempts := current_reconnect_attempts c + 1 \<rparr>) redialling_bridge))"
    by blast
  have a': "begin_attempt redialling_bridge =
        Inr (redialling_bridge \<lparr> openai_client := Some (redialling_client \<lparr> current_reconnect_attempts := 1 \<rparr>),
                                  trace := [Sleep (Finite 2)] \<rparr>)"
    unfolding a by (simp add: v spec_delay_def emit_def upd_client_def h1 tr)
  from t v obtain w' where
    r: "reconnect_loop (replicate (nat (max_reconnect_attempts redialling_client)) (Dials Refused)) redialling_bridge = Returned w'"
    and s: "filter is_sleep (new_effects redialling_bridge w')
                   = map Sleep (schedule (max_reconnect_attempts redialling_client) (reconnect_delay redialling_client)
                                  (max_reconnect_delay redialling_client))"
    by blast
  from t v have sch: "schedule (max_reconnect_attempts redialling_client) (reconnect_delay redialling_client)
                                  (max_reconnect_delay redialling_client)
       = [Finite 2, Finite 4, Finite 8, Finite 16, Finite 32,
                 Finite 60, Finite 60, Finite 60, Finite 60, Finite 60]"
    by blast
  have n: "nat (10::int) = 10" by simp
  have r': "reconnect_loop (replicate 10 (Dials Refused)) redialling_bridge = Returned w'"
    using r unfolding v n .
  have s': "filter is_sleep (new_effects redialling_bridge w')
              = [Sleep (Finite 2), Sleep (Finite 4), Sleep (Finite 8), Sleep (Finite 16), Sleep (Finite 32),
                 Sleep (Finite 60), Sleep (Finite 60), Sleep (Finite 60), Sleep (Finite 60), Sleep (Finite 60)]"
    unfolding s sch by simp
  show ?thesis using h1 h2 h3 h4 h5 lc v a' r' s' by blast
qed

section \<open>Properties of a call\<close>

lemma same_mark_closed: "same_session w (mark_closed w)"
  unfolding mark_closed_def by (rule same_upd_client)

lemma same_listen_loop_nil: "same_session w (listen_loop [] e w)"
  by (auto intro: same_mark_closed same_session_trans [OF same_mark_closed same_handle_disconnection])

lemma same_send_session_update:
  "same_session w (case send_session_update w of Inl (e, w') \<Rightarrow> w' | Inr w' \<Rightarrow> w')"
  by (auto simp: send_session_update_def same_session_refl same_send_message
           split: option.splits sum.splits)

lemma only_mirrors_refl [simp]: "only_mirrors w w"
  by (simp add: only_mirrors_def)






lemma offstage_step_refl [simp]: "offstage_step w w"
  by (simp add: offstage_step_def)





lemma offstage_step_upd_client [simp]: "offstage_step w (upd_client f v) = offstage_step w v"
  by (simp add: offstage_step_def upd_client_def)








lemma connect_accepted:
  "snd (connect (Accepted t) w) =
     (case send_session_update (listen_messages (dialled t w)) of
        Inl (e, w3) \<Rightarrow> handle_connection_failure (upd_client (\<lambda>c. c \<lparr> is_connected := False \<rparr>) w3)
      | Inr w3 \<Rightarrow> run_callback (case openai_client w3 of None \<Rightarrow> None | Some c \<Rightarrow> on_connected c) w3)"
  by (simp add: connect_def dialled_def Let_def split: sum.splits prod.splits)






lemma same_dialled: "same_session w (dialled t w)"
  unfolding dialled_def by (blast intro: same_session_trans same_emit same_upd_client)

lemma same_connect_tail: "same_session (listen_messages (dialled t w)) (snd (connect (Accepted t) w))"
proof -
  define v where "v = listen_messages (dialled t w)"
  have s3: "same_session v (case send_session_update v of Inl (e, w') \<Rightarrow> w' | Inr w' \<Rightarrow> w')"
    by (rule same_send_session_update)
  show ?thesis
    unfolding connect_accepted v_def [symmetric]
  proof (cases "send_session_update v")
    case (Inl p)
    obtain e w3 where p: "p = (e, w3)" by (cases p)
    have "same_session v w3" using s3 Inl p by simp
    then have "same_session v (handle_connection_failure (upd_client (\<lambda>c. c \<lparr> is_connected := False \<rparr>) w3))"
      by (blast intro: same_session_trans same_upd_client same_handle_connection_failure)
    then show "same_session v (case send_session_update v of
        Inl (e, w3) \<Rightarrow> handle_connection_failure (upd_client (\<lambda>c. c \<lparr> is_connected := False \<rparr>) w3)
      | Inr w3 \<Rightarrow> run_callback (case openai_client w3 of None \<Rightarrow> None | Some c \<Rightarrow> on_connected c) w3)"
      by (simp add: Inl p)
  next
    case (Inr w3)
    have "same_session v w3" using s3 Inr by simp
    then have "same_session v (run_callback (case openai_client w3 of None \<Rightarrow> None | Some c \<Rightarrow> on_connected c) w3)"
      by (blast intro: same_session_trans same_run_callback)
    then show "same_session v (case send_session_update v of
        Inl (e, w3) \<Rightarrow> handle_connection_failure (upd_client (\<lambda>c. c \<lparr> is_connected := False \<rparr>) w3)
      | Inr w3 \<Rightarrow> run_callback (case openai_client w3 of None \<Rightarrow> None | Some c \<Rightarrow> on_connected c) w3)"
      by (simp add: Inr)
  qed
qed













section \<open>Properties of the states a call reaches\<close>

lemma cws_same: "same_session w v \<Longrightarrow> client_while_streaming w \<Longrightarrow> client_while_streaming v"
  by (simp add: same_session_def client_while_streaming_def)

lemma cws_handle_truncation: "client_while_streaming w \<Longrightarrow> client_while_streaming (handle_truncation w)"
proof (cases "truncation_guard w")
  case True
  assume "client_while_streaming w"
  then show ?thesis using handle_truncation_fields [OF True]
    by (simp add: client_while_streaming_def)
next
  case False
  assume "client_while_streaming w"
  then show ?thesis using handle_truncation_noop [OF False] by simp
qed

lemma cws_handle_audio_delta: "client_while_streaming w \<Longrightarrow> client_while_streaming (handle_audio_delta m w)"
  by (auto simp: handle_audio_delta_def Let_def client_while_streaming_def send_to_twilio_def emit_def
           split: option.splits)

lemma same_handle_function_call_item: "same_session w (handle_function_call_item item w)"
  unfolding handle_function_call_item_def Let_def
  by (auto split: sum.splits
           intro: same_session_refl same_session_trans [OF same_send_message same_send_message])

lemma cws_handle_openai_message:
  assumes "client_while_streaming w"
  shows "client_while_streaming (bridge_after (handle_openai_message data w))"
proof -
  define w1 where "w1 = send_to_frontend (Mirror data) w"
  have c1: "client_while_streaming w1"
    unfolding w1_def by (rule cws_same [OF same_send_to_frontend assms])
  show ?thesis
  proof (cases data)
    case (JObj message)
    have e: "bridge_after (handle_openai_message data w) =
      (if dict_get message ''type'' = JStr ''input_audio_buffer.speech_started'' then handle_truncation w1
       else if dict_get message ''type'' = JStr ''response.audio.delta'' then handle_audio_delta message w1
       else if dict_get message ''type'' = JStr ''response.output_item.done''
            then bridge_after (handle_output_item_done message w1)
       else w1)"
      using JObj by (simp add: handle_openai_message_def Let_def w1_def bridge_after_def)
    have "client_while_streaming (bridge_after (handle_output_item_done message w1))"
      using c1 cws_same [OF same_handle_function_call_item c1]
      by (simp add: handle_output_item_done_def bridge_after_def split: json.splits)
    then show ?thesis
      unfolding e using c1 by (simp add: cws_handle_truncation cws_handle_audio_delta)
  qed (use c1 in \<open>simp_all add: handle_openai_message_def bridge_after_def w1_def\<close>)
qed

lemma cws_dispatch_frame: "client_while_streaming w \<Longrightarrow> client_while_streaming (dispatch_frame frame w)"
  unfolding dispatch_frame_eq by (simp add: cws_handle_openai_message split: option.splits)

lemma cws_listen_loop: "client_while_streaming w \<Longrightarrow> client_while_streaming (listen_loop frames e w)"
proof (induction frames arbitrary: w)
  case Nil
  then show ?case using cws_same [OF same_listen_loop_nil] by blast
next
  case (Cons f fs)
  then show ?case by (simp add: cws_dispatch_frame)
qed

lemma cws_listen_messages: "client_while_streaming w \<Longrightarrow> client_while_streaming (listen_messages w)"
  by (auto simp: listen_messages_def cws_listen_loop split: option.splits
           intro: cws_same [OF same_handle_disconnection])

lemma cws_connect: "client_while_streaming w \<Longrightarrow> client_while_streaming (snd (connect d w))"
proof (cases d)
  case Refused
  assume a: "client_while_streaming w"
  have "same_session w (handle_connection_failure (upd_client (\<lambda>c. c \<lparr> is_connected := False \<rparr>) (emit (Dial False) w)))"
    by (blast intro: same_session_trans same_emit same_upd_client same_handle_connection_failure)
  from cws_same [OF this a] Refused show ?thesis by (simp add: connect_def)
next
  case (Accepted t)
  assume a: "client_while_streaming w"
  have "client_while_streaming (listen_messages (dialled t w))"
    by (rule cws_listen_messages [OF cws_same [OF same_dialled a]])
  from cws_same [OF same_connect_tail this] Accepted show ?thesis by simp
qed

lemma cws_begin_attempt: "client_while_streaming w \<Longrightarrow> client_while_streaming (bridge_after (begin_attempt w))"
  by (auto simp: begin_attempt_def Let_def bridge_after_def client_while_streaming_def upd_client_def emit_def
           split: option.splits sum.splits)

lemma cws_task_done [simp]: "client_while_streaming (task_done w) = client_while_streaming w"
  by (simp add: task_done_def client_while_streaming_def upd_client_def)

lemma cws_upd_client [simp]: "client_while_streaming (upd_client f w) = client_while_streaming w"
  by (simp add: client_while_streaming_def upd_client_def)

lemma cws_reconnect_loop:
  "client_while_streaming w \<Longrightarrow> client_while_streaming (bridge_of (reconnect_loop script w))"
proof (induction script arbitrary: w)
  case Nil
  then show ?case by simp
next
  case (Cons a script)
  show ?case
  proof (cases "loop_condition w")
    case False
    then show ?thesis using Cons.prems by simp
  next
    case True
    show ?thesis
    proof (cases "begin_attempt w")
      case (Inl p)
      obtain e w1 where p: "p = (e, w1)" by (cases p)
      have "client_while_streaming w1"
        using cws_begin_attempt [OF Cons.prems] Inl p by (simp add: bridge_after_def)
      then show ?thesis using True Inl p by simp
    next
      case (Inr w1)
      have c1: "client_while_streaming w1"
        using cws_begin_attempt [OF Cons.prems] Inr by (simp add: bridge_after_def)
      show ?thesis
      proof (cases a)
        case Sleep_cancelled
        then show ?thesis using True Inr c1 by simp
      next
        case Disabled_during_sleep
        then show ?thesis using True Inr c1 by simp
      next
        case (Dials d)
        obtain ok w2 where cn: "connect d w1 = (ok, w2)" by (cases "connect d w1")
        have c2: "client_while_streaming w2" using cws_connect [OF c1, of d] cn by simp
        show ?thesis
          using True Inr Dials cn c2 Cons.IH [OF c2] by (cases ok) simp_all
      qed
    qed
  qed
qed

lemma cws_disconnect_all: "client_while_streaming (disconnect_all w)"
  by (simp add: disconnect_all_def client_while_streaming_def SessionState_def)

lemma cws_handle_twilio_message:
  assumes "client_while_streaming w"
  shows "client_while_streaming (bridge_after (handle_twilio_message d message w))"
proof -
  have start: "client_while_streaming (bridge_after (handle_twilio_start d message w))"
  proof (cases "dict_get_default message ''start'' (JObj [])")
    case (JObj start_data)
    define w0 where "w0 = started (dict_get start_data ''streamSid'') w"
    have e: "bridge_after (handle_twilio_start d message w) = try_connect_openai d w0"
      using JObj by (simp add: handle_twilio_start_def bridge_after_def w0_def started_def)
    have i0: "last_assistant_item (state w0) = JNull" by (simp add: w0_def started_def)
    show ?thesis
    proof (cases "truthy (stream_sid (state w0))")
      case False
      then show ?thesis unfolding e using i0 by (simp add: try_connect_openai_def client_while_streaming_def)
    next
      case True
      show ?thesis
      proof (cases "client_connected w0")
        case c: True
        then show ?thesis unfolding e using True i0
          by (auto simp: try_connect_openai_def client_while_streaming_def client_connected_def split: option.splits)
      next
        case c: False
        have "client_while_streaming (w0 \<lparr> openai_client := Some (bridge_client (saved_config (state w0))) \<rparr>)"
          using i0 by (simp add: client_while_streaming_def)
        from cws_connect [OF this, of d] show ?thesis
          unfolding e using True c by (simp add: try_connect_openai_def)
      qed
    qed
  qed (use assms in \<open>simp_all add: handle_twilio_start_def bridge_after_def\<close>)
  have media: "client_while_streaming (bridge_after (handle_twilio_media message w))"
  proof (cases "handle_twilio_media message w")
    case (Inl p)
    then have "bridge_after (handle_twilio_media message w) = w"
      by (auto simp: handle_twilio_media_def bridge_after_def Let_def split: json.splits sum.splits if_splits)
    then show ?thesis using assms by simp
  next
    case (Inr w')
    then obtain t where "w' = w \<lparr> state := (state w) \<lparr> latest_media_timestamp := Some t \<rparr> \<rparr>
        \<or> (\<exists>m. w' = send_message m (w \<lparr> state := (state w) \<lparr> latest_media_timestamp := Some t \<rparr> \<rparr>))"
      by (auto simp: handle_twilio_media_def Let_def split: json.splits sum.splits if_splits)
    moreover have "client_while_streaming (w \<lparr> state := (state w) \<lparr> latest_media_timestamp := Some t \<rparr> \<rparr>)"
      using assms by (simp add: client_while_streaming_def)
    ultimately have "client_while_streaming w'" using cws_same [OF same_send_message] by blast
    then show ?thesis using Inr by (simp add: bridge_after_def)
  qed
  show ?thesis
    using start media assms cws_disconnect_all [of w]
    by (simp add: handle_twilio_message_def Let_def) (simp add: bridge_after_def)
qed

lemma cws_handle_frontend_message:
  assumes "client_while_streaming w"
  shows "client_while_streaming (handle_frontend_message message w)"
proof -
  define w1 where "w1 = (if openai_client w \<noteq> None then send_message (Verbatim message) w else w)"
  have c1: "client_while_streaming w1"
    unfolding w1_def using assms cws_same [OF same_send_message assms] by simp
  have e: "handle_frontend_message message w =
      (if dict_get message ''type'' = JStr ''session.update''
       then w1 \<lparr> state := (state w1) \<lparr> saved_config := dict_get_default message ''session'' (JObj []) \<rparr> \<rparr>
       else w1)"
    by (simp add: handle_frontend_message_def Let_def w1_def)
  show ?thesis unfolding e using c1 by (simp add: client_while_streaming_def)
qed

lemma reachable_client_while_streaming: "reachable w \<Longrightarrow> client_while_streaming w"
proof (induction rule: reachable.induct)
  case (init hs loads)
  show ?case by (simp add: client_while_streaming_def SessionManager_def SessionState_def)
next
  case (twilio_connection w t)
  then show ?case
    by (simp add: handle_twilio_connection_def cleanup_twilio_connection_def client_while_streaming_def emit_def
          split: option.splits)
next
  case (frontend_connection w f)
  then show ?case
    by (simp add: handle_frontend_connection_def cleanup_frontend_connection_def client_while_streaming_def emit_def
          split: option.splits)
next
  case (twilio_message w d message)
  then show ?case by (simp add: cws_handle_twilio_message)
next
  case (frontend_message w message)
  then show ?case by (simp add: cws_handle_frontend_message)
next
  case (hang_up w)
  show ?case by (rule cws_disconnect_all)
next
  case (reconnecting w script)
  then show ?case by (simp add: cws_reconnect_loop)
next
  case (calling w sid)
  then show ?case by (simp add: client_while_streaming_def started_def)
next
  case (attempting w)
  then show ?case by (simp add: cws_begin_attempt)
next
  case (connection w t)
  then show ?case using cws_same [OF same_dialled] by blast
next
  case (frame w frame)
  then show ?case by (simp add: cws_dispatch_frame)
qed

lemma reachable_live_call: "reachable live_call"
  unfolding live_call_def call_answered_def call_connected_def call_started_def
  by (intro reachable.twilio_message reachable.frame reachable.connection reachable.attempting
        reachable.twilio_connection reachable.init)

lemma live_call_fields:
  "state live_call = SessionState \<lparr> stream_sid := JStr ''MZ1'', latest_media_timestamp := Some 1500,
                                    response_start_timestamp := Some 1000, last_assistant_item := JStr ''a1'' \<rparr>"
  "openai_client live_call = Some ((bridge_client JNull) \<lparr> websocket := Some speaking_peer, is_connected := True,
                                                           reconnect_task := True \<rparr>)"
  "twilio_websocket live_call = Some 1"
proof -
  define s0 where "s0 = handle_twilio_connection 1 (SessionManager Map.empty (\<lambda>s. Decode_error))"
  have s0: "s0 = (SessionManager Map.empty (\<lambda>s. Decode_error)) \<lparr> twilio_websocket := Some 1 \<rparr>"
    by (simp add: s0_def handle_twilio_connection_def cleanup_twilio_connection_def SessionManager_def)
  define s1 where "s1 = bridge_after (handle_twilio_message Refused twilio_start_frame s0)"
  have s1: "s1 = s0 \<lparr> state := SessionState \<lparr> stream_sid := JStr ''MZ1'', latest_media_timestamp := Some 0 \<rparr>,
                       openai_client := Some ((bridge_client JNull) \<lparr> reconnect_task := True \<rparr>),
                       trace := [Dial False, SpawnReconnect] \<rparr>"
    by (simp add: s1_def s0 handle_twilio_message_def handle_twilio_start_def twilio_start_frame_def
          dict_get_def dict_get_default_def bridge_after_def try_connect_openai_def client_connected_def
          SessionManager_def SessionState_def connect_def upd_client_def emit_def handle_connection_failure_def
          start_reconnect_def bridge_client_def OpenAIClient_def)
  define s2 where "s2 = bridge_after (begin_attempt s1)"
  have fl: "(60::rat) < float_limit" by (rule small_below_float_limit) simp
  have bu: "budget s1 = Some (0, 10, 2, 60)" by (simp add: s1 budget_def bridge_client_def OpenAIClient_def)
  have s2: "s2 = s1 \<lparr> openai_client := Some ((bridge_client JNull) \<lparr> reconnect_task := True, current_reconnect_attempts := 1 \<rparr>),
                       trace := [Dial False, SpawnReconnect, Sleep (Finite 2)] \<rparr>"
  proof -
    have ba: "begin_attempt s1 = Inr (emit (Sleep (Finite (spec_delay 2 60 (0 + 1))))
        (upd_client (\<lambda>c. c \<lparr> current_reconnect_attempts := current_reconnect_attempts c + 1 \<rparr>) s1))"
      by (rule begin_attempt_sleeps [OF bu _ fl]) simp_all
    show ?thesis
      unfolding s2_def ba
      by (simp add: bridge_after_def s1 upd_client_def emit_def spec_delay_def bridge_client_def OpenAIClient_def)
  qed
  define s3 where "s3 = dialled speaking_peer s2"
  have s3: "s3 = s1 \<lparr> openai_client := Some ((bridge_client JNull) \<lparr> websocket := Some speaking_peer, is_connected := True,
                                                           reconnect_task := True \<rparr>),
                       trace := [Dial False, SpawnReconnect, Sleep (Finite 2), Dial True] \<rparr>"
    by (simp add: s3_def s2 dialled_def upd_client_def emit_def bridge_client_def OpenAIClient_def)
  define s4 where "s4 = bridge_after (handle_twilio_message Refused twilio_media_frame s3)"
  have si: "safe_int (JStr ''1000'') 0 = Inr 1000"
    by (simp add: safe_int_def int_of_str_def strip_def is_space_def is_digit_def digit_val_def)
  have s4: "state s4 = SessionState \<lparr> stream_sid := JStr ''MZ1'', latest_media_timestamp := Some 1000 \<rparr>"
    "openai_client s4 = openai_client s3" "twilio_websocket s4 = Some 1" "frontend_websocket s4 = None"
    by (simp_all add: s4_def s3 s1 s0 handle_twilio_message_def handle_twilio_media_def twilio_media_frame_def
          dict_get_def dict_get_default_def si bridge_after_def client_connected_def send_message_def
          speaking_peer_def emit_def SessionManager_def SessionState_def)
  define s5 where "s5 = dispatch_frame (Some (JObj audio_delta_frame)) s4"
  have s5: "state s5 = SessionState \<lparr> stream_sid := JStr ''MZ1'', latest_media_timestamp := Some 1000,
                                    response_start_timestamp := Some 1000, last_assistant_item := JStr ''a1'' \<rparr>"
    "openai_client s5 = openai_client s3" "twilio_websocket s5 = Some 1"
    using s4
    by (simp_all add: s5_def s3 dispatch_frame_def bridge_client_def OpenAIClient_def handle_openai_message_def
          audio_delta_frame_def dict_get_def dict_get_default_def send_to_frontend_def handle_audio_delta_def
          send_to_twilio_def emit_def Let_def SessionState_def)
  have s6: "live_call = bridge_after (handle_twilio_message Refused (media_event (JInt 1500) (JStr ''AAAA'')) s5)"
    by (simp add: live_call_def call_answered_def call_connected_def call_started_def
          s5_def s4_def s3_def s2_def s1_def s0_def)
  show "state live_call = SessionState \<lparr> stream_sid := JStr ''MZ1'', latest_media_timestamp := Some 1500,
                                    response_start_timestamp := Some 1000, last_assistant_item := JStr ''a1'' \<rparr>"
    "openai_client live_call = Some ((bridge_client JNull) \<lparr> websocket := Some speaking_peer, is_connected := True,
                                                           reconnect_task := True \<rparr>)"
    "twilio_websocket live_call = Some 1"
    using s5
    by (simp_all add: s6 s3 handle_twilio_message_def handle_twilio_media_def media_event_def
          dict_get_def dict_get_default_def safe_int_def bridge_after_def client_connected_def send_message_def
          speaking_peer_def emit_def SessionState_def)
qed

text \<open>
  Claim C1.  In every state in which the program can hand an event to the bridge and in
  which \<open>last_assistant_item\<close> is set (a true value, as the guard reads it) and
  \<open>response_start_timestamp\<close> is set to \<open>r\<close>, handling a \<^verbatim>\<open>speech_started\<close> event sends
  exactly one \<^verbatim>\<open>conversation.item.truncate\<close> command, addressed to that item, with
  \<open>audio_end_ms = max (latest_media_timestamp - r) 0\<close> (an unset \<open>latest_media_timestamp\<close>
  counts as 0); the offset is never negative and is 0 whenever
  \<open>latest_media_timestamp \<le> r\<close>.  In every such state the bridge holds a client (lemma
  \<open>reachable_client_while_streaming\<close>); the command is written to the connection when it
  is open, which the flag of the effect records.
\<close>

theorem speech_started_truncates:
  assumes "reachable w"
      and "truthy (last_assistant_item (state w))"
      and "response_start_timestamp (state w) = Some r"
      and "dict_get message ''type'' = JStr ''input_audio_buffer.speech_started''"
  shows "\<exists>w'. handle_openai_message (JObj message) w = Inr w'
          \<and> filter is_truncate (new_effects w w')
              = [ToOpenAI (ConversationItemTruncate (last_assistant_item (state w)) 0
                             (audio_end_ms (state w))) (can_send w)]
          \<and> audio_end_ms (state w) = max (safe_int_field (latest_media_timestamp (state w)) - r) 0
          \<and> 0 \<le> audio_end_ms (state w)
          \<and> (safe_int_field (latest_media_timestamp (state w)) \<le> r \<longrightarrow> audio_end_ms (state w) = 0)"
proof -
  have "client_while_streaming w" by (rule reachable_client_while_streaming [OF assms(1)])
  then have c: "openai_client w \<noteq> None" using assms(2) by (simp add: client_while_streaming_def)
  show ?thesis by (rule speech_started_passes_truncate [OF assms(2,3) c assms(4)])
qed

theorem speech_started_truncates_witness:
  "reachable live_call
   \<and> truthy (last_assistant_item (state live_call))
   \<and> response_start_timestamp (state live_call) = Some 1000
   \<and> dict_get speech_started_event ''type'' = JStr ''input_audio_buffer.speech_started''
   \<and> (\<exists>w'. handle_openai_message (JObj speech_started_event) live_call = Inr w'
          \<and> filter is_truncate (new_effects live_call w')
              = [ToOpenAI (ConversationItemTruncate (JStr ''a1'') 0 500) True])"
proof -
  have h1: "reachable live_call" by (rule reachable_live_call)
  have h2: "truthy (last_assistant_item (state live_call))"
    and h3: "response_start_timestamp (state live_call) = Some 1000"
    by (simp_all add: live_call_fields SessionState_def)
  have h4: "dict_get speech_started_event ''type'' = JStr ''input_audio_buffer.speech_started''"
    by (simp add: speech_started_event_def dict_get_def)
  have v: "audio_end_ms (state live_call) = 500" "can_send live_call"
    "last_assistant_item (state live_call) = JStr ''a1''"
    by (simp_all add: live_call_fields SessionState_def audio_end_ms_def safe_int_field_def can_send_def
          speaking_peer_def)
  show ?thesis
    using speech_started_truncates [OF h1 h2 h3 h4] h1 h2 h3 h4 v by auto
qed

section \<open>Properties of connecting\<close>

lemma listen_loop_ends_closed: "\<not> can_send (listen_loop frames e w)"
proof (induction frames arbitrary: w)
  case Nil
  have "\<not> can_send (mark_closed w)"
    by (cases "openai_client w")
       (auto simp: can_send_def mark_closed_def upd_client_def split: option.splits)
  then show ?case using cannot_send_after_disconnection [of "mark_closed w"] by simp
next
  case (Cons frame frames)
  show ?case
  proof (cases "client_connected w")
    case True
    then show ?thesis using Cons.IH by simp
  next
    case False
    then show ?thesis by (auto simp: can_send_def client_connected_def split: option.splits)
  qed
qed

lemma listen_messages_ends_closed: "\<not> can_send (listen_messages w)"
proof (cases "openai_client w")
  case None
  then show ?thesis by (simp add: listen_messages_def can_send_def)
next
  case (Some c)
  show ?thesis
  proof (cases "websocket c")
    case None
    have "\<not> can_send w" using Some None by (simp add: can_send_def)
    from cannot_send_after_disconnection [OF this] Some None show ?thesis
      by (simp add: listen_messages_def)
  next
    case (Some t)
    with \<open>openai_client w = Some c\<close> show ?thesis
      by (simp add: listen_messages_def listen_loop_ends_closed)
  qed
qed

lemma connect_sends_update_after_listening:
  assumes "openai_client w \<noteq> None" and "connect (Accepted t) w = (True, w')"
  shows "\<exists>cfg es. trace w' =
            trace (listen_messages (upd_client (\<lambda>c. c \<lparr> websocket := Some t, is_connected := True,
                                                          current_reconnect_attempts := 0 \<rparr>)
                                      (emit (Dial True) w)))
            @ ToOpenAI (SessionUpdate cfg) False # es
          \<and> list_all housekeeping es"
proof -
  define w1 where "w1 = upd_client (\<lambda>c. c \<lparr> websocket := Some t, is_connected := True,
                                         current_reconnect_attempts := 0 \<rparr>) (emit (Dial True) w)"
  define w2 where "w2 = listen_messages w1"
  have c1: "openai_client w1 \<noteq> None" using assms(1) by (simp add: w1_def upd_client_def emit_def)
  have "budget w2 = budget w1" by (simp add: w2_def)
  then have c2: "openai_client w2 \<noteq> None" using c1 budget_None_iff by metis
  have ns: "\<not> can_send w2" unfolding w2_def by (rule listen_messages_ends_closed)
  have cn: "connect (Accepted t) w = (case send_session_update w2 of
                Inl (e, w3) \<Rightarrow>
                  (False, handle_connection_failure (upd_client (\<lambda>c. c \<lparr> is_connected := False \<rparr>) w3))
              | Inr w3 \<Rightarrow>
                  (True, run_callback (case openai_client w3 of None \<Rightarrow> None | Some c \<Rightarrow> on_connected c) w3))"
    by (simp add: connect_def w1_def w2_def Let_def)
  from assms(2) cn obtain w3 where s3: "send_session_update w2 = Inr w3"
    and w': "w' = run_callback (case openai_client w3 of None \<Rightarrow> None | Some c \<Rightarrow> on_connected c) w3"
    by (auto split: sum.splits prod.splits)
  from s3 c2 obtain cfg where w3: "w3 = send_message (SessionUpdate cfg) w2"
    by (auto simp: send_session_update_def split: option.splits sum.splits)
  obtain es1 where e1: "trace w3 = trace w2 @ ToOpenAI (SessionUpdate cfg) (can_send w2) # es1"
    "list_all housekeeping es1"
    using trace_send_message [OF c2, of "SessionUpdate cfg"] unfolding w3 by blast
  obtain es2 where e2: "trace w' = trace w3 @ es2" "list_all housekeeping es2"
    using trace_run_callback unfolding w' by blast
  have "trace w' = trace w2 @ ToOpenAI (SessionUpdate cfg) False # (es1 @ es2)"
    using e1 e2 ns by simp
  moreover have "list_all housekeeping (es1 @ es2)" using e1(2) e2(2) by simp
  ultimately show ?thesis unfolding w2_def w1_def by blast
qed

lemma validate_session_examples:
  "validate_session [] = Some OpenAISessionConfig"
  "validate_session [(''voice'', JStr ''alloy''), (''instructions'', JStr ''Be brief.'')]
     = Some (OpenAISessionConfig \<lparr> voice := ''alloy'' \<rparr>)"
  "validate_session [(''turn_detection'', JObj [(''type'', JStr ''server_vad''), (''threshold'', JFloat (Finite (1/2)))])]
     = None"
  by (simp_all add: validate_session_def merged_def dict_get_default_def OpenAISessionConfig_def
        json_of_strs_def json_of_str_dict_def)

text \<open>
  Claim C3.  \<^verbatim>\<open>connect\<close> resets the counter, builds the session configuration from the
  defaults and the caller's keys, calls \<open>on_connected\<close> and returns \<^verbatim>\<open>True\<close>, in that
  order; but the read loop is not left running in the background: \<^verbatim>\<open>connect\<close> awaits the
  task it creates, so the session update is handed to \<^verbatim>\<open>send_message\<close> only when the
  read loop is over, and then the client cannot send (lemma
  \<open>connect_sends_update_after_listening\<close>: whenever \<^verbatim>\<open>connect\<close> returns \<^verbatim>\<open>True\<close>, the
  session update was refused by \<^verbatim>\<open>send_message\<close>).  Against a peer that accepts the
  session and closes it, \<^verbatim>\<open>connect\<close> returns \<^verbatim>\<open>True\<close> with the session update not
  sent, the client disconnected and a reconnect task created.
\<close>

theorem connect_sends_session_update_too_late:
  "connect (Accepted quiet_peer) dialling_bridge =
     (True,
      dialling_bridge
        \<lparr> openai_client := Some ((bridge_client JNull)
             \<lparr> websocket := Some \<lparr> inbound = [], ending = CloseOK, is_open = False \<rparr>,
               is_connected := False, current_reconnect_attempts := 0, reconnect_task := True \<rparr>),
          trace := [Dial True,
                    ToOpenAI (SessionUpdate OpenAISessionConfig) False,
                    ToFrontend 2 (ConnectionStatus ''openai_disconnected'' ''OpenAI connection lost, reconnecting...''),
                    SpawnReconnect,
                    ToFrontend 2 (ConnectionStatus ''openai_connected'' ''OpenAI connection established'')] \<rparr>)"
  by (simp add: connect_def quiet_peer_def dialling_bridge_def ringing_bridge_def SessionManager_def
        bridge_client_def OpenAIClient_def upd_client_def emit_def listen_messages_def mark_closed_def
        send_session_update_def session_update_for_default send_message_def handle_disconnection_def
        start_reconnect_def send_to_frontend_def Let_def)

end
